(* ===== verification/Prelude.thy ===== *)
theory Prelude
  imports Complex_Main "HOL-Library.Sublist"
begin

text \<open>
  Shared vocabulary of the development.

  \<^item> Python's \<^verbatim>\<open>str\<close> is a sequence of Unicode code points, so text is a list of natural
    numbers (\<open>pystr\<close>), never a list of bytes: one step of a regular expression, one
    element of \<^verbatim>\<open>strip\<close> and one unit of \<^verbatim>\<open>len\<close> is one code point.  ASCII literals of
    the source are written \<open>str ''...''\<close>; the rupee sign of the price tests is the code
    point 8377.
  \<^item> \<open>pyexn\<close> names the exceptions the modelled code can raise; a function that can
    raise returns \<open>pyexn + 'a\<close> with \<open>Inl\<close> for the exception.
  \<^item> \<open>rbind\<close>, \<open>try_except\<close> and \<open>try_return\<close> are the sequencing of a block that can
    raise and the two forms of \<^verbatim>\<open>try\<close> and \<^verbatim>\<open>except\<close> of the source.
  \<^item> The collections \<open>py_eval\<close> and \<open>re_eval\<close> hold the equations that evaluate the
    string model and the matcher on closed terms.
  \<^item> The generic list facts below are the ones the component theories share.
\<close>

named_theorems py_eval \<open>equations that evaluate the Python string model on closed terms\<close>
named_theorems re_eval \<open>equations that evaluate the regular-expression matcher on closed terms\<close>

type_synonym uchar = nat
type_synonym pystr = "uchar list"

abbreviation str :: "string \<Rightarrow> pystr" where
  "str s \<equiv> map of_char s"

definition rupee :: uchar where
  "rupee = 8377"

datatype pyexn =
    ValidationError
  | TypeError
  | KeyError
  | AttributeError
  | IndexError
  | TimeoutException
  | HTTPStatusError
  | OtherError

type_synonym 'a result = "pyexn + 'a"

text \<open>
  Sequencing and handling.  \<open>rbind\<close> runs the rest of a block on the value of a step and
  stops at the first exception; \<open>try_except\<close> is \<^verbatim>\<open>try: ... except Exception: ...\<close> with a
  handler that may raise again, and \<open>try_return\<close> the form whose handler returns a value.
\<close>

definition rbind :: "'e + 'a \<Rightarrow> ('a \<Rightarrow> 'e + 'b) \<Rightarrow> 'e + 'b" where
  "rbind m f = (case m of Inl e \<Rightarrow> Inl e | Inr x \<Rightarrow> f x)"

definition try_except :: "'e + 'a \<Rightarrow> ('e \<Rightarrow> 'f + 'a) \<Rightarrow> 'f + 'a" where
  "try_except m h = (case m of Inl e \<Rightarrow> h e | Inr x \<Rightarrow> Inr x)"

definition try_return :: "'e + 'a \<Rightarrow> ('e \<Rightarrow> 'a) \<Rightarrow> 'a" where
  "try_return m h = (case m of Inl e \<Rightarrow> h e | Inr x \<Rightarrow> x)"


section \<open>Sequencing and handling: laws\<close>

lemma rbind_simps [simp]:
  "rbind (Inr x) f = f x"
  "rbind (Inl e) f = Inl e"
  by (simp_all add: rbind_def)

lemma rbind_Inr_iff: "rbind m f = Inr y \<longleftrightarrow> (\<exists>x. m = Inr x \<and> f x = Inr y)"
  by (cases m) simp_all

lemma rbind_Inl_iff: "rbind m f = Inl e \<longleftrightarrow> m = Inl e \<or> (\<exists>x. m = Inr x \<and> f x = Inl e)"
  by (cases m) simp_all

lemma rbind_assoc: "rbind (rbind m f) g = rbind m (\<lambda>x. rbind (f x) g)"
  by (cases m) simp_all

lemma try_except_simps [simp]:
  "try_except (Inr x) h = Inr x"
  "try_except (Inl e) h = h e"
  by (simp_all add: try_except_def)

lemma try_return_simps [simp]:
  "try_return (Inr x) h = x"
  "try_return (Inl e) h = h e"
  by (simp_all add: try_return_def)

lemma try_except_total: "(\<And>e. \<exists>y. h e = Inr y) \<Longrightarrow> \<exists>y. try_except m h = Inr y"
  by (cases m) simp_all


section \<open>Suffixes and lengths\<close>

lemma suffix_length_less: "suffix xs ys \<Longrightarrow> xs \<noteq> ys \<Longrightarrow> length xs < length ys"
  by (auto simp: suffix_def)

lemma suffix_same_length: "suffix xs ys \<Longrightarrow> length xs = length ys \<Longrightarrow> xs = ys"
  by (auto simp: suffix_def)

lemma suffix_take_diff: "suffix xs ys \<Longrightarrow> take (length ys - length xs) ys @ xs = ys"
  by (auto simp: suffix_def)

lemma suffix_drop_diff: "suffix xs ys \<Longrightarrow> drop (length ys - length xs) ys = xs"
  by (auto simp: suffix_def)

lemma suffix_tl_trans: "suffix xs ys \<Longrightarrow> suffix xs (y # ys)"
  by (simp add: suffix_Cons)

lemma set_take_diff_subset: "set (take n ys) \<subseteq> set ys"
  by (rule set_take_subset)


section \<open>Runs of a predicate\<close>

lemma length_takeWhile_drop:
  "n \<le> length (takeWhile P xs) \<Longrightarrow> take n xs = take n (takeWhile P xs)"
  by (metis append_eq_conv_conj takeWhile_dropWhile_id take_append
      diff_is_0_eq take_0 append_Nil2 length_take min.absorb2)

lemma take_run_all: "n \<le> length (takeWhile P xs) \<Longrightarrow> \<forall>x \<in> set (take n xs). P x"
  by (metis length_takeWhile_drop set_takeWhileD in_set_takeD)

lemma dropWhile_rev_idem: "dropWhile P (dropWhile P xs) = dropWhile P xs"
  by (induction xs) auto


section \<open>Lists of successes\<close>

lemma concat_map_bind:
  "concat (map (\<lambda>x. concat (map k (g x))) xs) = concat (map k (concat (map g xs)))"
  by (induction xs) auto


section \<open>The first element that satisfies a test\<close>

lemma find_Some_member: "find P xs = Some x \<Longrightarrow> x \<in> set xs"
  by (induction xs) (auto split: if_splits)

lemma find_Some_holds: "find P xs = Some x \<Longrightarrow> P x"
  by (induction xs) (auto split: if_splits)

lemma find_None_all: "find P xs = None \<longleftrightarrow> (\<forall>x \<in> set xs. \<not> P x)"
  by (induction xs) auto

lemma find_Nil_None: "xs = [] \<Longrightarrow> find P xs = None"
  by simp


section \<open>Counting occurrences\<close>

lemma count_list_append [simp]: "count_list (xs @ ys) c = count_list xs c + count_list ys c"
  by (induction xs) auto

lemma count_list_pos: "c \<in> set xs \<Longrightarrow> 0 < count_list xs c"
  by (induction xs) auto


section \<open>Substrings\<close>

text \<open>Python's \<^verbatim>\<open>needle in text\<close> on strings is \<^const>\<open>sublist\<close>.\<close>

lemmas [py_eval] = sublist_code prefix_code

lemma sublist_set: "sublist xs ys \<Longrightarrow> set xs \<subseteq> set ys"
  by (auto simp: sublist_def)

lemma sublist_not_member: "x \<in> set xs \<Longrightarrow> x \<notin> set ys \<Longrightarrow> \<not> sublist xs ys"
  using sublist_set by blast

end
