(* ===== verification/PyString.thy ===== *)
theory PyString
  imports Prelude
begin

text \<open>
  The methods of Python's \<^verbatim>\<open>str\<close> that \<^verbatim>\<open>src/backend/main.py\<close> calls, as functions on
  code-point lists: \<^verbatim>\<open>strip()\<close>, \<^verbatim>\<open>strip(chars)\<close>, \<^verbatim>\<open>lower()\<close>, \<^verbatim>\<open>split(',')\<close>,
  \<^verbatim>\<open>replace(old, new)\<close>, \<^verbatim>\<open>sep.join(xs)\<close>, slicing \<^verbatim>\<open>xs[:n]\<close> (\<^const>\<open>take\<close>) and
  \<^verbatim>\<open>needle in text\<close> (\<^const>\<open>sublist\<close>), with the character classes they and the
  regular expressions share.

  The classes are those of CPython 3.11 (Unicode 14.0): \<open>is_space\<close> is \<^verbatim>\<open>str.isspace\<close>
  and the class \<^verbatim>\<open>\s\<close>, 29 code points; \<open>is_decimal\<close> is the class \<^verbatim>\<open>\d\<close>, the 66 runs of
  ten decimal digits.  \<open>lower\<close> maps the code points whose lower case contains an ASCII
  letter (A to Z, U+0130, U+212A) as Python does and leaves every other code point as it
  is; Python maps those to code points outside ASCII, so every test \<^verbatim>\<open>needle in
  text.lower()\<close> of the source, whose needles are ASCII, has the same result in the model.
\<close>

section \<open>Character classes\<close>

definition is_space :: "uchar \<Rightarrow> bool" where
  "is_space c \<longleftrightarrow>
     (9 \<le> c \<and> c \<le> 13) \<or> (28 \<le> c \<and> c \<le> 32) \<or> c = 133 \<or> c = 160 \<or> c = 5760 \<or>
     (8192 \<le> c \<and> c \<le> 8202) \<or> c = 8232 \<or> c = 8233 \<or> c = 8239 \<or> c = 8287 \<or> c = 12288"

definition digit_zeros :: "uchar list" where
  "digit_zeros =
    [48, 1632, 1776, 1984, 2406, 2534, 2662, 2790, 2918, 3046, 3174, 3302, 3430, 3558,
     3664, 3792, 3872, 4160, 4240, 6112, 6160, 6470, 6608, 6784, 6800, 6992, 7088, 7232,
     7248, 42528, 43216, 43264, 43472, 43504, 43600, 44016, 65296, 66720, 68912, 69734,
     69872, 69942, 70096, 70384, 70736, 70864, 71248, 71360, 71472, 71904, 72016, 72784,
     73040, 73120, 92768, 92864, 93008, 120782, 120792, 120802, 120812, 120822, 123200,
     123632, 125264, 130032]"

definition is_decimal :: "uchar \<Rightarrow> bool" where
  "is_decimal c \<longleftrightarrow> list_ex (\<lambda>z. z \<le> c \<and> c < z + 10) digit_zeros"

definition is_ascii_upper :: "uchar \<Rightarrow> bool" where
  "is_ascii_upper c \<longleftrightarrow> 65 \<le> c \<and> c \<le> 90"

definition is_ascii_lower :: "uchar \<Rightarrow> bool" where
  "is_ascii_lower c \<longleftrightarrow> 97 \<le> c \<and> c \<le> 122"

section \<open>Methods of str\<close>

definition lower_cp :: "uchar \<Rightarrow> pystr" where
  "lower_cp c =
     (if is_ascii_upper c then [c + 32]
      else if c = 304 then [105, 775]
      else if c = 8490 then [107]
      else [c])"

definition lower :: "pystr \<Rightarrow> pystr" where
  "lower s = concat (map lower_cp s)"

definition lstrip :: "pystr \<Rightarrow> pystr" where
  "lstrip s = dropWhile is_space s"

definition rstrip :: "pystr \<Rightarrow> pystr" where
  "rstrip s = rev (dropWhile is_space (rev s))"

definition strip :: "pystr \<Rightarrow> pystr" where
  "strip s = rstrip (lstrip s)"

definition strip_chars :: "pystr \<Rightarrow> pystr \<Rightarrow> pystr" where
  "strip_chars cs s =
     rev (dropWhile (\<lambda>c. c \<in> set cs) (rev (dropWhile (\<lambda>c. c \<in> set cs) s)))"

text \<open>\<^verbatim>\<open>s.split(sep)\<close> for a separator of one character, the only form the source uses.\<close>

fun split :: "uchar \<Rightarrow> pystr \<Rightarrow> pystr list" where
  "split sep [] = [[]]"
| "split sep (c # s) =
     (if c = sep then [] # split sep s
      else (case split sep s of [] \<Rightarrow> [[c]] | p # ps \<Rightarrow> (c # p) # ps))"

text \<open>
  \<^verbatim>\<open>s.replace(old, new)\<close>: with an empty \<^verbatim>\<open>old\<close>, \<^verbatim>\<open>new\<close> is put before every character and
  at the end; otherwise the occurrences of \<^verbatim>\<open>old\<close> are replaced from the left without
  overlap.
\<close>

fun replace_empty :: "pystr \<Rightarrow> pystr \<Rightarrow> pystr" where
  "replace_empty new [] = new"
| "replace_empty new (c # s) = new @ c # replace_empty new s"

fun replace_from :: "pystr \<Rightarrow> pystr \<Rightarrow> nat \<Rightarrow> pystr \<Rightarrow> pystr" where
  "replace_from old new skip [] = []"
| "replace_from old new skip (c # s) =
     (if 0 < skip then replace_from old new (skip - 1) s
      else if prefix old (c # s) then new @ replace_from old new (length old - 1) s
      else c # replace_from old new 0 s)"

definition replace :: "pystr \<Rightarrow> pystr \<Rightarrow> pystr \<Rightarrow> pystr" where
  "replace old new s = (if old = [] then replace_empty new s else replace_from old new 0 s)"

fun join :: "pystr \<Rightarrow> pystr list \<Rightarrow> pystr" where
  "join sep [] = []"
| "join sep [x] = x"
| "join sep (x # y # ys) = x @ sep @ join sep (y # ys)"

lemmas [py_eval] =
  is_space_def is_decimal_def digit_zeros_def is_ascii_upper_def is_ascii_lower_def
  lower_cp_def lower_def lstrip_def rstrip_def strip_def strip_chars_def replace_def


section \<open>Character classes: facts\<close>

lemma is_space_ascii [simp]:
  "is_space 32" "is_space 10" "is_space 9" "is_space 13"
  by (simp_all add: is_space_def)

lemma not_is_space_printable: "33 \<le> c \<Longrightarrow> c \<le> 126 \<Longrightarrow> \<not> is_space c"
  by (auto simp: is_space_def)

lemma is_decimal_ascii: "48 \<le> c \<Longrightarrow> c \<le> 57 \<Longrightarrow> is_decimal c"
  by (auto simp: is_decimal_def digit_zeros_def)

lemma ascii_digit_iff: "c < 128 \<Longrightarrow> is_decimal c \<longleftrightarrow> 48 \<le> c \<and> c \<le> 57"
  by (auto simp: is_decimal_def digit_zeros_def)

lemma space_not_decimal: "is_space c \<Longrightarrow> \<not> is_decimal c"
  by (auto simp: is_space_def is_decimal_def digit_zeros_def)


section \<open>strip\<close>

lemma lstrip_Nil [simp]: "lstrip [] = []"
  by (simp add: lstrip_def)

lemma rstrip_Nil [simp]: "rstrip [] = []"
  by (simp add: rstrip_def)

lemma strip_Nil [simp]: "strip [] = []"
  by (simp add: strip_def)

lemma lstrip_suffix: "suffix (lstrip s) s"
  by (simp add: lstrip_def suffix_dropWhile)

lemma rstrip_prefix: "prefix (rstrip s) s"
proof -
  have "suffix (dropWhile is_space (rev s)) (rev s)"
    by (rule suffix_dropWhile)
  then show ?thesis
    by (simp add: rstrip_def suffix_to_prefix)
qed

lemma strip_sublist: "sublist (strip s) s"
proof -
  have "sublist (rstrip (lstrip s)) (lstrip s)"
    by (rule prefix_imp_sublist [OF rstrip_prefix])
  moreover have "sublist (lstrip s) s"
    by (rule suffix_imp_sublist [OF lstrip_suffix])
  ultimately show ?thesis
    unfolding strip_def by (rule sublist_order.order.trans)
qed

lemma set_strip: "set (strip s) \<subseteq> set s"
  by (rule sublist_set [OF strip_sublist])

lemma length_strip: "length (strip s) \<le> length s"
  using strip_sublist by (rule sublist_length_le)

lemma lstrip_hd: "lstrip s \<noteq> [] \<Longrightarrow> \<not> is_space (hd (lstrip s))"
  unfolding lstrip_def by (rule hd_dropWhile)

lemma rstrip_last: "rstrip s \<noteq> [] \<Longrightarrow> \<not> is_space (last (rstrip s))"
proof -
  assume ne: "rstrip s \<noteq> []"
  then have "dropWhile is_space (rev s) \<noteq> []"
    by (simp add: rstrip_def)
  then have "\<not> is_space (hd (dropWhile is_space (rev s)))"
    by (rule hd_dropWhile)
  with ne show ?thesis
    by (simp add: rstrip_def last_rev)
qed

lemma rstrip_keeps_hd: "rstrip s \<noteq> [] \<Longrightarrow> hd (rstrip s) = hd s"
  by (metis rstrip_prefix prefix_def hd_append2)

lemma strip_hd: "strip s \<noteq> [] \<Longrightarrow> \<not> is_space (hd (strip s))"
  unfolding strip_def
  by (metis rstrip_keeps_hd lstrip_hd rstrip_Nil)

lemma strip_last: "strip s \<noteq> [] \<Longrightarrow> \<not> is_space (last (strip s))"
  unfolding strip_def by (rule rstrip_last)

text \<open>
  \<open>stripped s\<close>: the text has no white space at either end, which is what \<^verbatim>\<open>strip\<close>
  leaves.
\<close>

definition stripped :: "pystr \<Rightarrow> bool" where
  "stripped s \<longleftrightarrow> s = [] \<or> (\<not> is_space (hd s) \<and> \<not> is_space (last s))"

lemma stripped_strip [simp]: "stripped (strip s)"
  using strip_hd [of s] strip_last [of s] by (auto simp: stripped_def)


section \<open>split, join, replace\<close>

lemma split_nonempty [simp]: "split sep s \<noteq> []"
  by (induction s) (auto split: list.splits)

lemma length_split: "length (split sep s) = Suc (count_list s sep)"
  by (induction s) (auto split: list.splits)

lemma split_no_sep: "sep \<notin> set s \<Longrightarrow> split sep s = [s]"
  by (induction s) auto

lemma split_pieces_no_sep: "p \<in> set (split sep s) \<Longrightarrow> sep \<notin> set p"
  by (induction s arbitrary: p) (auto split: if_splits list.splits)

lemma trim_sublist: "sublist (rev (dropWhile P (rev (dropWhile Q s)))) s"
proof -
  have "suffix (dropWhile P (rev (dropWhile Q s))) (rev (dropWhile Q s))"
    by (rule suffix_dropWhile)
  then have "prefix (rev (dropWhile P (rev (dropWhile Q s)))) (dropWhile Q s)"
    by (simp add: suffix_to_prefix)
  then have "sublist (rev (dropWhile P (rev (dropWhile Q s)))) (dropWhile Q s)"
    by (rule prefix_imp_sublist)
  moreover have "sublist (dropWhile Q s) s"
    by (rule suffix_imp_sublist [OF suffix_dropWhile])
  ultimately show ?thesis by (rule sublist_order.order.trans)
qed

lemma strip_chars_sublist: "sublist (strip_chars cs s) s"
  unfolding strip_chars_def by (rule trim_sublist)

lemma split_hd_prefix: "prefix (hd (split sep s)) s"
  by (induction s) (auto split: list.splits)

lemma split_sublist: "p \<in> set (split sep s) \<Longrightarrow> sublist p s"
proof (induction s arbitrary: p)
  case Nil
  then show ?case by simp
next
  case (Cons c s)
  show ?case
  proof (cases "c = sep")
    case True
    with Cons.prems have "p = [] \<or> p \<in> set (split sep s)" by simp
    then show ?thesis
      using Cons.IH by (auto simp: sublist_Cons_right)
  next
    case False
    obtain q qs where q: "split sep s = q # qs"
      by (cases "split sep s") simp_all
    with False Cons.prems have "p = c # q \<or> p \<in> set qs" by simp
    then show ?thesis
    proof
      assume "p = c # q"
      moreover from split_hd_prefix [of sep s] q have "prefix q s" by simp
      ultimately show ?thesis by (simp add: sublist_Cons_right)
    next
      assume "p \<in> set qs"
      with q have "sublist p s" by (simp add: Cons.IH)
      then show ?thesis by (simp add: sublist_Cons_right)
    qed
  qed
qed

lemma replace_empty_empty [simp]: "replace_empty [] s = s"
  by (induction s) auto

lemma replace_Nil_Nil [simp]: "replace [] [] s = s"
  by (simp add: replace_def)


section \<open>lower\<close>

lemma lower_Nil [simp]: "lower [] = []"
  by (simp add: lower_def)

lemma lower_Cons: "lower (c # s) = lower_cp c @ lower s"
  by (simp add: lower_def)

lemma lower_append [simp]: "lower (s @ t) = lower s @ lower t"
  by (simp add: lower_def)

lemma sublist_lower: "sublist w t \<Longrightarrow> sublist (lower w) (lower t)"
  by (auto simp: sublist_def simp del: lower_append) (metis lower_append)


section \<open>Numbers in formatted strings\<close>

text \<open>
  \<^verbatim>\<open>str(n)\<close> of an \<^verbatim>\<open>int\<close>, which is what an f-string puts in the place of \<^verbatim>\<open>{n}\<close>: the
  decimal digits, most significant first, behind a minus sign for a negative number.
  \<open>nat_of_digits\<close> reads a digit string back; it is the reference that \<open>str_nat\<close> is
  checked against and models no code.
\<close>

fun str_nat :: "nat \<Rightarrow> pystr" where
  "str_nat n = (if n < 10 then [48 + n] else str_nat (n div 10) @ [48 + n mod 10])"

declare str_nat.simps [simp del]

definition str_int :: "int \<Rightarrow> pystr" where
  "str_int i = (if i < 0 then 45 # str_nat (nat (- i)) else str_nat (nat i))"

definition nat_of_digits :: "pystr \<Rightarrow> nat" where
  "nat_of_digits s = foldl (\<lambda>a c. 10 * a + (c - 48)) 0 s"

lemmas [py_eval] = str_nat.simps str_int_def

lemma str_nat_nonempty [simp]: "str_nat n \<noteq> []"
  by (subst str_nat.simps) simp

lemma str_nat_digits: "c \<in> set (str_nat n) \<Longrightarrow> 48 \<le> c \<and> c \<le> 57"
proof (induction n arbitrary: c rule: str_nat.induct)
  case (1 n)
  show ?case
  proof (cases "n < 10")
    case True
    with "1.prems" show ?thesis by (simp add: str_nat.simps [of n])
  next
    case False
    with "1.prems" have "c \<in> set (str_nat (n div 10)) \<or> c = 48 + n mod 10"
      by (auto simp: str_nat.simps [of n])
    with False "1.IH" show ?thesis by auto
  qed
qed

lemma str_nat_decimal: "c \<in> set (str_nat n) \<Longrightarrow> is_decimal c"
  by (auto dest: str_nat_digits intro: is_decimal_ascii)

lemma nat_of_digits_snoc: "nat_of_digits (s @ [c]) = 10 * nat_of_digits s + (c - 48)"
  by (simp add: nat_of_digits_def)

lemma nat_of_digits_str_nat: "nat_of_digits (str_nat n) = n"
proof (induction n rule: str_nat.induct)
  case (1 n)
  show ?case
  proof (cases "n < 10")
    case True
    then show ?thesis by (simp add: str_nat.simps [of n] nat_of_digits_def)
  next
    case False
    with "1.IH" show ?thesis
      by (simp add: str_nat.simps [of n] nat_of_digits_snoc)
  qed
qed

lemma str_int_nonempty [simp]: "str_int i \<noteq> []"
  by (simp add: str_int_def)

end
