(* ===== verification/Regex.thy ===== *)
theory Regex
  imports PyString
begin

text \<open>
  The part of Python's \<^verbatim>\<open>re\<close> module that \<^verbatim>\<open>parse_restaurants_from_ai\<close> relies on:
  \<^verbatim>\<open>re.findall\<close> and \<^verbatim>\<open>re.search\<close> over patterns built from literals, the classes
  \<^verbatim>\<open>.\<close>, \<^verbatim>\<open>\s\<close> and \<^verbatim>\<open>\d\<close>, greedy and lazy repetition of one character, capturing groups,
  alternation, the lookahead \<^verbatim>\<open>(?=...)\<close> and the anchor \<^verbatim>\<open>$\<close>, under the flags
  \<^verbatim>\<open>re.IGNORECASE\<close> and \<^verbatim>\<open>re.DOTALL\<close>.

  A pattern is a value of \<open>regex\<close>.  The matcher \<open>ms\<close> is a backtracking matcher written
  as a list of successes: from a state (the groups captured so far and the text that is
  left) it returns every state in which the pattern can end, in the order in which
  Python's engine tries them, so the head of the list is the match Python reports.
  \<open>search\<close> tries the start positions from the left, \<open>findall_loop\<close> repeats the search
  behind each match and never reports an empty match at the end of the previous one.
  \<open>matches\<close> is the declarative reading of a pattern, and \<open>ms\<close> is shown to return
  exactly the ends that \<open>matches\<close> allows.

  These definitions describe the library, not code of the repository: they are what the
  calls of \<^verbatim>\<open>re.findall\<close> and \<^verbatim>\<open>re.search\<close> in the source compute.  The machine \<open>run\<close>
  at the end of the theory is a device for evaluating \<open>ms\<close> on a closed text.
\<close>

section \<open>Patterns\<close>

datatype atom = Lit uchar | AnyChar | Space | Digit

datatype regex =
    Eps
  | Atom atom
  | Seq regex regex
  | Alt regex regex
  | Repeat bool nat "nat option" atom
  | Group nat regex
  | Lookahead regex
  | Eos

record flags =
  ignorecase :: bool
  dotall :: bool

definition no_flags :: flags where
  "no_flags = \<lparr>ignorecase = False, dotall = False\<rparr>"

definition DOTALL :: flags where
  "DOTALL = \<lparr>ignorecase = False, dotall = True\<rparr>"

definition IGNORECASE_DOTALL :: flags where
  "IGNORECASE_DOTALL = \<lparr>ignorecase = True, dotall = True\<rparr>"

text \<open>Builders that keep a pattern value close to its source text.\<close>

fun seqs :: "regex list \<Rightarrow> regex" where
  "seqs [] = Eps"
| "seqs [r] = r"
| "seqs (r # rs) = Seq r (seqs rs)"

definition lits :: "pystr \<Rightarrow> regex" where
  "lits s = seqs (map (\<lambda>c. Atom (Lit c)) s)"

abbreviation star :: "atom \<Rightarrow> regex" where
  "star a \<equiv> Repeat True 0 None a"

abbreviation opt :: "atom \<Rightarrow> regex" where
  "opt a \<equiv> Repeat True 0 (Some (Suc 0)) a"

abbreviation lazy_plus :: "atom \<Rightarrow> regex" where
  "lazy_plus a \<equiv> Repeat False (Suc 0) None a"

abbreviation lazy_star :: "atom \<Rightarrow> regex" where
  "lazy_star a \<equiv> Repeat False 0 None a"


section \<open>Matching one character\<close>

text \<open>
  Under \<^verbatim>\<open>re.IGNORECASE\<close> an ASCII letter matches both of its cases and, as the \<^verbatim>\<open>re\<close>
  documentation lists, \<open>i\<close> also matches U+0130 and U+0131, \<open>s\<close> matches U+017F and \<open>k\<close>
  matches U+212A.  Literals outside the ASCII letters match themselves only; the
  patterns of the source have no other cased literal.
\<close>

definition ci_variants :: "uchar \<Rightarrow> uchar list" where
  "ci_variants a =
     (let l = (if is_ascii_upper a then a + 32 else a) in
      if is_ascii_lower l then
        [l, l - 32] @ (if l = 105 then [304, 305] else if l = 115 then [383]
                       else if l = 107 then [8490] else [])
      else [a])"

fun atom_ok :: "flags \<Rightarrow> atom \<Rightarrow> uchar \<Rightarrow> bool" where
  "atom_ok f (Lit a) c = (if ignorecase f then c \<in> set (ci_variants a) else c = a)"
| "atom_ok f AnyChar c = (dotall f \<or> c \<noteq> 10)"
| "atom_ok f Space c = is_space c"
| "atom_ok f Digit c = is_decimal c"


section \<open>The backtracking matcher\<close>

text \<open>
  A state of the matcher is the text that is left and, for every group that has been
  closed, the text at which the group began and the text behind its end: the two marks
  Python's engine keeps for a group.  \<open>group\<close> reads the text between the marks.
\<close>

type_synonym span = "pystr \<times> pystr"
type_synonym caps = "nat \<rightharpoonup> span"
type_synonym mstate = "caps \<times> pystr"

definition run_len :: "(uchar \<Rightarrow> bool) \<Rightarrow> nat option \<Rightarrow> pystr \<Rightarrow> nat" where
  "run_len p mx s =
     (let k = length (takeWhile p s) in case mx of None \<Rightarrow> k | Some m \<Rightarrow> min m k)"

definition rep_counts :: "bool \<Rightarrow> nat \<Rightarrow> nat \<Rightarrow> nat list" where
  "rep_counts greedy mn k =
     (if k < mn then [] else if greedy then rev [mn..<Suc k] else [mn..<Suc k])"

definition consumed :: "pystr \<Rightarrow> pystr \<Rightarrow> pystr" where
  "consumed s s' = take (length s - length s') s"

fun ms :: "flags \<Rightarrow> regex \<Rightarrow> mstate \<Rightarrow> mstate list" where
  "ms f Eps st = [st]"
| "ms f (Atom a) (cs, s) =
     (case s of [] \<Rightarrow> [] | c # s' \<Rightarrow> if atom_ok f a c then [(cs, s')] else [])"
| "ms f (Seq r1 r2) st = concat (map (ms f r2) (ms f r1 st))"
| "ms f (Alt r1 r2) st = ms f r1 st @ ms f r2 st"
| "ms f (Repeat g mn mx a) (cs, s) =
     map (\<lambda>n. (cs, drop n s)) (rep_counts g mn (run_len (atom_ok f a) mx s))"
| "ms f (Group i r) (cs, s) =
     map (\<lambda>(cs', s'). (cs'(i \<mapsto> (s, s')), s')) (ms f r (cs, s))"
| "ms f (Lookahead r) (cs, s) =
     (case ms f r (cs, s) of [] \<Rightarrow> [] | (cs', s') # rest \<Rightarrow> [(cs', s)])"
| "ms f Eos (cs, s) = (if s = [] \<or> s = [10] then [(cs, s)] else [])"

text \<open>
  \<open>match_at\<close> is the match that starts exactly at the head of \<open>s\<close>: the first success, or,
  when the previous match was empty and ended here (\<open>adv\<close>), the first success that
  consumes something.
\<close>

definition match_at :: "flags \<Rightarrow> regex \<Rightarrow> bool \<Rightarrow> pystr \<Rightarrow> mstate option" where
  "match_at f r adv s =
     find (\<lambda>(cs, s'). \<not> adv \<or> length s' < length s) (ms f r (Map.empty, s))"

text \<open>
  \<open>search_from\<close> returns the text at which the leftmost match starts, its groups and
  the text behind it.
\<close>

fun search_from :: "flags \<Rightarrow> regex \<Rightarrow> bool \<Rightarrow> pystr \<Rightarrow> (pystr \<times> caps \<times> pystr) option" where
  "search_from f r adv [] =
     (case match_at f r adv [] of None \<Rightarrow> None | Some (cs, s') \<Rightarrow> Some ([], cs, s'))"
| "search_from f r adv (c # s) =
     (case match_at f r adv (c # s) of
        Some (cs, s') \<Rightarrow> Some (c # s, cs, s')
      | None \<Rightarrow> search_from f r False s)"

definition search :: "flags \<Rightarrow> regex \<Rightarrow> pystr \<Rightarrow> caps option" where
  "search f r s = map_option (\<lambda>(start, cs, s'). cs) (search_from f r False s)"

definition group :: "caps \<Rightarrow> nat \<Rightarrow> pystr" where
  "group cs i = (case cs i of None \<Rightarrow> [] | Some (b, e) \<Rightarrow> consumed b e)"


section \<open>The matcher only moves forward\<close>

lemma ms_suffix: "(cs', s') \<in> set (ms f r (cs, s)) \<Longrightarrow> suffix s' s"
proof (induction r arbitrary: cs s cs' s')
  case (Seq r1 r2)
  then obtain cm sm where "(cm, sm) \<in> set (ms f r1 (cs, s))" "(cs', s') \<in> set (ms f r2 (cm, sm))"
    by auto
  with Seq.IH show ?case
    by (blast intro: suffix_order.trans)
next
  case (Repeat g mn mx a)
  then show ?case by (auto simp: suffix_drop)
next
  case (Lookahead r)
  then show ?case by (auto split: list.splits)
qed (auto simp: suffix_Cons split: list.splits if_splits)

lemma ms_length: "(cs', s') \<in> set (ms f r (cs, s)) \<Longrightarrow> length s' \<le> length s"
  by (rule suffix_length_le [OF ms_suffix])

lemma match_at_Some:
  assumes "match_at f r adv s = Some (cs', s')"
  shows "suffix s' s" and "adv \<Longrightarrow> length s' < length s"
    and "(cs', s') \<in> set (ms f r (Map.empty, s))"
proof -
  from assms show in_ms: "(cs', s') \<in> set (ms f r (Map.empty, s))"
    unfolding match_at_def by (rule find_Some_member)
  then show "suffix s' s" by (rule ms_suffix)
  from assms show "adv \<Longrightarrow> length s' < length s"
    unfolding match_at_def by (auto dest: find_Some_holds)
qed

lemma search_from_Some:
  assumes "search_from f r adv s = Some (start, cs', s')"
  shows "suffix start s" and "suffix s' start"
    and "match_at f r (adv \<and> start = s) start = Some (cs', s')"
  using assms
proof (induction s arbitrary: adv)
  case Nil
  { case 1 then show ?case by (auto split: option.splits) }
  { case 2 then show ?case by (auto split: option.splits dest: match_at_Some(1)) }
  { case 3 then show ?case by (auto split: option.splits) }
next
  case (Cons c s)
  { case 1 with Cons.IH(1) show ?case
      by (auto split: option.splits intro: suffix_tl_trans) }
  { case 2 with Cons.IH(2) show ?case
      by (auto split: option.splits dest: match_at_Some(1)) }
  { case 3
    show ?case
    proof (cases "match_at f r adv (c # s)")
      case None
      with 3 have rest: "search_from f r False s = Some (start, cs', s')" by simp
      then have "suffix start s" by (rule Cons.IH(1))
      then have "start \<noteq> c # s"
        by (auto dest: suffix_length_le)
      with Cons.IH(3) [OF rest] show ?thesis by simp
    next
      case (Some m)
      with 3 show ?thesis by (cases m) auto
    qed }
qed

lemma search_from_progress:
  assumes "search_from f r adv s = Some (start, cs', s')"
  shows "length s' \<le> length s" and "adv \<Longrightarrow> length s' < length s"
proof -
  note facts = search_from_Some [OF assms]
  from facts(1,2) show "length s' \<le> length s"
    by (meson suffix_length_le le_trans)
  show "length s' < length s" if adv
  proof (cases "start = s")
    case True
    with facts(3) that show ?thesis by (auto dest: match_at_Some(2))
  next
    case False
    with facts(1) have "length start < length s" by (rule suffix_length_less)
    with facts(2) show ?thesis by (meson suffix_length_le le_less_trans)
  qed
qed


section \<open>findall\<close>

function findall_loop :: "flags \<Rightarrow> regex \<Rightarrow> bool \<Rightarrow> pystr \<Rightarrow> caps list" where
  "findall_loop f r adv s =
     (case search_from f r adv s of
        None \<Rightarrow> []
      | Some (start, cs, s') \<Rightarrow> cs # findall_loop f r (length s' = length start) s')"
  by pat_completeness auto
termination
proof (relation "measures [\<lambda>(f, r, adv, s). length s, \<lambda>(f, r, adv, s). if adv then 0 else 1]",
    goal_cases)
  case 1
  show ?case by simp
next
  case (2 f r adv s m start rest cs s')
  then have found: "search_from f r adv s = Some (start, cs, s')" by simp
  have le: "length s' \<le> length s" and adv: "adv \<Longrightarrow> length s' < length s"
    by (rule search_from_progress [OF found])+
  have same: "length s' = length start" if "length s' = length s"
    using search_from_Some(1,2) [OF found] that
    by (metis suffix_length_le le_antisym)
  show ?case
  proof (cases "length s' < length s")
    case True
    then show ?thesis by simp
  next
    case False
    with le have eq: "length s' = length s" by simp
    with adv have "\<not> adv" by auto
    with eq same show ?thesis by simp
  qed
qed

declare findall_loop.simps [simp del]

fun ngroups :: "regex \<Rightarrow> nat" where
  "ngroups (Seq r1 r2) = max (ngroups r1) (ngroups r2)"
| "ngroups (Alt r1 r2) = max (ngroups r1) (ngroups r2)"
| "ngroups (Group i r) = max i (ngroups r)"
| "ngroups (Lookahead r) = ngroups r"
| "ngroups r = 0"

definition groups :: "nat \<Rightarrow> caps \<Rightarrow> pystr list" where
  "groups n cs = map (group cs) [1..<Suc n]"

text \<open>
  \<^verbatim>\<open>re.findall\<close> returns the tuple of groups of every match when the pattern has
  several groups and the text of the group when it has one.
\<close>

definition findall_tuples :: "flags \<Rightarrow> regex \<Rightarrow> pystr \<Rightarrow> pystr list list" where
  "findall_tuples f r s = map (groups (ngroups r)) (findall_loop f r False s)"

definition findall_strings :: "flags \<Rightarrow> regex \<Rightarrow> pystr \<Rightarrow> pystr list" where
  "findall_strings f r s = map (\<lambda>cs. group cs 1) (findall_loop f r False s)"

section \<open>What a match has read\<close>

lemma consumed_append: "consumed (w @ s) s = w"
  by (simp add: consumed_def)

lemma consumed_self [simp]: "consumed s s = []"
  by (simp add: consumed_def)

lemma consumed_split: "suffix s' s \<Longrightarrow> consumed s s' @ s' = s"
  unfolding consumed_def by (rule suffix_take_diff)

lemma consumed_trans:
  assumes "suffix s2 s1" and "suffix s1 s"
  shows "consumed s s2 = consumed s s1 @ consumed s1 s2"
proof -
  from assms obtain u v where "s1 = u @ s2" "s = v @ s1"
    by (auto simp: suffix_def)
  then show ?thesis
    by (simp add: consumed_append consumed_append [of "v @ u" s2, simplified])
qed

lemma consumed_sublist: "suffix s' s \<Longrightarrow> sublist (consumed s s') s"
  unfolding consumed_def by (rule prefix_imp_sublist [OF take_is_prefix])

lemma consumed_drop: "n \<le> length s \<Longrightarrow> consumed s (drop n s) = take n s"
  by (simp add: consumed_def)

text \<open>
  \<open>needs f c r\<close>: every match of \<open>r\<close> reads the character \<open>c\<close>.  It is a syntactic test,
  sufficient and not necessary.
\<close>

fun needs_atom :: "flags \<Rightarrow> uchar \<Rightarrow> atom \<Rightarrow> bool" where
  "needs_atom f c (Lit a) = (if ignorecase f then ci_variants a = [c] else a = c)"
| "needs_atom f c a = False"

fun needs :: "flags \<Rightarrow> uchar \<Rightarrow> regex \<Rightarrow> bool" where
  "needs f c (Atom a) = needs_atom f c a"
| "needs f c (Seq r1 r2) = (needs f c r1 \<or> needs f c r2)"
| "needs f c (Alt r1 r2) = (needs f c r1 \<and> needs f c r2)"
| "needs f c (Repeat g mn mx a) = (0 < mn \<and> needs_atom f c a)"
| "needs f c (Group i r) = needs f c r"
| "needs f c r = False"

lemma needs_atom_ok: "needs_atom f c a \<Longrightarrow> atom_ok f a x \<Longrightarrow> x = c"
  by (cases a) (auto split: if_splits)

lemma rep_counts_bounds: "n \<in> set (rep_counts g mn k) \<longleftrightarrow> mn \<le> n \<and> n \<le> k"
  by (auto simp: rep_counts_def)

lemma run_len_le: "run_len p mx s \<le> length (takeWhile p s)"
  by (simp add: run_len_def Let_def split: option.splits)

lemma run_len_le_length: "run_len p mx s \<le> length s"
  by (rule le_trans [OF run_len_le length_takeWhile_le])

lemma needs_consumed:
  "(cs', s') \<in> set (ms f r (cs, s)) \<Longrightarrow> needs f c r \<Longrightarrow> c \<in> set (consumed s s')"
proof (induction r arbitrary: cs s cs' s')
  case (Atom a)
  then show ?case
    by (auto simp: consumed_def dest: needs_atom_ok split: list.splits if_splits)
next
  case (Seq r1 r2)
  from Seq.prems(1) obtain cm sm
    where m1: "(cm, sm) \<in> set (ms f r1 (cs, s))" and m2: "(cs', s') \<in> set (ms f r2 (cm, sm))"
    by auto
  have "consumed s s' = consumed s sm @ consumed sm s'"
    by (rule consumed_trans [OF ms_suffix [OF m2] ms_suffix [OF m1]])
  moreover from Seq.prems(2) have "needs f c r1 \<or> needs f c r2" by simp
  ultimately show ?case
    using Seq.IH(1) [OF m1] Seq.IH(2) [OF m2] by auto
next
  case (Repeat g mn mx a)
  then obtain n where n: "mn \<le> n" "n \<le> run_len (atom_ok f a) mx s" and s': "s' = drop n s"
    by (auto simp: rep_counts_bounds)
  from n have run: "n \<le> length (takeWhile (atom_ok f a) s)"
    using run_len_le le_trans by blast
  with Repeat.prems(2) n(1) have "0 < n" "n \<le> length s"
    using length_takeWhile_le le_trans by (simp, blast)
  then have "hd s \<in> set (take n s)"
    by (cases s; cases n) auto
  moreover from run have "\<forall>x \<in> set (take n s). atom_ok f a x"
    by (rule take_run_all)
  ultimately have "c \<in> set (take n s)"
    using Repeat.prems(2) needs_atom_ok by fastforce
  with \<open>n \<le> length s\<close> s' show ?case
    by (simp add: consumed_drop)
qed auto

lemma needs_no_match: "needs f c r \<Longrightarrow> c \<notin> set s \<Longrightarrow> ms f r (cs, s) = []"
proof (rule ccontr)
  assume nd: "needs f c r" and c: "c \<notin> set s" and "ms f r (cs, s) \<noteq> []"
  then obtain cs' s' where m: "(cs', s') \<in> set (ms f r (cs, s))"
    by (cases "ms f r (cs, s)") auto
  from needs_consumed [OF m nd] have "c \<in> set (consumed s s')" .
  with c show False
    by (auto simp: consumed_def dest: in_set_takeD)
qed

lemma needs_search_from: "needs f c r \<Longrightarrow> c \<notin> set s \<Longrightarrow> search_from f r adv s = None"
  by (induction s arbitrary: adv) (auto simp: match_at_def needs_no_match)

lemma needs_findall_loop: "needs f c r \<Longrightarrow> c \<notin> set s \<Longrightarrow> findall_loop f r adv s = []"
  by (simp add: findall_loop.simps needs_search_from)

lemma needs_seqs: "\<exists>r \<in> set rs. needs f c r \<Longrightarrow> needs f c (seqs rs)"
  by (induction rs rule: seqs.induct) auto

lemma match_at_adv:
  assumes "needs f c r"
  shows "match_at f r adv s = match_at f r False s"
proof -
  have "length s' < length s" if "(cs', s') \<in> set (ms f r (Map.empty, s))" for cs' s'
  proof -
    from needs_consumed [OF that assms] have "consumed s s' \<noteq> []" by auto
    then have "s' \<noteq> s" by auto
    with ms_suffix [OF that] show ?thesis by (rule suffix_length_less)
  qed
  then have "find (\<lambda>(cs, s'). \<not> adv \<or> length s' < length s) (ms f r (Map.empty, s))
      = find (\<lambda>(cs, s'). True) (ms f r (Map.empty, s))"
    by (intro find_cong) auto
  then show ?thesis by (simp add: match_at_def)
qed

lemma findall_loop_matches:
  "cs \<in> set (findall_loop f r adv s) \<Longrightarrow>
     \<exists>adv' start s'. suffix start s \<and> match_at f r adv' start = Some (cs, s')"
proof (induction f r adv s rule: findall_loop.induct)
  case (1 f r adv s)
  show ?case
  proof (cases "search_from f r adv s")
    case None
    with "1.prems" show ?thesis by (simp add: findall_loop.simps)
  next
    case (Some m)
    obtain start c1 s' where m: "m = (start, c1, s')" by (cases m)
    note found = Some [unfolded m]
    note facts = search_from_Some [OF found]
    from "1.prems" found
    consider "cs = c1" | "cs \<in> set (findall_loop f r (length s' = length start) s')"
      by (auto simp: findall_loop.simps [of f r adv s])
    then show ?thesis
    proof cases
      case 1
      with facts(1,3) show ?thesis by blast
    next
      case 2
      with found obtain adv' st2 s2 where "suffix st2 s'" "match_at f r adv' st2 = Some (cs, s2)"
        using "1.IH" by blast
      moreover from facts(1,2) have "suffix s' s" by (rule suffix_order.trans [rotated])
      ultimately show ?thesis by (blast intro: suffix_order.trans)
    qed
  qed
qed


section \<open>How many matches findall can report\<close>

text \<open>
  A pattern that needs a character reports at most one match for each occurrence of it.
\<close>

lemma needs_findall_loop_length:
  "needs f c r \<Longrightarrow> length (findall_loop f r adv s) \<le> count_list s c"
proof (induction f r adv s rule: findall_loop.induct)
  case (1 f r adv s)
  note nd = "1.prems"
  show ?case
  proof (cases "search_from f r adv s")
    case None
    then show ?thesis by (simp add: findall_loop.simps)
  next
    case (Some m)
    obtain start c1 s' where m: "m = (start, c1, s')" by (cases m)
    note found = Some [unfolded m]
    note facts = search_from_Some [OF found]
    from facts(1) obtain pre where s: "s = pre @ start" by (auto simp: suffix_def)
    have "c \<in> set (consumed start s')"
      using match_at_Some(3) [OF facts(3)] nd by (rule needs_consumed)
    then have "0 < count_list (consumed start s') c" by (rule count_list_pos)
    moreover have "count_list start c = count_list (consumed start s') c + count_list s' c"
      using consumed_split [OF facts(2)] by (metis count_list_append)
    ultimately have "Suc (count_list s' c) \<le> count_list s c"
      by (simp add: s)
    with "1.IH" [OF found refl refl nd] found show ?thesis
      by (simp add: findall_loop.simps [of f r adv s])
  qed
qed



section \<open>Groups lie inside the text\<close>

definition spans_in :: "pystr \<Rightarrow> caps \<Rightarrow> bool" where
  "spans_in s cs \<longleftrightarrow> (\<forall>i b e. cs i = Some (b, e) \<longrightarrow> suffix b s \<and> suffix e b)"

lemma spans_in_empty [simp]: "spans_in s Map.empty"
  by (simp add: spans_in_def)

lemma spans_in_upd: "spans_in s cs \<Longrightarrow> suffix b s \<Longrightarrow> suffix e b \<Longrightarrow> spans_in s (cs(i \<mapsto> (b, e)))"
  by (simp add: spans_in_def)

lemma spans_in_suffix: "spans_in s cs \<Longrightarrow> suffix s t \<Longrightarrow> spans_in t cs"
  by (auto simp: spans_in_def intro: suffix_order.trans)

lemma ms_spans:
  "(cs', s') \<in> set (ms f r (cs, s0)) \<Longrightarrow> suffix s0 s \<Longrightarrow> spans_in s cs \<Longrightarrow> spans_in s cs'"
proof (induction r arbitrary: cs s0 cs' s')
  case (Seq r1 r2)
  from Seq.prems(1) obtain cm sm
    where m1: "(cm, sm) \<in> set (ms f r1 (cs, s0))" and m2: "(cs', s') \<in> set (ms f r2 (cm, sm))"
    by auto
  from m1 Seq.prems(2,3) have "spans_in s cm" by (rule Seq.IH(1))
  moreover from ms_suffix [OF m1] Seq.prems(2) have "suffix sm s"
    by (rule suffix_order.trans)
  ultimately show ?case
    using m2 Seq.IH(2) by blast
next
  case (Group i r)
  from Group.prems(1) obtain c1
    where m: "(c1, s') \<in> set (ms f r (cs, s0))" and cs': "cs' = c1(i \<mapsto> (s0, s'))"
    by auto
  from m Group.prems(2,3) have "spans_in s c1" by (rule Group.IH)
  then show ?case
    unfolding cs' using Group.prems(2) ms_suffix [OF m] by (rule spans_in_upd)
next
  case (Lookahead r)
  from Lookahead.prems(1) obtain s1 rest where "ms f r (cs, s0) = (cs', s1) # rest"
    by (cases "ms f r (cs, s0)") (auto split: prod.splits)
  then have "(cs', s1) \<in> set (ms f r (cs, s0))" by simp
  with Lookahead.prems(2,3) show ?case
    using Lookahead.IH by blast
qed (auto split: list.splits if_splits)

lemma group_sublist: "spans_in s cs \<Longrightarrow> sublist (group cs i) s"
proof (cases "cs i")
  case None
  then show ?thesis by (simp add: group_def)
next
  case (Some sp)
  assume inv: "spans_in s cs"
  obtain b e where sp: "sp = (b, e)" by (cases sp)
  with Some inv have "suffix b s" "suffix e b"
    by (auto simp: spans_in_def)
  then have "sublist (consumed b e) b" "sublist b s"
    by (auto intro: consumed_sublist suffix_imp_sublist)
  then have "sublist (consumed b e) s"
    by (rule sublist_order.order.trans)
  with Some sp show ?thesis by (simp add: group_def)
qed

lemma search_from_spans:
  assumes "search_from f r adv s = Some (start, cs, s')"
  shows "spans_in s cs"
proof -
  note facts = search_from_Some [OF assms]
  from match_at_Some(3) [OF facts(3)] have "(cs, s') \<in> set (ms f r (Map.empty, start))" .
  then have "spans_in start cs"
    by (rule ms_spans) simp_all
  then show ?thesis using facts(1) by (rule spans_in_suffix)
qed

lemma search_spans: "search f r s = Some cs \<Longrightarrow> spans_in s cs"
  by (auto simp: search_def dest: search_from_spans)

lemma findall_loop_spans: "cs \<in> set (findall_loop f r adv s) \<Longrightarrow> spans_in s cs"
proof (induction f r adv s rule: findall_loop.induct)
  case (1 f r adv s)
  show ?case
  proof (cases "search_from f r adv s")
    case None
    with "1.prems" show ?thesis by (simp add: findall_loop.simps)
  next
    case (Some m)
    obtain start c1 s' where m: "m = (start, c1, s')" by (cases m)
    note found = Some [unfolded m]
    from "1.prems" found
    consider "cs = c1" | "cs \<in> set (findall_loop f r (length s' = length start) s')"
      by (auto simp: findall_loop.simps [of f r adv s])
    then show ?thesis
    proof cases
      case 1
      with found show ?thesis by (simp add: search_from_spans)
    next
      case 2
      with found have "spans_in s' cs" by (simp add: "1.IH")
      moreover from search_from_Some(1,2) [OF found] have "suffix s' s"
        by (blast intro: suffix_order.trans)
      ultimately show ?thesis by (rule spans_in_suffix)
    qed
  qed
qed

lemma groups_nth: "i < n \<Longrightarrow> groups n cs ! i = group cs (Suc i)"
  by (simp add: groups_def del: upt_Suc)

lemma length_groups [simp]: "length (groups n cs) = n"
  by (simp add: groups_def del: upt_Suc)

lemma findall_tuples_sublist:
  "m \<in> set (findall_tuples f r s) \<Longrightarrow> g \<in> set m \<Longrightarrow> sublist g s"
  by (auto simp: findall_tuples_def groups_def dest!: findall_loop_spans intro: group_sublist
      simp del: upt_Suc)

lemma findall_strings_sublist: "g \<in> set (findall_strings f r s) \<Longrightarrow> sublist g s"
  by (auto simp: findall_strings_def dest!: findall_loop_spans intro: group_sublist)

lemma findall_tuples_length: "m \<in> set (findall_tuples f r s) \<Longrightarrow> length m = ngroups r"
  by (auto simp: findall_tuples_def)

lemma needs_findall_tuples: "needs f c r \<Longrightarrow> c \<notin> set s \<Longrightarrow> findall_tuples f r s = []"
  by (simp add: findall_tuples_def needs_findall_loop)

lemma needs_findall_strings: "needs f c r \<Longrightarrow> c \<notin> set s \<Longrightarrow> findall_strings f r s = []"
  by (simp add: findall_strings_def needs_findall_loop)


section \<open>The declarative reading of a pattern\<close>

inductive matches :: "flags \<Rightarrow> regex \<Rightarrow> mstate \<Rightarrow> mstate \<Rightarrow> bool" for f :: flags where
  m_eps: "matches f Eps st st"
| m_atom: "atom_ok f a c \<Longrightarrow> matches f (Atom a) (cs, c # s) (cs, s)"
| m_seq: "matches f r1 st st1 \<Longrightarrow> matches f r2 st1 st2 \<Longrightarrow> matches f (Seq r1 r2) st st2"
| m_alt1: "matches f r1 st st' \<Longrightarrow> matches f (Alt r1 r2) st st'"
| m_alt2: "matches f r2 st st' \<Longrightarrow> matches f (Alt r1 r2) st st'"
| m_repeat: "mn \<le> n \<Longrightarrow> n \<le> length s \<Longrightarrow> \<forall>m. mx = Some m \<longrightarrow> n \<le> m \<Longrightarrow>
     \<forall>x \<in> set (take n s). atom_ok f a x \<Longrightarrow>
     matches f (Repeat g mn mx a) (cs, s) (cs, drop n s)"
| m_group: "matches f r (cs, s) (cs', s') \<Longrightarrow>
     matches f (Group i r) (cs, s) (cs'(i \<mapsto> (s, s')), s')"
| m_look: "matches f r (cs, s) (cs', s') \<Longrightarrow> matches f (Lookahead r) (cs, s) (cs', s)"
| m_eos: "s = [] \<or> s = [10] \<Longrightarrow> matches f Eos (cs, s) (cs, s)"

inductive_cases matches_EpsE: "matches f Eps st st'"
inductive_cases matches_AtomE: "matches f (Atom a) st st'"
inductive_cases matches_SeqE: "matches f (Seq r1 r2) st st'"
inductive_cases matches_AltE: "matches f (Alt r1 r2) st st'"
inductive_cases matches_RepeatE: "matches f (Repeat g mn mx a) st st'"
inductive_cases matches_GroupE: "matches f (Group i r) st st'"
inductive_cases matches_LookE: "matches f (Lookahead r) st st'"
inductive_cases matches_EosE: "matches f Eos st st'"

lemma run_len_iff:
  "n \<le> run_len p mx s \<longleftrightarrow>
     n \<le> length s \<and> (\<forall>m. mx = Some m \<longrightarrow> n \<le> m) \<and> (\<forall>x \<in> set (take n s). p x)"
proof -
  have "n \<le> length (takeWhile p s) \<longleftrightarrow> n \<le> length s \<and> (\<forall>x \<in> set (take n s). p x)"
  proof (induction s arbitrary: n)
    case Nil
    show ?case by simp
  next
    case (Cons c s)
    then show ?case by (cases n) auto
  qed
  then show ?thesis
    by (auto simp: run_len_def Let_def split: option.splits)
qed

lemma ms_sound_pair: "(cs', s') \<in> set (ms f r (cs, s)) \<Longrightarrow> matches f r (cs, s) (cs', s')"
proof (induction r arbitrary: cs s cs' s')
  case (Atom a)
  then show ?case
    by (auto intro: matches.intros split: list.splits if_splits)
next
  case (Seq r1 r2)
  from Seq.prems obtain cm sm
    where "(cm, sm) \<in> set (ms f r1 (cs, s))" "(cs', s') \<in> set (ms f r2 (cm, sm))"
    by auto
  then show ?case
    by (blast intro: m_seq Seq.IH)
next
  case (Repeat g mn mx a)
  then show ?case
    by (auto simp: rep_counts_bounds run_len_iff intro!: matches.intros)
next
  case (Lookahead r)
  from Lookahead.prems obtain s1 rest where hd: "ms f r (cs, s) = (cs', s1) # rest" and "s' = s"
    by (cases "ms f r (cs, s)") (auto split: prod.splits)
  from hd have "(cs', s1) \<in> set (ms f r (cs, s))" by simp
  then have "matches f r (cs, s) (cs', s1)" by (rule Lookahead.IH)
  with \<open>s' = s\<close> show ?case
    by (auto intro: matches.intros)
qed (auto intro: matches.intros split: if_splits)

lemma ms_sound: "st' \<in> set (ms f r st) \<Longrightarrow> matches f r st st'"
  by (cases st; cases st') (simp add: ms_sound_pair)

lemma ms_complete:
  "matches f r st st' \<Longrightarrow> \<exists>cs''. (cs'', snd st') \<in> set (ms f r (cs0, snd st))"
proof (induction arbitrary: cs0 rule: matches.induct)
  case (m_eps st)
  show ?case by (rule exI [of _ cs0]) simp
next
  case (m_atom a c cs s)
  then show ?case by (intro exI [of _ cs0]) simp
next
  case (m_seq r1 st st1 r2 st2)
  from m_seq.IH(1) obtain c1 where "(c1, snd st1) \<in> set (ms f r1 (cs0, snd st))" by blast
  moreover from m_seq.IH(2) obtain c2 where "(c2, snd st2) \<in> set (ms f r2 (c1, snd st1))" by blast
  ultimately show ?case by auto
next
  case (m_alt1 r1 st st' r2)
  then show ?case by fastforce
next
  case (m_alt2 r2 st st' r1)
  then show ?case by fastforce
next
  case (m_repeat mn n s mx a g cs)
  then have "n \<in> set (rep_counts g mn (run_len (atom_ok f a) mx s))"
    by (simp add: rep_counts_bounds run_len_iff)
  then show ?case by auto
next
  case (m_group r cs s cs' s' i)
  then obtain c1 where "(c1, s') \<in> set (ms f r (cs0, s))" by fastforce
  then show ?case by force
next
  case (m_look r cs s cs' s')
  then obtain c1 where "(c1, s') \<in> set (ms f r (cs0, s))" by fastforce
  then show ?case by (cases "ms f r (cs0, s)") auto
next
  case (m_eos s cs)
  then show ?case by (intro exI [of _ cs0]) auto
qed


text \<open>
  From a state, \<open>ms\<close> lists an end at the text \<open>s'\<close> exactly when \<open>matches\<close> allows a
  match that ends at \<open>s'\<close>.  (The groups of a lookahead are those of its first success
  in \<open>ms\<close> and of any success in \<open>matches\<close>, so the statement is about the ends; the
  order in which \<open>ms\<close> lists them is what the theorems about the extractor depend on.)
\<close>

lemma ms_matches_ends:
  "(\<exists>cs'. (cs', s') \<in> set (ms f r (cs, s))) \<longleftrightarrow> (\<exists>cs'. matches f r (cs, s) (cs', s'))"
proof
  assume "\<exists>cs'. (cs', s') \<in> set (ms f r (cs, s))"
  then show "\<exists>cs'. matches f r (cs, s) (cs', s')"
    by (blast intro: ms_sound)
next
  assume "\<exists>cs'. matches f r (cs, s) (cs', s')"
  then obtain cs' where "matches f r (cs, s) (cs', s')" ..
  from ms_complete [OF this, of cs] show "\<exists>cs'. (cs', s') \<in> set (ms f r (cs, s))"
    by simp
qed


section \<open>A backtracking machine\<close>

text \<open>
  \<open>ms\<close> is the reference: it lists every success.  To evaluate a match on a closed text
  the development runs the pattern as a backtracking machine, the way Python's engine
  does: \<open>run\<close> holds the items still to match, the groups, the text that is left and a
  stack of alternatives to return to, and its result is the first success.  The machine
  is not a new definition of matching.  \<open>conts\<close> gives a list of items its meaning in
  terms of \<open>ms\<close>, \<open>run\<close> is the first element of that meaning followed by the
  alternatives, and every step of the machine is a lemma about \<open>ms\<close>.  The lemmas are
  collected in \<open>re_eval\<close>; none of them has \<open>if\<close> or \<open>case\<close> on its left-hand side, so
  one step costs the simplifier a constant amount of work.
\<close>

datatype item = R regex | Close nat pystr

type_synonym config = "item list \<times> caps \<times> pystr"

fun step_item :: "flags \<Rightarrow> item \<Rightarrow> mstate \<Rightarrow> mstate list" where
  "step_item f (R r) st = ms f r st"
| "step_item f (Close i b) (cs, s) = [(cs(i \<mapsto> (b, s)), s)]"

primrec conts :: "flags \<Rightarrow> item list \<Rightarrow> mstate \<Rightarrow> mstate list" where
  "conts f [] st = [st]"
| "conts f (it # its) st = concat (map (conts f its) (step_item f it st))"

definition alts :: "flags \<Rightarrow> config list \<Rightarrow> mstate list" where
  "alts f stk = concat (map (\<lambda>(its, cs, s). conts f its (cs, s)) stk)"

definition first :: "'a list \<Rightarrow> 'a option" where
  "first xs = (case xs of [] \<Rightarrow> None | x # rest \<Rightarrow> Some x)"

definition run :: "flags \<Rightarrow> item list \<Rightarrow> caps \<Rightarrow> pystr \<Rightarrow> config list \<Rightarrow> mstate option" where
  "run f its cs s stk = first (conts f its (cs, s) @ alts f stk)"

definition backtrack :: "flags \<Rightarrow> config list \<Rightarrow> mstate option" where
  "backtrack f stk = first (alts f stk)"

definition dec :: "nat option \<Rightarrow> nat option" where
  "dec mx = map_option (\<lambda>m. m - 1) mx"

lemma dec_simps [simp]: "dec None = None" "dec (Some (Suc m)) = Some m"
  by (simp_all add: dec_def)

lemma first_simps [simp]: "first [] = None" "first (x # xs) = Some x"
  by (simp_all add: first_def)

lemma alts_simps [simp]:
  "alts f [] = []"
  "alts f ((its, cs, s) # stk) = conts f its (cs, s) @ alts f stk"
  by (simp_all add: alts_def)

subsection \<open>The meaning of a repetition, one character at a time\<close>

lemma run_len_Nil [simp]: "run_len p mx [] = 0"
  by (simp add: run_len_def split: option.splits)

lemma run_len_Cons:
  "run_len p mx (c # s) = (if p c \<and> mx \<noteq> Some 0 then Suc (run_len p (dec mx) s) else 0)"
  by (cases mx) (auto simp: run_len_def Let_def dec_def)

lemma rep_counts_0 [simp]: "rep_counts g mn 0 = (if mn = 0 then [0] else [])"
  by (simp add: rep_counts_def)

lemma rep_counts_Suc:
  "rep_counts g mn (Suc k) =
     (if g then map Suc (rep_counts g (mn - 1) k) @ (if mn = 0 then [0] else [])
      else (if mn = 0 then [0] else []) @ map Suc (rep_counts g (mn - 1) k))"
proof -
  have shift: "[m..<Suc (Suc k)] = (if m = 0 then [0] else []) @ map Suc [m - 1..<Suc k]"
    if "m \<le> Suc k" for m
  proof (cases m)
    case 0
    then show ?thesis
      by (simp add: upt_conv_Cons map_Suc_upt del: upt_Suc)
  next
    case (Suc m')
    then show ?thesis
      by (simp add: map_Suc_upt del: upt_Suc)
  qed
  show ?thesis
  proof (cases "Suc k < mn")
    case True
    then show ?thesis by (auto simp: rep_counts_def)
  next
    case False
    then have "mn \<le> Suc k" by simp
    from shift [OF this] False show ?thesis
      by (auto simp: rep_counts_def rev_map simp del: upt_Suc)
  qed
qed

text \<open>
  A repetition is its body once and then the rest of the repetition, or nothing: the
  unfolding that a backtracking engine performs.  \<open>more\<close> is the first choice when the
  repetition is greedy and the second when it is lazy.
\<close>

lemma ms_Repeat_Nil: "ms f (Repeat g mn mx a) (cs, []) = (if mn = 0 then [(cs, [])] else [])"
  by simp

lemma ms_Repeat_Cons:
  "ms f (Repeat g mn mx a) (cs, c # s) =
     (let more = (if atom_ok f a c \<and> mx \<noteq> Some 0
                  then ms f (Repeat g (mn - 1) (dec mx) a) (cs, s) else []);
          stop = (if mn = 0 then [(cs, c # s)] else [])
      in if g then more @ stop else stop @ more)"
proof (cases "atom_ok f a c \<and> mx \<noteq> Some 0")
  case False
  then have "run_len (atom_ok f a) mx (c # s) = 0"
    by (simp add: run_len_Cons)
  with False show ?thesis by (auto simp: Let_def)
next
  case True
  then have "run_len (atom_ok f a) mx (c # s) = Suc (run_len (atom_ok f a) (dec mx) s)"
    by (simp add: run_len_Cons)
  with True show ?thesis
    by (simp add: rep_counts_Suc comp_def Let_def del: rep_counts_0)
qed

lemma conts_Repeat_more:
  "conts f (R (Atom a) # R (Repeat g mn mx a) # its) (cs, c # s) =
     (if atom_ok f a c then conts f (R (Repeat g mn mx a) # its) (cs, s) else [])"
  by simp

lemma conts_Repeat_Suc:
  "conts f (R (Repeat g (Suc mn) mx a) # its) (cs, s) =
     (if mx = Some 0 then []
      else conts f (R (Atom a) # R (Repeat g mn (dec mx) a) # its) (cs, s))"
proof (cases s)
  case Nil
  then show ?thesis by simp
next
  case (Cons c s')
  show ?thesis
    unfolding Cons conts_Repeat_more
    by (simp add: ms_Repeat_Cons Let_def del: ms.simps)
qed

lemma conts_Repeat_0:
  "conts f (R (Repeat g 0 mx a) # its) (cs, s) =
     (let more = (if mx = Some 0 then []
                  else conts f (R (Atom a) # R (Repeat g 0 (dec mx) a) # its) (cs, s))
      in if g then more @ conts f its (cs, s) else conts f its (cs, s) @ more)"
proof (cases s)
  case Nil
  then show ?thesis by simp
next
  case (Cons c s')
  show ?thesis
    unfolding Cons conts_Repeat_more
    by (simp add: ms_Repeat_Cons Let_def del: ms.simps)
qed

subsection \<open>The steps of the machine\<close>

lemma first_append: "first (xs @ ys) = (case first xs of None \<Rightarrow> first ys | Some x \<Rightarrow> Some x)"
  by (cases xs) simp_all

lemma run_done: "run f [] cs s stk = Some (cs, s)"
  by (simp add: run_def)

lemma backtrack_Nil: "backtrack f [] = None"
  by (simp add: backtrack_def)

lemma backtrack_Cons: "backtrack f ((its, cs, s) # stk) = run f its cs s stk"
  by (simp add: backtrack_def run_def)

lemma run_Close: "run f (Close i b # its) cs s stk = run f its (cs(i \<mapsto> (b, s))) s stk"
  by (simp add: run_def)

lemma run_Eps: "run f (R Eps # its) cs s stk = run f its cs s stk"
  by (simp add: run_def)

lemma run_Atom_Nil: "run f (R (Atom a) # its) cs [] stk = backtrack f stk"
  by (simp add: run_def backtrack_def)

lemma run_Atom_ok: "atom_ok f a c \<Longrightarrow> run f (R (Atom a) # its) cs (c # s) stk = run f its cs s stk"
  by (simp add: run_def)

lemma run_Atom_no: "\<not> atom_ok f a c \<Longrightarrow> run f (R (Atom a) # its) cs (c # s) stk = backtrack f stk"
  by (simp add: run_def backtrack_def)

lemma conts_R: "conts f (R r # its) = (\<lambda>st. concat (map (conts f its) (ms f r st)))"
  by (rule ext) simp

lemma run_Seq: "run f (R (Seq r1 r2) # its) cs s stk = run f (R r1 # R r2 # its) cs s stk"
proof -
  have "conts f (R (Seq r1 r2) # its) (cs, s) = conts f (R r1 # R r2 # its) (cs, s)"
    by (simp add: conts_R concat_map_bind del: conts.simps(2))
  then show ?thesis by (simp only: run_def)
qed

lemma run_Alt:
  "run f (R (Alt r1 r2) # its) cs s stk = run f (R r1 # its) cs s ((R r2 # its, cs, s) # stk)"
  by (simp add: run_def)

lemma conts_Close:
  "conts f (Close i b # its) = (\<lambda>st. conts f its ((fst st)(i \<mapsto> (b, snd st)), snd st))"
proof (rule ext)
  fix st
  show "conts f (Close i b # its) st = conts f its ((fst st)(i \<mapsto> (b, snd st)), snd st)"
    by (cases st) simp
qed

lemma run_Group: "run f (R (Group i r) # its) cs s stk = run f (R r # Close i s # its) cs s stk"
proof -
  have "conts f (R (Group i r) # its) (cs, s) = conts f (R r # Close i s # its) (cs, s)"
    by (simp add: conts_R conts_Close comp_def case_prod_unfold del: conts.simps(2))
  then show ?thesis by (simp only: run_def)
qed

lemma run_Eos_ok:
  "s = [] \<or> s = [10] \<Longrightarrow> run f (R Eos # its) cs s stk = run f its cs s stk"
  by (auto simp: run_def)

lemma run_Eos_no:
  "\<not> (s = [] \<or> s = [10]) \<Longrightarrow> run f (R Eos # its) cs s stk = backtrack f stk"
  by (simp add: run_def backtrack_def)

lemma run_Lookahead:
  "run f (R (Lookahead r) # its) cs s stk =
     (case run f [R r] cs s [] of
        None \<Rightarrow> backtrack f stk
      | Some (cs', s') \<Rightarrow> run f its cs' s stk)"
  by (cases "ms f r (cs, s)") (auto simp: run_def backtrack_def)

lemma run_Repeat_min:
  "run f (R (Repeat g (Suc mn) None a) # its) cs s stk =
     run f (R (Atom a) # R (Repeat g mn None a) # its) cs s stk"
  "run f (R (Repeat g (Suc mn) (Some (Suc m)) a) # its) cs s stk =
     run f (R (Atom a) # R (Repeat g mn (Some m) a) # its) cs s stk"
  "run f (R (Repeat g (Suc mn) (Some 0) a) # its) cs s stk = backtrack f stk"
  unfolding run_def backtrack_def conts_Repeat_Suc by simp_all

lemma run_Repeat_lazy:
  "run f (R (Repeat False 0 None a) # its) cs s stk =
     run f its cs s ((R (Atom a) # R (Repeat False 0 None a) # its, cs, s) # stk)"
  "run f (R (Repeat False 0 (Some (Suc m)) a) # its) cs s stk =
     run f its cs s ((R (Atom a) # R (Repeat False 0 (Some m) a) # its, cs, s) # stk)"
  "run f (R (Repeat False 0 (Some 0) a) # its) cs s stk = run f its cs s stk"
  unfolding run_def conts_Repeat_0 by (simp_all add: Let_def)

lemma run_Repeat_greedy:
  "run f (R (Repeat True 0 None a) # its) cs s stk =
     run f (R (Atom a) # R (Repeat True 0 None a) # its) cs s ((its, cs, s) # stk)"
  "run f (R (Repeat True 0 (Some (Suc m)) a) # its) cs s stk =
     run f (R (Atom a) # R (Repeat True 0 (Some m) a) # its) cs s ((its, cs, s) # stk)"
  "run f (R (Repeat True 0 (Some 0) a) # its) cs s stk = run f its cs s stk"
  unfolding run_def conts_Repeat_0 by (simp_all add: Let_def)

lemma match_at_run: "match_at f r False s = run f [R r] Map.empty s []"
  by (cases "ms f r (Map.empty, s)") (simp_all add: match_at_def run_def case_prod_unfold)

lemma run_star_end:
  "run f [R (Repeat True 0 None a)] cs s stk = Some (cs, dropWhile (atom_ok f a) s)"
proof (induction s arbitrary: stk)
  case Nil
  show ?case
    by (simp only: run_Repeat_greedy(1) run_Atom_Nil backtrack_Cons run_done dropWhile.simps)
next
  case (Cons c s)
  have "run f [R (Repeat True 0 None a)] cs (c # s) stk =
      run f [R (Atom a), R (Repeat True 0 None a)] cs (c # s) (([], cs, c # s) # stk)"
    by (rule run_Repeat_greedy(1))
  also have "\<dots> = Some (cs, dropWhile (atom_ok f a) (c # s))"
  proof (cases "atom_ok f a c")
    case True
    then show ?thesis by (simp add: run_Atom_ok Cons.IH)
  next
    case False
    then show ?thesis by (simp add: run_Atom_no backtrack_Cons run_done)
  qed
  finally show ?case .
qed

lemma atom_ok_plain [simp]:
  "\<not> ignorecase f \<Longrightarrow> atom_ok f (Lit a) c \<longleftrightarrow> c = a"
  "\<not> dotall f \<Longrightarrow> atom_ok f AnyChar c \<longleftrightarrow> c \<noteq> 10"
  "dotall f \<Longrightarrow> atom_ok f AnyChar c"
  by simp_all

text \<open>
  \<open>run_steps\<close> evaluates the machine on a closed text; \<open>run_steps_sym\<close> leaves out the
  steps that unfold a greedy repetition or a lookahead, for proofs about a text that is
  not known.
\<close>

lemmas run_steps_sym =
  run_done backtrack_Nil backtrack_Cons run_Close run_Eps run_Atom_Nil run_Atom_ok run_Atom_no
  run_Seq run_Alt run_Group run_Eos_ok run_Eos_no run_Repeat_min run_Repeat_lazy

lemmas run_steps = run_steps_sym run_Lookahead run_Repeat_greedy

lemmas [re_eval] =
  no_flags_def DOTALL_def IGNORECASE_DOTALL_def lits_def ci_variants_def consumed_def
  match_at_run run_steps search_def group_def groups_def findall_tuples_def
  findall_strings_def findall_loop.simps

end
