(* ===== verification/FirstMatch.thy ===== *)
theory FirstMatch
  imports Regex
begin

text \<open>
  Rules for the match that \<^verbatim>\<open>re\<close> reports on a text of which only the shape is known: a
  text with a field of unknown content between known labels.  The theory of the
  extractor's layouts uses them to show what \<^verbatim>\<open>re.findall\<close> and \<^verbatim>\<open>re.search\<close> return on
  every text of a layout, where evaluation serves for one text only.

  \<open>wins f its st x\<close> says that the first success of the items \<open>its\<close> from the state
  \<open>st\<close> is \<open>x\<close>, in the priority order of \<open>ms\<close>: a greedy repetition takes a character
  when the rest then succeeds, a lazy one only when the rest fails without it.  The
  rules are lemmas about \<open>conts\<close>, one for each form of item.  \<open>begins\<close> reads off a
  pattern the character that every match starts with, so that \<^verbatim>\<open>findall\<close> can be followed
  across the text between two matches.
\<close>

section \<open>Flags\<close>

lemma no_flags_simps [simp]: "\<not> ignorecase no_flags" "\<not> dotall no_flags"
  by (simp_all add: no_flags_def)

lemma DOTALL_simps [simp]: "\<not> ignorecase DOTALL" "dotall DOTALL"
  by (simp_all add: DOTALL_def)

lemma IGNORECASE_DOTALL_simps [simp]: "ignorecase IGNORECASE_DOTALL" "dotall IGNORECASE_DOTALL"
  by (simp_all add: IGNORECASE_DOTALL_def)

section \<open>The first success\<close>

definition wins :: "flags \<Rightarrow> item list \<Rightarrow> mstate \<Rightarrow> mstate \<Rightarrow> bool" where
  "wins f its st x \<longleftrightarrow> first (conts f its st) = Some x"

lemma wins_iff: "wins f its st x \<longleftrightarrow> (\<exists>rest. conts f its st = x # rest)"
  by (cases "conts f its st") (auto simp: wins_def)

lemma wins_run: "wins f its (cs, s) x \<Longrightarrow> run f its cs s stk = Some x"
  by (auto simp: wins_iff run_def)

lemma wins_match_at: "wins f [R r] (Map.empty, s) x \<Longrightarrow> match_at f r False s = Some x"
  by (simp add: match_at_run wins_run)

lemma wins_Nil [simp]: "wins f [] st x \<longleftrightarrow> x = st"
  by (auto simp: wins_def)

lemma wins_Atom [simp]:
  "wins f (R (Atom a) # its) (cs, c # s) x \<longleftrightarrow> atom_ok f a c \<and> wins f its (cs, s) x"
  "\<not> wins f (R (Atom a) # its) (cs, []) x"
  by (simp_all add: wins_def)

lemma wins_Eps [simp]: "wins f (R Eps # its) st x \<longleftrightarrow> wins f its st x"
  by (simp add: wins_def)

lemma wins_Seq [simp]:
  "wins f (R (Seq r1 r2) # its) st x \<longleftrightarrow> wins f (R r1 # R r2 # its) st x"
  by (simp add: wins_def conts_R concat_map_bind del: conts.simps(2))

lemma wins_Close [simp]:
  "wins f (Close i b # its) (cs, s) x \<longleftrightarrow> wins f its (cs(i \<mapsto> (b, s)), s) x"
  by (simp add: wins_def)

lemma wins_Group [simp]:
  "wins f (R (Group i r) # its) (cs, s) x \<longleftrightarrow> wins f (R r # Close i s # its) (cs, s) x"
  by (simp add: wins_def conts_R conts_Close comp_def case_prod_unfold del: conts.simps(2))

lemma conts_Seq: "conts f (R (Seq r1 r2) # its) = conts f (R r1 # R r2 # its)"
  by (rule ext) (simp add: conts_R concat_map_bind del: conts.simps(2))

lemma conts_Eps: "conts f (R Eps # its) = conts f its"
  by (rule ext) simp

lemma conts_seqs: "conts f (R (seqs rs) # its) = conts f (map R rs @ its)"
proof (induction rs rule: seqs.induct)
  case 1
  show ?case by (simp add: conts_Eps)
next
  case (2 r)
  show ?case by simp
next
  case (3 r v va)
  have "conts f (R (seqs (r # v # va)) # its) = conts f (R r # R (seqs (v # va)) # its)"
    by (simp add: conts_Seq)
  also have "\<dots> = conts f (R r # map R (v # va) @ its)"
    unfolding conts_R [of f r] by (simp only: "3.IH")
  finally show ?case by simp
qed

lemma wins_seqs: "wins f (R (seqs rs) # its) st x \<longleftrightarrow> wins f (map R rs @ its) st x"
  by (simp only: wins_def conts_seqs)

lemma wins_lits:
  "\<not> ignorecase f \<Longrightarrow> wins f (R (lits w) # its) (cs, w @ s) x \<longleftrightarrow> wins f its (cs, s) x"
  unfolding lits_def wins_seqs by (induction w arbitrary: s) simp_all


subsection \<open>Repetitions\<close>

lemma conts_Atom_Nil: "conts f (R (Atom a) # its) (cs, []) = []"
  by simp

lemma conts_Repeat_none: "conts f (R (Repeat g 0 (Some 0) a) # its) st = conts f its st"
  by (cases st) (simp add: conts_Repeat_0 del: conts.simps)

lemma conts_star:
  "conts f (R (star a) # its) (cs, []) = conts f its (cs, [])"
  "conts f (R (star a) # its) (cs, c # s) =
     (if atom_ok f a c then conts f (R (star a) # its) (cs, s) else []) @ conts f its (cs, c # s)"
  by (subst conts_Repeat_0, simp add: conts_Atom_Nil conts_Repeat_more del: conts.simps)+

lemma conts_opt:
  "conts f (R (opt a) # its) (cs, []) = conts f its (cs, [])"
  "conts f (R (opt a) # its) (cs, c # s) =
     (if atom_ok f a c then conts f its (cs, s) else []) @ conts f its (cs, c # s)"
  by (subst conts_Repeat_0,
      simp add: conts_Atom_Nil conts_Repeat_more conts_Repeat_none dec_def del: conts.simps)+

lemma conts_lazy_star:
  "conts f (R (lazy_star a) # its) (cs, []) = conts f its (cs, [])"
  "conts f (R (lazy_star a) # its) (cs, c # s) =
     conts f its (cs, c # s) @ (if atom_ok f a c then conts f (R (lazy_star a) # its) (cs, s) else [])"
  by (subst conts_Repeat_0, simp add: conts_Atom_Nil conts_Repeat_more del: conts.simps)+

lemma conts_lazy_plus:
  "conts f (R (lazy_plus a) # its) (cs, []) = []"
  "conts f (R (lazy_plus a) # its) (cs, c # s) =
     (if atom_ok f a c then conts f (R (lazy_star a) # its) (cs, s) else [])"
  by (subst conts_Repeat_Suc, simp add: conts_Atom_Nil conts_Repeat_more del: conts.simps)+

lemma first_append_Some: "first xs = Some x \<Longrightarrow> first (xs @ ys) = Some x"
  by (cases xs) simp_all

lemma wins_star_stop [simp]:
  "wins f (R (star a) # its) (cs, []) x \<longleftrightarrow> wins f its (cs, []) x"
  "\<not> atom_ok f a c \<Longrightarrow> wins f (R (star a) # its) (cs, c # s) x \<longleftrightarrow> wins f its (cs, c # s) x"
  by (simp_all add: wins_def conts_star del: conts.simps)

lemma wins_star_step:
  "atom_ok f a c \<Longrightarrow> wins f (R (star a) # its) (cs, s) x \<Longrightarrow>
     wins f (R (star a) # its) (cs, c # s) x"
  by (simp add: wins_def conts_star first_append_Some del: conts.simps)

lemma wins_star_run:
  "list_all (atom_ok f a) w \<Longrightarrow> wins f (R (star a) # its) (cs, s) x \<Longrightarrow>
     wins f (R (star a) # its) (cs, w @ s) x"
  by (induction w) (simp_all add: wins_star_step)

lemma wins_opt_take:
  "atom_ok f a c \<Longrightarrow> wins f its (cs, s) x \<Longrightarrow> wins f (R (opt a) # its) (cs, c # s) x"
  by (simp add: wins_def conts_opt first_append_Some del: conts.simps)

lemma wins_opt_skip:
  "conts f its (cs, s) = [] \<Longrightarrow> wins f its (cs, c # s) x \<Longrightarrow>
     wins f (R (opt a) # its) (cs, c # s) x"
  by (simp add: wins_def conts_opt del: conts.simps)

lemma wins_lazy_plus [simp]:
  "wins f (R (lazy_plus a) # its) (cs, c # s) x \<longleftrightarrow>
     atom_ok f a c \<and> wins f (R (lazy_star a) # its) (cs, s) x"
  by (simp add: wins_def conts_lazy_plus del: conts.simps)

lemma wins_lazy_stop:
  "wins f its (cs, s) x \<Longrightarrow> wins f (R (lazy_star a) # its) (cs, s) x"
  by (cases s) (simp_all add: wins_def conts_lazy_star first_append_Some del: conts.simps)

lemma wins_lazy_more:
  "conts f its (cs, c # s) = [] \<Longrightarrow> atom_ok f a c \<Longrightarrow>
     wins f (R (lazy_star a) # its) (cs, s) x \<Longrightarrow> wins f (R (lazy_star a) # its) (cs, c # s) x"
  by (simp add: wins_def conts_lazy_star del: conts.simps)

text \<open>
  A lazy repetition stops at the first place where the items behind it succeed.  When
  they fail in front of every character of \<open>w\<close> and succeed behind it, the repetition
  reads exactly \<open>w\<close>.
\<close>

lemma wins_lazy_star_through:
  assumes "\<And>u v. w = u @ v \<Longrightarrow> v \<noteq> [] \<Longrightarrow> atom_ok f a (hd v) \<and> conts f its (cs, v @ s) = []"
    and "wins f its (cs, s) x"
  shows "wins f (R (lazy_star a) # its) (cs, w @ s) x"
  using assms(1)
proof (induction w)
  case Nil
  from assms(2) show ?case by (simp add: wins_lazy_stop)
next
  case (Cons c w)
  from Cons.prems [of "[]" "c # w"] have "atom_ok f a c" "conts f its (cs, c # w @ s) = []"
    by simp_all
  moreover have "wins f (R (lazy_star a) # its) (cs, w @ s) x"
  proof (rule Cons.IH)
    fix u v assume "w = u @ v" "v \<noteq> []"
    with Cons.prems [of "c # u" v]
    show "atom_ok f a (hd v) \<and> conts f its (cs, v @ s) = []" by simp
  qed
  ultimately show ?case
    by (simp add: wins_lazy_more)
qed

text \<open>\<open>blocked f its c\<close>: the items \<open>its\<close> cannot start at the character \<open>c\<close>.\<close>

definition blocked :: "flags \<Rightarrow> item list \<Rightarrow> uchar \<Rightarrow> bool" where
  "blocked f its c \<longleftrightarrow> (\<forall>cs s. conts f its (cs, c # s) = [])"

lemma blocked_Atom: "\<not> atom_ok f b c \<Longrightarrow> blocked f (R (Atom b) # its) c"
  by (simp add: blocked_def)

lemma blocked_Close: "blocked f its c \<Longrightarrow> blocked f (Close i st # its) c"
  by (simp add: blocked_def)

lemma blocked_Lookahead: "(\<And>cs s. ms f r (cs, c # s) = []) \<Longrightarrow> blocked f (R (Lookahead r) # its) c"
  by (simp add: blocked_def)

lemma wins_lazy_star_until:
  assumes "list_all (\<lambda>c. atom_ok f a c \<and> blocked f its c) w" and "wins f its (cs, s) x"
  shows "wins f (R (lazy_star a) # its) (cs, w @ s) x"
proof (rule wins_lazy_star_through [OF _ assms(2)])
  fix u v assume "w = u @ v" "v \<noteq> []"
  with assms(1) have "atom_ok f a (hd v) \<and> blocked f its (hd v)"
    by (cases v) simp_all
  with \<open>v \<noteq> []\<close> show "atom_ok f a (hd v) \<and> conts f its (cs, v @ s) = []"
    by (cases v) (simp_all add: blocked_def)
qed

text \<open>
  A lazy group of at least one character, none of which the items behind the group can
  start at: the group ends where the text \<open>w\<close> ends.
\<close>

lemma wins_group_until:
  assumes "w \<noteq> []" and "list_all (\<lambda>c. atom_ok f a c \<and> blocked f its c) w"
    and "wins f its (cs(i \<mapsto> (w @ s, s)), s) x"
  shows "wins f (R (Group i (lazy_plus a)) # its) (cs, w @ s) x"
proof -
  from assms(1) obtain c w' where w: "w = c # w'" by (cases w) auto
  with assms(2)
  have "list_all (\<lambda>c. atom_ok f a c \<and> blocked f (Close i (w @ s) # its) c) w'" "atom_ok f a c"
    by (simp_all add: list_all_iff blocked_Close)
  moreover from assms(3) have "wins f (Close i (w @ s) # its) (cs, s) x"
    by simp
  ultimately have "wins f (R (lazy_star a) # Close i (w @ s) # its) (cs, w' @ s) x"
    by (intro wins_lazy_star_until)
  with \<open>atom_ok f a c\<close> show ?thesis
    by (simp add: w del: wins_Close)
qed

lemma wins_Lookahead:
  "wins f (R (Lookahead r) # its) (cs, s) x \<longleftrightarrow>
     (case first (ms f r (cs, s)) of None \<Rightarrow> False | Some (cs', s') \<Rightarrow> wins f its (cs', s) x)"
  by (cases "ms f r (cs, s)") (auto simp: wins_def)

section \<open>Where a match can start\<close>

text \<open>
  \<open>begins f c r\<close>: every match of \<open>r\<close> starts by reading the character \<open>c\<close>.  Like
  \<open>needs\<close> it is a syntactic test, sufficient and not necessary.
\<close>

fun begins :: "flags \<Rightarrow> uchar \<Rightarrow> regex \<Rightarrow> bool" where
  "begins f c (Atom a) = needs_atom f c a"
| "begins f c (Seq r1 r2) = begins f c r1"
| "begins f c (Alt r1 r2) = (begins f c r1 \<and> begins f c r2)"
| "begins f c (Repeat g mn mx a) = (0 < mn \<and> needs_atom f c a)"
| "begins f c (Group i r) = begins f c r"
| "begins f c r = False"

lemma begins_needs: "begins f c r \<Longrightarrow> needs f c r"
  by (induction r) auto

lemma begins_ms: "begins f c r \<Longrightarrow> (cs', s') \<in> set (ms f r (cs, s)) \<Longrightarrow> \<exists>t. s = c # t"
proof (induction r arbitrary: cs s cs' s')
  case (Atom a)
  then show ?case
    by (auto dest: needs_atom_ok split: list.splits if_splits)
next
  case (Seq r1 r2)
  from Seq.prems(2) obtain cm sm where "(cm, sm) \<in> set (ms f r1 (cs, s))" by auto
  with Seq.prems(1) show ?case
    using Seq.IH(1) by simp
next
  case (Alt r1 r2)
  then show ?case by auto
next
  case (Repeat g mn mx a)
  then obtain n where n: "mn \<le> n" "n \<le> run_len (atom_ok f a) mx s"
    by (auto simp: rep_counts_bounds)
  with Repeat.prems(1) have "0 < run_len (atom_ok f a) mx s" by simp
  then obtain x t where "s = x # t" "atom_ok f a x"
    by (cases s) (auto simp: run_len_Cons split: if_splits)
  with Repeat.prems(1) show ?case
    by (auto dest: needs_atom_ok)
next
  case (Group i r)
  from Group.prems(2) obtain c1 where "(c1, s') \<in> set (ms f r (cs, s))" by auto
  with Group.prems(1) show ?case
    using Group.IH by simp
next
  case Eps
  then show ?case by simp
next
  case (Lookahead r)
  then show ?case by simp
next
  case Eos
  then show ?case by simp
qed

lemma begins_no_match: "begins f c r \<Longrightarrow> x \<noteq> c \<Longrightarrow> ms f r (cs, x # s) = []"
proof (rule ccontr)
  assume "begins f c r" and "x \<noteq> c" and "ms f r (cs, x # s) \<noteq> []"
  then obtain cs' s' where "(cs', s') \<in> set (ms f r (cs, x # s))"
    by (cases "ms f r (cs, x # s)") auto
  with \<open>begins f c r\<close> have "\<exists>t. x # s = c # t" by (rule begins_ms)
  with \<open>x \<noteq> c\<close> show False by simp
qed

lemma search_from_adv: "needs f c r \<Longrightarrow> search_from f r adv s = search_from f r False s"
  by (cases s) (simp_all add: match_at_adv [of f c r adv])

lemma search_from_past:
  assumes "\<And>u v. pre = u @ v \<Longrightarrow> v \<noteq> [] \<Longrightarrow> ms f r (Map.empty, v @ s) = []"
  shows "search_from f r False (pre @ s) = search_from f r False s"
  using assms
proof (induction pre)
  case Nil
  show ?case by simp
next
  case (Cons x pre)
  from Cons.prems [of "[]" "x # pre"] have "match_at f r False (x # pre @ s) = None"
    by (simp add: match_at_def)
  moreover have "search_from f r False (pre @ s) = search_from f r False s"
  proof (rule Cons.IH)
    fix u v assume "pre = u @ v" "v \<noteq> []"
    with Cons.prems [of "x # u" v] show "ms f r (Map.empty, v @ s) = []" by simp
  qed
  ultimately show ?case by simp
qed

lemma search_from_skip:
  assumes "begins f c r" and "c \<notin> set pre"
  shows "search_from f r adv (pre @ s) = search_from f r False s"
proof -
  have "ms f r (Map.empty, v @ s) = []" if "pre = u @ v" "v \<noteq> []" for u v
    using that assms by (cases v) (auto simp: begins_no_match)
  then have "search_from f r False (pre @ s) = search_from f r False s"
    by (rule search_from_past)
  then show ?thesis
    by (simp add: search_from_adv [OF begins_needs [OF assms(1)], of adv])
qed

lemma search_from_nowhere:
  assumes "\<And>u v. s = u @ v \<Longrightarrow> ms f r (Map.empty, v) = []"
  shows "search_from f r False s = None"
  using assms
proof (induction s)
  case Nil
  then show ?case by (simp add: match_at_def)
next
  case (Cons c s)
  from Cons.prems [of "[]"] have "match_at f r False (c # s) = None"
    by (simp add: match_at_def)
  moreover have "search_from f r False s = None"
  proof (rule Cons.IH)
    fix u v assume "s = u @ v"
    with Cons.prems [of "c # u" v] show "ms f r (Map.empty, v) = []" by simp
  qed
  ultimately show ?case by simp
qed

lemma search_from_here:
  "match_at f r adv s = Some (cs, s') \<Longrightarrow> search_from f r adv s = Some (s, cs, s')"
  by (cases s) simp_all

text \<open>
  One round of \<^verbatim>\<open>findall\<close>: behind a gap in which no match can start, the first match of
  the pattern is reported and the scan goes on behind it.
\<close>

lemma findall_loop_next:
  assumes "begins f c r" and "c \<notin> set gap" and "b \<noteq> []"
    and "wins f [R r] (Map.empty, b @ rest) (cs, rest)"
  shows "findall_loop f r adv (gap @ b @ rest) = cs # findall_loop f r False rest"
proof -
  from assms(4) have "search_from f r False (b @ rest) = Some (b @ rest, cs, rest)"
    by (intro search_from_here wins_match_at)
  with assms(1,2) have "search_from f r adv (gap @ b @ rest) = Some (b @ rest, cs, rest)"
    by (simp add: search_from_skip)
  with assms(3) show ?thesis
    by (simp add: findall_loop.simps [of f r adv])
qed

lemma findall_loop_skip:
  "begins f c r \<Longrightarrow> c \<notin> set gap \<Longrightarrow> findall_loop f r adv (gap @ s) = findall_loop f r False s"
  by (simp add: findall_loop.simps [of f r adv] findall_loop.simps [of f r False]
      search_from_skip)


section \<open>Runs of literals\<close>

lemma lits_simps:
  "lits [] = Eps" "lits [a] = Atom (Lit a)"
  "lits (a # b # w) = Seq (Atom (Lit a)) (lits (b # w))"
  by (simp_all add: lits_def)

lemma ms_lits:
  "(cs', s') \<in> set (ms f (lits w) (cs, s)) \<Longrightarrow>
     \<exists>u. s = u @ s' \<and> list_all2 (\<lambda>a c. atom_ok f (Lit a) c) w u"
proof (induction w arbitrary: s rule: induct_list012)
  case 1
  then show ?case by (simp add: lits_simps)
next
  case (2 a)
  then show ?case
    by (cases s) (auto simp: lits_simps list_all2_Cons1 split: if_splits)
next
  case (3 a b w)
  from "3.prems" obtain c t where s: "s = c # t" and c: "atom_ok f (Lit a) c"
    and "(cs', s') \<in> set (ms f (lits (b # w)) (cs, t))"
    by (cases s) (auto simp: lits_simps split: if_splits)
  with "3.IH"(2) obtain u where "t = u @ s'" "list_all2 (\<lambda>a c. atom_ok f (Lit a) c) (b # w) u"
    by blast
  with s c show ?case
    by (intro exI [of _ "c # u"]) simp
qed


end
