(* ===== verification/Json.thy ===== *)
theory Json
  imports PyString
begin

text \<open>
  The values that \<^verbatim>\<open>response.json()\<close> returns and the operations that \<^verbatim>\<open>call_ai_api\<close>
  applies to them: truth value (\<^verbatim>\<open>not x\<close>), \<^verbatim>\<open>x.get(key)\<close>, \<^verbatim>\<open>x[0]\<close> and \<^verbatim>\<open>x[key]\<close>.

  A JSON document becomes \<^verbatim>\<open>None\<close>, a \<^verbatim>\<open>bool\<close>, an \<^verbatim>\<open>int\<close>, a \<^verbatim>\<open>float\<close>, a \<^verbatim>\<open>str\<close>, a
  \<^verbatim>\<open>list\<close> or a \<^verbatim>\<open>dict\<close>.  A \<^verbatim>\<open>dict\<close> is an association list in insertion order with
  one entry for each key, a \<^verbatim>\<open>float\<close> the rational number it stands for (the floats that
  are not numbers behave like a non-zero number in every operation modelled here).

  Each operation returns its value or the exception Python raises, with the text that
  \<^verbatim>\<open>str(e)\<close> gives in CPython 3.11: the client prints that text.
\<close>

section \<open>Values\<close>

datatype json =
    JNull
  | JBool bool
  | JInt int
  | JFloat rat
  | JStr pystr
  | JArr "json list"
  | JObj "(pystr \<times> json) list"

type_synonym raised = "pyexn \<times> pystr"
type_synonym 'a attempt = "raised + 'a"

definition is_str :: "json \<Rightarrow> bool" where
  "is_str v = (case v of JStr s \<Rightarrow> True | _ \<Rightarrow> False)"

definition truthy :: "json \<Rightarrow> bool" where
  "truthy v =
     (case v of
        JNull \<Rightarrow> False
      | JBool b \<Rightarrow> b
      | JInt i \<Rightarrow> i \<noteq> 0
      | JFloat x \<Rightarrow> x \<noteq> 0
      | JStr s \<Rightarrow> s \<noteq> []
      | JArr xs \<Rightarrow> xs \<noteq> []
      | JObj kvs \<Rightarrow> kvs \<noteq> [])"

definition type_name :: "json \<Rightarrow> pystr" where
  "type_name v =
     (case v of
        JNull \<Rightarrow> str ''NoneType''
      | JBool b \<Rightarrow> str ''bool''
      | JInt i \<Rightarrow> str ''int''
      | JFloat x \<Rightarrow> str ''float''
      | JStr s \<Rightarrow> str ''str''
      | JArr xs \<Rightarrow> str ''list''
      | JObj kvs \<Rightarrow> str ''dict'')"

section \<open>Attribute access and subscripts\<close>

definition no_attribute :: "json \<Rightarrow> pystr \<Rightarrow> raised" where
  "no_attribute v a =
     (AttributeError,
      [39] @ type_name v @ [39] @ str '' object has no attribute '' @ [39] @ a @ [39])"

definition not_subscriptable :: "json \<Rightarrow> raised" where
  "not_subscriptable v = (TypeError, [39] @ type_name v @ [39] @ str '' object is not subscriptable'')"

text \<open>\<^verbatim>\<open>repr\<close> of a key without quotes, backslashes or control characters.\<close>

definition repr_key :: "pystr \<Rightarrow> pystr" where
  "repr_key k = [39] @ k @ [39]"

definition py_get :: "json \<Rightarrow> pystr \<Rightarrow> json attempt" where
  "py_get v k =
     (case v of
        JObj kvs \<Rightarrow> Inr (case map_of kvs k of None \<Rightarrow> JNull | Some x \<Rightarrow> x)
      | _ \<Rightarrow> Inl (no_attribute v (str ''get'')))"

definition py_index0 :: "json \<Rightarrow> json attempt" where
  "py_index0 v =
     (case v of
        JArr xs \<Rightarrow>
          (case xs of [] \<Rightarrow> Inl (IndexError, str ''list index out of range'') | x # _ \<Rightarrow> Inr x)
      | JStr s \<Rightarrow>
          (case s of [] \<Rightarrow> Inl (IndexError, str ''string index out of range'')
           | c # _ \<Rightarrow> Inr (JStr [c]))
      | JObj kvs \<Rightarrow> Inl (KeyError, str ''0'')
      | _ \<Rightarrow> Inl (not_subscriptable v))"

definition py_item :: "json \<Rightarrow> pystr \<Rightarrow> json attempt" where
  "py_item v k =
     (case v of
        JObj kvs \<Rightarrow> (case map_of kvs k of None \<Rightarrow> Inl (KeyError, repr_key k) | Some x \<Rightarrow> Inr x)
      | JArr xs \<Rightarrow> Inl (TypeError, str ''list indices must be integers or slices, not str'')
      | JStr s \<Rightarrow>
          Inl (TypeError, str ''string indices must be integers, not '' @ [39] @ str ''str'' @ [39])
      | _ \<Rightarrow> Inl (not_subscriptable v))"

lemmas json_defs =
  is_str_def truthy_def type_name_def no_attribute_def not_subscriptable_def repr_key_def
  py_get_def py_index0_def py_item_def

lemmas [py_eval] = json_defs

section \<open>Facts\<close>

lemma is_str_simps [simp]:
  "is_str (JStr s)" "\<not> is_str JNull" "\<not> is_str (JBool b)" "\<not> is_str (JInt i)"
  "\<not> is_str (JFloat x)" "\<not> is_str (JArr xs)" "\<not> is_str (JObj kvs)"
  by (simp_all add: is_str_def)

lemma is_str_iff: "is_str v \<longleftrightarrow> (\<exists>s. v = JStr s)"
  by (cases v) simp_all

lemma truthy_simps [simp]:
  "\<not> truthy JNull" "truthy (JBool b) = b" "truthy (JInt i) \<longleftrightarrow> i \<noteq> 0"
  "truthy (JFloat x) \<longleftrightarrow> x \<noteq> 0" "truthy (JStr s) \<longleftrightarrow> s \<noteq> []"
  "truthy (JArr xs) \<longleftrightarrow> xs \<noteq> []" "truthy (JObj kvs) \<longleftrightarrow> kvs \<noteq> []"
  by (simp_all add: truthy_def)

lemma py_get_JObj [simp]:
  "py_get (JObj kvs) k = Inr (case map_of kvs k of None \<Rightarrow> JNull | Some x \<Rightarrow> x)"
  by (simp add: py_get_def)

lemma py_get_Inr_iff: "(\<exists>x. py_get v k = Inr x) \<longleftrightarrow> (\<exists>kvs. v = JObj kvs)"
  by (cases v) (simp_all add: py_get_def)

lemma py_get_truthy:
  "py_get v k = Inr x \<Longrightarrow> truthy x \<Longrightarrow> \<exists>kvs. v = JObj kvs \<and> map_of kvs k = Some x"
  by (cases v) (auto simp: py_get_def split: option.splits)

lemma py_item_JObj [simp]:
  "py_item (JObj kvs) k =
     (case map_of kvs k of None \<Rightarrow> Inl (KeyError, repr_key k) | Some x \<Rightarrow> Inr x)"
  by (simp add: py_item_def)

lemma py_index0_JArr [simp]:
  "py_index0 (JArr (x # xs)) = Inr x"
  "py_index0 (JArr []) = Inl (IndexError, str ''list index out of range'')"
  by (simp_all add: py_index0_def)

lemma py_index0_truthy:
  "truthy v \<Longrightarrow> py_index0 v = Inr x \<Longrightarrow>
     (\<exists>xs. v = JArr (x # xs)) \<or> (\<exists>c s. v = JStr (c # s) \<and> x = JStr [c])"
  by (cases v) (auto simp: py_index0_def not_subscriptable_def split: list.splits)

end
