(* ===== verification/Models.thy ===== *)
theory Models
  imports Json
begin

text \<open>
  The data model of \<^verbatim>\<open>src/backend/main.py\<close>: one record per pydantic class, in the order
  of the source, with the field names of the source.  \<^verbatim>\<open>str\<close> is \<open>pystr\<close>, \<^verbatim>\<open>List[T]\<close> a
  list, \<^verbatim>\<open>Optional[T]\<close> an option, \<^verbatim>\<open>int\<close> an \<open>int\<close>, \<^verbatim>\<open>dict\<close> an association list in
  insertion order.  A \<^verbatim>\<open>float\<close> is the rational number it stands for: the only floats
  the program computes are ratings with one decimal.

  Several classes share field names; a field is then written with its record,
  \<open>Restaurant.name\<close> beside \<open>Hotel.name\<close>.

  pydantic checks the fields when an object is built.  The response classes are built by
  the program from values it holds, and the one field whose value can have the wrong
  type is \<^verbatim>\<open>budget_category: str\<close>, which receives the request's optional budget: the
  constructors \<open>mk_RestaurantResponse\<close> and \<open>mk_HotelResponse\<close> raise
  \<open>ValidationError\<close> for \<open>None\<close>.  The constraints of the request classes
  (\<^verbatim>\<open>Field(..., min_length=2)\<close>, \<^verbatim>\<open>ge=1, le=30\<close>) are the predicates \<open>valid_*\<close>.
  \<open>mk_TravelResponse\<close> builds the answer of the general handler from the value the
  client returned.
\<close>

section \<open>Structured entities\<close>

record Restaurant =
  name :: pystr
  location :: pystr
  signature_dishes :: "pystr list"
  price_range :: pystr
  atmosphere :: pystr
  category :: pystr
  rating :: "rat option"
  cuisine_type :: "pystr option"

record Hotel =
  name :: pystr
  location :: pystr
  price_range :: pystr
  amenities :: "pystr list"
  category :: pystr
  rating :: "rat option"
  booking_tips :: "pystr option"

record Activity =
  name :: pystr
  location :: pystr
  description :: pystr
  duration :: pystr
  cost :: "pystr option"
  time_of_day :: "pystr option"
  category :: pystr

record DayItinerary =
  day :: int
  theme :: pystr
  activities :: "Activity list"
  meals :: "Restaurant list"
  transportation_tips :: pystr
  estimated_cost :: pystr

record LocalSpecialty =
  name :: pystr
  description :: pystr
  where_to_find :: "pystr option"

text \<open>
  The labels the source lists for \<^verbatim>\<open>category\<close>, and what a restaurant entity promises its
  reader: one of these labels and at most three signature dishes.
\<close>

definition category_labels :: "pystr list" where
  "category_labels =
     [str ''fine-dining'', str ''casual'', str ''traditional'', str ''buffet'', str ''luxury'']"

definition wf_Restaurant :: "Restaurant \<Rightarrow> bool" where
  "wf_Restaurant r \<longleftrightarrow>
     length (signature_dishes r) \<le> 3 \<and> Restaurant.category r \<in> set category_labels \<and>
     Restaurant.rating r \<noteq> None"

section \<open>Responses\<close>

record RestaurantResponse =
  destination :: pystr
  restaurants :: "Restaurant list"
  local_specialties :: "LocalSpecialty list"
  tips :: "pystr list"
  budget_category :: pystr

record HotelResponse =
  destination :: pystr
  hotels :: "Hotel list"
  booking_tips :: "pystr list"
  best_areas :: "pystr list"
  budget_category :: pystr

record ItineraryResponse =
  destination :: pystr
  duration :: int
  itinerary :: "DayItinerary list"
  budget_breakdown :: "(pystr \<times> pystr) list"
  travel_tips :: "pystr list"
  packing_suggestions :: "pystr list"

record TravelResponse =
  answer :: pystr
  error :: "pystr option"

section \<open>Requests\<close>

record TravelQuery =
  question :: pystr

record ItineraryRequest =
  destination :: pystr
  duration :: int
  budget :: "pystr option"
  interests :: "pystr list option"
  travel_style :: "pystr option"

record HotelRequest =
  destination :: pystr
  budget :: "pystr option"
  preferences :: "pystr list option"

record RestaurantRequest =
  destination :: pystr
  cuisine_type :: "pystr option"
  budget :: "pystr option"

definition default_budget :: "pystr option" where
  "default_budget = Some (str ''mid-range'')"

definition valid_TravelQuery :: "TravelQuery \<Rightarrow> bool" where
  "valid_TravelQuery q \<longleftrightarrow> 1 \<le> length (question q)"

definition valid_ItineraryRequest :: "ItineraryRequest \<Rightarrow> bool" where
  "valid_ItineraryRequest r \<longleftrightarrow>
     2 \<le> length (ItineraryRequest.destination r) \<and>
     1 \<le> ItineraryRequest.duration r \<and> ItineraryRequest.duration r \<le> 30"

definition valid_HotelRequest :: "HotelRequest \<Rightarrow> bool" where
  "valid_HotelRequest r \<longleftrightarrow> 2 \<le> length (HotelRequest.destination r)"

definition valid_RestaurantRequest :: "RestaurantRequest \<Rightarrow> bool" where
  "valid_RestaurantRequest r \<longleftrightarrow> 2 \<le> length (RestaurantRequest.destination r)"

section \<open>Building a response\<close>

definition mk_RestaurantResponse ::
  "pystr \<Rightarrow> Restaurant list \<Rightarrow> LocalSpecialty list \<Rightarrow> pystr list \<Rightarrow> pystr option
     \<Rightarrow> RestaurantResponse result" where
  "mk_RestaurantResponse d rs ls ts b =
     (case b of
        None \<Rightarrow> Inl ValidationError
      | Some bc \<Rightarrow> Inr \<lparr>RestaurantResponse.destination = d, restaurants = rs,
                        local_specialties = ls, tips = ts, budget_category = bc\<rparr>)"

definition mk_HotelResponse ::
  "pystr \<Rightarrow> Hotel list \<Rightarrow> pystr list \<Rightarrow> pystr list \<Rightarrow> pystr option \<Rightarrow> HotelResponse result" where
  "mk_HotelResponse d hs bt ba b =
     (case b of
        None \<Rightarrow> Inl ValidationError
      | Some bc \<Rightarrow> Inr \<lparr>HotelResponse.destination = d, hotels = hs, booking_tips = bt,
                        best_areas = ba, budget_category = bc\<rparr>)"

text \<open>
  \<^verbatim>\<open>TravelResponse(answer=answer)\<close> receives what the client returned, which can be any
  JSON value; pydantic 2 accepts a string for a \<^verbatim>\<open>str\<close> field and nothing else.  The text
  of its validation error is pydantic's and is a parameter of the model.
\<close>

definition mk_TravelResponse :: "(json \<Rightarrow> pystr) \<Rightarrow> json \<Rightarrow> TravelResponse attempt" where
  "mk_TravelResponse validation_text answer' =
     (case answer' of
        JStr s \<Rightarrow> Inr \<lparr>answer = s, error = None\<rparr>
      | _ \<Rightarrow> Inl (ValidationError, validation_text answer'))"

lemma mk_TravelResponse_JStr [simp]:
  "mk_TravelResponse vt (JStr s) = Inr \<lparr>answer = s, error = None\<rparr>"
  by (simp add: mk_TravelResponse_def)

lemma mk_TravelResponse_other:
  "\<not> is_str v \<Longrightarrow> mk_TravelResponse vt v = Inl (ValidationError, vt v)"
  by (cases v) (simp_all add: mk_TravelResponse_def)

lemma mk_RestaurantResponse_Some [simp]:
  "mk_RestaurantResponse d rs ls ts (Some bc) =
     Inr \<lparr>RestaurantResponse.destination = d, restaurants = rs, local_specialties = ls,
          tips = ts, budget_category = bc\<rparr>"
  by (simp add: mk_RestaurantResponse_def)

lemma mk_RestaurantResponse_None [simp]:
  "mk_RestaurantResponse d rs ls ts None = Inl ValidationError"
  by (simp add: mk_RestaurantResponse_def)

lemma mk_RestaurantResponse_Inr_iff:
  "(\<exists>r. mk_RestaurantResponse d rs ls ts b = Inr r) \<longleftrightarrow> b \<noteq> None"
  by (cases b) simp_all

lemma mk_HotelResponse_Some [simp]:
  "mk_HotelResponse d hs bt ba (Some bc) =
     Inr \<lparr>HotelResponse.destination = d, hotels = hs, booking_tips = bt, best_areas = ba,
          budget_category = bc\<rparr>"
  by (simp add: mk_HotelResponse_def)

lemma mk_HotelResponse_None [simp]:
  "mk_HotelResponse d hs bt ba None = Inl ValidationError"
  by (simp add: mk_HotelResponse_def)

end
