(* ===== verification/Prompts.thy ===== *)
theory Prompts
  imports Models
begin

text \<open>
  The prompt builder: the system prompt and the user prompt of each handler of
  \<^verbatim>\<open>src/backend/main.py\<close>, as the handlers spell them.  A system prompt is a constant; a
  user prompt is an f-string over the fields of the request.  \<open>template_block\<close> is the
  block layout inside the system prompt of the restaurant handler, the layout that the
  extractor is meant to read, and \<open>specialties_heading\<close> the heading it asks for in front
  of the specialties.

  An f-string prints a field with \<^verbatim>\<open>str\<close>: an optional field that is \<^verbatim>\<open>None\<close> is printed as
  the word None (\<open>fmt_optional\<close>).  \<open>or_default\<close> is \<^verbatim>\<open>x or "..."\<close> on an optional string
  and \<open>joined_or\<close> is \<^verbatim>\<open>", ".join(xs) if xs else "..."\<close>; both take the default for
  \<^verbatim>\<open>None\<close> and for the empty value.
\<close>

section \<open>System prompts\<close>

definition travel_system_prompt :: pystr where
  "travel_system_prompt =
     str ''You are an expert travel guide with extensive worldwide knowledge. '' @ [10] @
     str ''    Provide helpful, practical travel advice with specific recommendations, '' @
     str ''costs, and insider tips.''"

definition template_block :: pystr where
  "template_block =
     str ''### 1. Restaurant Name'' @ [10] @
     str ''* *Location:* Exact address or area'' @ [10] @
     str ''* *Signature Dishes:* *Dish 1, **Dish 2, **Dish 3*'' @ [10] @
     str ''* *Price Range:* '' @ [rupee] @ str ''XXX - '' @ [rupee] @
     str ''XXX for two people'' @ [10] @
     str ''* *Atmosphere:* Brief description of ambiance'' @ [10]"

definition specialties_heading :: pystr where
  "specialties_heading = str ''### Local Specialties You Must Try:''"

definition restaurant_system_prompt :: pystr where
  "restaurant_system_prompt =
     str ''You are a food expert. Provide restaurant recommendations in this EXACT format:'' @
     [10, 10] @
     template_block @
     [10] @
     str ''### 2. Restaurant Name'' @ [10] @
     str ''[Same format]'' @ [10] @
     [10] @
     str ''Then add a section:'' @ [10] @
     [10] @
     specialties_heading @ [10] @
     str ''* *Specialty Name:* Description of the dish'' @ [10] @
     str ''* *Another Specialty:* Description'' @ [10] @
     [10] @
     str ''Provide 6-8 restaurants with complete details.''"

definition hotel_system_prompt :: pystr where
  "hotel_system_prompt =
     str ''You are a hotel expert. Provide hotel recommendations in this EXACT format:'' @
     [10, 10] @
     str ''### 1. Hotel Name'' @ [10] @
     str ''* *Location:* Exact address or area'' @ [10] @
     str ''* *Price Range:* '' @ [rupee] @ str ''XXX - '' @ [rupee] @ str ''XXX per night'' @ [10] @
     str ''* *Amenities:* Amenity 1, Amenity 2, Amenity 3'' @ [10] @
     str ''* *Category:* luxury/mid-range/budget/boutique'' @ [10] @
     str ''* *Booking Tips:* Best booking advice'' @ [10] @
     [10] @
     str ''Provide 6-8 hotels with complete details.''"

definition itinerary_system_prompt :: pystr where
  "itinerary_system_prompt =
     str ''You are a professional travel planner. Create detailed itineraries with:'' @ [10] @
     str ''    - Daily activities with specific times'' @ [10] @
     str ''    - Transportation recommendations  '' @ [10] @
     str ''    - Restaurant suggestions'' @ [10] @
     str ''    - Cost estimates'' @ [10] @
     str ''    - Insider tips and alternatives''"

section \<open>Formatting a field\<close>

definition fmt_optional :: "pystr option \<Rightarrow> pystr" where
  "fmt_optional x = (case x of None \<Rightarrow> str ''None'' | Some s \<Rightarrow> s)"

definition or_default :: "pystr option \<Rightarrow> pystr \<Rightarrow> pystr" where
  "or_default x d = (case x of None \<Rightarrow> d | Some s \<Rightarrow> if s = [] then d else s)"

definition joined_or :: "pystr list option \<Rightarrow> pystr \<Rightarrow> pystr" where
  "joined_or xs d =
     (case xs of None \<Rightarrow> d | Some ys \<Rightarrow> if ys = [] then d else join (str '', '') ys)"

section \<open>User prompts\<close>

definition restaurant_user_prompt :: "RestaurantRequest \<Rightarrow> pystr" where
  "restaurant_user_prompt request =
     (let cuisine_focus =
            or_default (RestaurantRequest.cuisine_type request)
              (str ''local specialties and popular dishes'')
      in str ''Recommend restaurants in '' @ RestaurantRequest.destination request @
         str ''.'' @ [10] @
         str ''    Budget: '' @ fmt_optional (RestaurantRequest.budget request) @ [10] @
         str ''    Cuisine: '' @ cuisine_focus @ [10] @
         str ''    '' @ [10] @
         str ''    Focus on specific names, locations, signature dishes, and exact pricing.'')"

definition hotel_user_prompt :: "HotelRequest \<Rightarrow> pystr" where
  "hotel_user_prompt request =
     (let preferences' = joined_or (preferences request) (str ''good location and reviews'')
      in str ''Recommend hotels in '' @ HotelRequest.destination request @ str ''.'' @ [10] @
         str ''    Budget: '' @ fmt_optional (HotelRequest.budget request) @ [10] @
         str ''    Preferences: '' @ preferences' @ [10] @
         str ''    '' @ [10] @
         str ''    Focus on specific names, exact locations, and detailed amenities.'')"

definition itinerary_user_prompt :: "ItineraryRequest \<Rightarrow> pystr" where
  "itinerary_user_prompt request =
     (let interests' = joined_or (interests request) (str ''general sightseeing'')
      in str ''Create a '' @ str_int (ItineraryRequest.duration request) @
         str ''-day itinerary for '' @ ItineraryRequest.destination request @ str ''.'' @ [10] @
         str ''    '' @ [10] @
         str ''    Details:'' @ [10] @
         str ''    - Budget: '' @ fmt_optional (ItineraryRequest.budget request) @ [10] @
         str ''    - Interests: '' @ interests' @ [10] @
         str ''    - Travel style: '' @ or_default (travel_style request) (str ''flexible'') @ [10] @
         str ''    '' @ [10] @
         str ''    Include specific places, timing, and practical advice.'')"

lemmas prompt_defs =
  travel_system_prompt_def template_block_def specialties_heading_def
  restaurant_system_prompt_def
  hotel_system_prompt_def itinerary_system_prompt_def fmt_optional_def or_default_def
  joined_or_def restaurant_user_prompt_def hotel_user_prompt_def itinerary_user_prompt_def

section \<open>What a prompt carries\<close>

lemma sublist_mid: "sublist m (a @ m @ b)"
  by (auto simp: sublist_def)

lemma sublist_appendI: "sublist m t \<Longrightarrow> sublist m (a @ t)"
  unfolding sublist_def by (metis append_assoc)

lemma or_default_nonempty: "d \<noteq> [] \<Longrightarrow> or_default x d \<noteq> []"
  by (simp add: or_default_def split: option.splits)

lemma template_in_system_prompt: "sublist template_block restaurant_system_prompt"
  unfolding restaurant_system_prompt_def
  by (rule sublist_appendI, rule sublist_appendI, rule sublist_append_rightI)

lemma template_block_no_backslash: "92 \<notin> set template_block"
  by (simp add: template_block_def rupee_def)

lemma heading_in_system_prompt: "sublist specialties_heading restaurant_system_prompt"
  by (simp add: restaurant_system_prompt_def specialties_heading_def template_block_def
      rupee_def py_eval)

lemma restaurant_system_prompt_no_backslash: "92 \<notin> set restaurant_system_prompt"
  by (simp add: restaurant_system_prompt_def specialties_heading_def
      template_block_no_backslash)

lemma str_nat_two_digits: "n < 100 \<Longrightarrow> length (str_nat n) \<le> 2"
proof -
  assume "n < 100"
  then have "n div 10 < 10" by simp
  then have "length (str_nat (n div 10)) = 1"
    by (simp add: str_nat.simps [of "n div 10"])
  then show ?thesis
    by (simp add: str_nat.simps [of n])
qed

text \<open>
  For a request that FastAPI admits the duration is between 1 and 30, so the prompt shows
  it with one or two digits and no sign.
\<close>

lemma valid_duration_digits:
  "valid_ItineraryRequest r \<Longrightarrow>
     str_int (ItineraryRequest.duration r) = str_nat (nat (ItineraryRequest.duration r)) \<and>
     length (str_int (ItineraryRequest.duration r)) \<le> 2"
proof -
  assume "valid_ItineraryRequest r"
  then have d: "1 \<le> ItineraryRequest.duration r" "ItineraryRequest.duration r \<le> 30"
    by (simp_all add: valid_ItineraryRequest_def)
  then have "nat (ItineraryRequest.duration r) < 100" by simp
  then have "length (str_nat (nat (ItineraryRequest.duration r))) \<le> 2"
    by (rule str_nat_two_digits)
  with d show ?thesis by (simp add: str_int_def)
qed

text \<open>
  C30.  Each user prompt names the destination of its request, and the prompt of the
  itinerary handler names the number of days in decimal digits in front of it.
\<close>

theorem user_prompts_name_destination:
  "sublist (RestaurantRequest.destination r) (restaurant_user_prompt r) \<and>
   sublist (HotelRequest.destination h) (hotel_user_prompt h) \<and>
   sublist (str_int (ItineraryRequest.duration i) @ str ''-day itinerary for '' @
            ItineraryRequest.destination i) (itinerary_user_prompt i)"
proof (intro conjI)
  show "sublist (RestaurantRequest.destination r) (restaurant_user_prompt r)"
    unfolding restaurant_user_prompt_def Let_def by (rule sublist_mid)
  show "sublist (HotelRequest.destination h) (hotel_user_prompt h)"
    unfolding hotel_user_prompt_def Let_def by (rule sublist_mid)
  have "sublist (str_int (ItineraryRequest.duration i) @ str ''-day itinerary for '' @
      ItineraryRequest.destination i)
    (str ''Create a '' @
      (str_int (ItineraryRequest.duration i) @ str ''-day itinerary for '' @
       ItineraryRequest.destination i) @ rest)" for rest
    by (rule sublist_mid)
  then show "sublist (str_int (ItineraryRequest.duration i) @ str ''-day itinerary for '' @
      ItineraryRequest.destination i) (itinerary_user_prompt i)"
    unfolding itinerary_user_prompt_def Let_def by (simp del: map_eq_conv)
qed

text \<open>
  C31.  A request without a budget is not printed as a missing budget: the prompt that
  the service receives says that the budget is None.
\<close>

theorem restaurant_prompt_budget_none:
  "RestaurantRequest.budget r = None \<Longrightarrow>
     sublist (str ''Budget: None'') (restaurant_user_prompt r)"
proof -
  assume "RestaurantRequest.budget r = None"
  then have "restaurant_user_prompt r =
      (str ''Recommend restaurants in '' @ RestaurantRequest.destination r @ str ''.'' @ [10] @
       str ''    '') @ str ''Budget: None'' @ ([10] @ str ''    Cuisine: '' @
       or_default (RestaurantRequest.cuisine_type r) (str ''local specialties and popular dishes'') @
       [10] @ str ''    '' @ [10] @
       str ''    Focus on specific names, locations, signature dishes, and exact pricing.'')"
    by (simp add: restaurant_user_prompt_def fmt_optional_def)
  then show ?thesis
    by (simp only: sublist_mid)
qed

theorem restaurant_prompt_budget_none_witness:
  "RestaurantRequest.budget
     \<lparr>RestaurantRequest.destination = str ''Goa'', cuisine_type = None, budget = None\<rparr> = None \<and>
   sublist (str ''Budget: None'')
     (restaurant_user_prompt
       \<lparr>RestaurantRequest.destination = str ''Goa'', cuisine_type = None, budget = None\<rparr>)"
  using restaurant_prompt_budget_none
    [of "\<lparr>RestaurantRequest.destination = str ''Goa'', cuisine_type = None, budget = None\<rparr>"]
  by simp

end
