(* ===== verification/Extractor.thy ===== *)
theory Extractor
  imports Regex Models Prompts
begin

text \<open>
  The response extractor, \<^verbatim>\<open>parse_restaurants_from_ai\<close> of \<^verbatim>\<open>src/backend/main.py\<close>: it
  turns the free text of a completion into a \<open>RestaurantResponse\<close>.

  The four patterns are values of \<open>regex\<close>, written as Python's parser reads the raw
  strings of the source.  In those strings every backslash is doubled, so \<^verbatim>\<open>\\s\<close> is a
  backslash followed by the letter s, \<^verbatim>\<open>\\*\<close> is any number of backslashes, and \<^verbatim>\<open>\\\s\<close>
  is a backslash followed by one white space character; the code point of a backslash
  is 92.  The body of the loop over the matches is \<open>restaurant_of_match\<close>, with the
  dishes (\<open>signature_dishes_of\<close>), the category (\<open>category_of\<close>) and the rating
  (\<open>rating_of\<close>) as the source computes them; \<open>local_specialties_of\<close> and \<open>tips_of\<close> are
  the two blocks behind the loop, and \<open>parse_restaurants_from_ai\<close> builds the response.

  The lemmas show what the patterns require of a text, that every extracted field is a
  piece of the text, what the dishes, the rating and the category of a restaurant can
  be, and when the extractor raises.
\<close>

section \<open>The patterns\<close>

definition restaurant_pattern :: regex where
  "restaurant_pattern = seqs
     [lits (str ''###''), star Space, star Digit, opt (Lit 46), star Space,
      Group 1 (lazy_plus AnyChar), Atom (Lit 10),
      Atom (Lit 92), Atom (Lit 115), star (Lit 92), lits (str ''Location:''),
      Atom (Lit 92), Atom Space, Group 2 (lazy_plus AnyChar), Atom (Lit 10),
      opt AnyChar, Atom (Lit 92), star (Lit 115), star (Lit 92),
      lits (str ''Signature Dishes:''),
      Atom (Lit 92), Atom Space, Group 3 (lazy_plus AnyChar), Atom (Lit 10),
      opt AnyChar, Atom (Lit 92), star (Lit 115), star (Lit 92),
      lits (str ''Price Range:''),
      Atom (Lit 92), Atom Space, Group 4 (lazy_plus AnyChar), Atom (Lit 10),
      opt AnyChar, Atom (Lit 92), star (Lit 115), star (Lit 92),
      lits (str ''Atmosphere:''),
      Atom (Lit 92), Atom Space, Group 5 (lazy_plus AnyChar), Atom (Lit 10)]"

definition dish_pattern :: regex where
  "dish_pattern = seqs [Atom (Lit 92), Group 1 (lazy_plus AnyChar), star (Lit 92)]"

definition specialty_section_pattern :: regex where
  "specialty_section_pattern = seqs
     [lits (str ''local''), opt AnyChar, lits (str ''specialtie''), opt (Lit 115),
      opt AnyChar, Atom (Lit 58), Group 1 (lazy_star AnyChar),
      Lookahead (Alt (lits (str ''###'')) Eos)]"

definition specialty_pattern :: regex where
  "specialty_pattern = seqs
     [Atom (Lit 92), Atom (Lit 115), Atom (Lit 92), Group 1 (lazy_plus AnyChar),
      Atom (Lit 58), Atom (Lit 92), star Space, Group 2 (lazy_plus AnyChar),
      Lookahead (Alt (seqs [Atom (Lit 92), Atom (Lit 115), Atom (Lit 92)])
                  (Alt (seqs [Atom (Lit 10), Atom (Lit 10)]) Eos))]"

section \<open>One restaurant\<close>

definition signature_dishes_of :: "pystr \<Rightarrow> pystr list" where
  "signature_dishes_of dishes_text =
     (let signature_dishes' =
            map (strip_chars [32, 34]) (findall_strings no_flags dish_pattern dishes_text)
      in if signature_dishes' = []
         then map strip (split 44 (replace [] [] dishes_text))
         else signature_dishes')"

definition category_of :: "pystr \<Rightarrow> pystr \<Rightarrow> pystr \<Rightarrow> pystr" where
  "category_of name' price_range' atmosphere' =
     (if sublist (rupee # str ''1,200'') price_range' \<or> sublist (str ''luxury'') (lower atmosphere')
        then str ''luxury''
      else if sublist (rupee # str ''800'') price_range' \<or> sublist (str ''fine'') (lower atmosphere')
        then str ''fine-dining''
      else if sublist (str ''buffet'') (lower name') \<or> sublist (str ''buffet'') (lower atmosphere')
        then str ''buffet''
      else if sublist (rupee # str ''400'') price_range' \<or> sublist (str ''dhaba'') (lower name')
        then str ''traditional''
      else str ''casual'')"

definition round1 :: "rat \<Rightarrow> rat" where
  "round1 x = of_int (round (x * 10)) / 10"

definition rating_of :: "pystr list \<Rightarrow> rat" where
  "rating_of signature_dishes' = round1 (4 + of_nat (length signature_dishes') * (1 / 10))"

definition restaurant_of_match :: "pystr list \<Rightarrow> Restaurant" where
  "restaurant_of_match m =
     (let name' = strip (m ! 0);
          location' = strip (m ! 1);
          dishes_text = strip (m ! 2);
          price_range' = strip (m ! 3);
          atmosphere' = strip (m ! 4);
          signature_dishes' = signature_dishes_of dishes_text;
          category' = category_of name' price_range' atmosphere'
      in \<lparr>Restaurant.name = name', location = location',
           signature_dishes = take 3 signature_dishes', price_range = price_range',
           atmosphere = atmosphere', category = category',
           rating = Some (rating_of signature_dishes'), cuisine_type = None\<rparr>)"

definition restaurants_of :: "pystr \<Rightarrow> Restaurant list" where
  "restaurants_of ai_response =
     map restaurant_of_match (findall_tuples DOTALL restaurant_pattern ai_response)"

section \<open>Specialties and tips\<close>

definition specialty_of_match :: "pystr list \<Rightarrow> LocalSpecialty" where
  "specialty_of_match m =
     \<lparr>LocalSpecialty.name = strip (m ! 0), description = strip (m ! 1), where_to_find = None\<rparr>"

definition local_specialties_of :: "pystr \<Rightarrow> LocalSpecialty list" where
  "local_specialties_of ai_response =
     (case search IGNORECASE_DOTALL specialty_section_pattern ai_response of
        None \<Rightarrow> []
      | Some cs \<Rightarrow> map specialty_of_match (findall_tuples no_flags specialty_pattern (group cs 1)))"

definition canned_tips :: "pystr list" where
  "canned_tips =
     [str ''Ask restaurants if they serve local specialties'',
      str ''Book in advance for popular places'',
      str ''Try local fish curries for fresh flavors'',
      str ''Don't miss traditional breakfast options'']"

definition tips_of :: "pystr \<Rightarrow> pystr list" where
  "tips_of ai_response = (if sublist (str ''tip'') (lower ai_response) then canned_tips else [])"

section \<open>The extractor\<close>

definition parse_restaurants_from_ai ::
  "pystr \<Rightarrow> pystr \<Rightarrow> pystr option \<Rightarrow> RestaurantResponse result" where
  "parse_restaurants_from_ai ai_response destination' budget' =
     mk_RestaurantResponse destination' (restaurants_of ai_response)
       (local_specialties_of ai_response) (tips_of ai_response) budget'"

lemmas extractor_defs =
  restaurant_pattern_def dish_pattern_def specialty_section_pattern_def specialty_pattern_def
  signature_dishes_of_def rupee_def category_of_def round1_def rating_of_def
  restaurant_of_match_def restaurants_of_def specialty_of_match_def local_specialties_of_def
  canned_tips_def tips_of_def parse_restaurants_from_ai_def

section \<open>Sample texts\<close>

text \<open>
  \<open>sample_block\<close> is a block in the layout that \<open>restaurant_pattern\<close> accepts and
  \<open>sample_restaurant\<close> the entity the extractor makes of it; \<open>sample_specialties\<close> is a
  specialties section with one entry.  The layout that the prompt asks for is
  \<open>template_block\<close> of theory \<open>Prompts\<close>.
\<close>

definition labelled :: "pystr \<Rightarrow> string \<Rightarrow> pystr \<Rightarrow> pystr" where
  "labelled pre l v = pre @ str l @ [92, 32] @ v @ [10]"

definition sample_block :: pystr where
  "sample_block =
     str ''### 1. Sea Breeze'' @ [10] @
     labelled [92, 115] ''Location:'' (str ''Panjim'') @
     labelled [92, 115] ''Signature Dishes:'' (str ''fish, rice, dal, naan'') @
     labelled [92, 115] ''Price Range:'' (rupee # str ''800'') @
     labelled [92, 115] ''Atmosphere:'' (str ''calm'')"

definition sample_restaurant :: Restaurant where
  "sample_restaurant =
     \<lparr>Restaurant.name = str ''Sea Breeze'', location = str ''Panjim'',
      signature_dishes = [str ''fish'', str ''rice'', str ''dal''],
      price_range = rupee # str ''800'', atmosphere = str ''calm'',
      category = str ''fine-dining'', rating = Some (22 / 5), cuisine_type = None\<rparr>"

definition sample_specialties :: pystr where
  "sample_specialties =
     str ''Local Specialties:'' @ [10, 92, 115, 92] @ str ''Feni:'' @ [92, 32] @
     str ''cashew drink''"

definition sample_specialty :: LocalSpecialty where
  "sample_specialty =
     \<lparr>LocalSpecialty.name = str ''Feni'', description = str ''cashew drink'',
      where_to_find = None\<rparr>"

lemmas sample_defs =
  template_block_def labelled_def sample_block_def sample_restaurant_def
  sample_specialties_def sample_specialty_def

lemma restaurants_of_sample_block: "restaurants_of sample_block = [sample_restaurant]"
  by (simp add: sample_defs extractor_defs re_eval py_eval)

lemma local_specialties_of_sample: "local_specialties_of sample_specialties = [sample_specialty]"
  by (simp add: sample_defs extractor_defs re_eval py_eval)


section \<open>What the patterns require\<close>

lemma restaurant_pattern_needs: "needs DOTALL 92 restaurant_pattern"
  by (simp add: restaurant_pattern_def DOTALL_def lits_def)

lemma specialty_pattern_needs: "needs no_flags 92 specialty_pattern"
  by (simp add: specialty_pattern_def no_flags_def)

lemma dish_pattern_needs: "needs no_flags 92 dish_pattern"
  by (simp add: dish_pattern_def no_flags_def)

lemma ngroups_patterns [simp]:
  "ngroups restaurant_pattern = 5" "ngroups specialty_pattern = 2"
  by (simp_all add: restaurant_pattern_def specialty_pattern_def lits_def)

lemma restaurants_of_no_backslash: "92 \<notin> set t \<Longrightarrow> restaurants_of t = []"
  by (simp add: restaurants_of_def needs_findall_tuples [OF restaurant_pattern_needs])

lemma local_specialties_of_no_backslash: "92 \<notin> set t \<Longrightarrow> local_specialties_of t = []"
proof (cases "search IGNORECASE_DOTALL specialty_section_pattern t")
  case None
  then show ?thesis by (simp add: local_specialties_of_def)
next
  case (Some cs)
  assume "92 \<notin> set t"
  moreover from Some have "sublist (group cs 1) t"
    by (intro group_sublist search_spans)
  ultimately have "92 \<notin> set (group cs 1)"
    by (blast dest: sublist_set)
  with Some show ?thesis
    by (simp add: local_specialties_of_def needs_findall_tuples [OF specialty_pattern_needs])
qed

text \<open>
  C1.  A completion without a backslash yields no restaurant and no specialty, whatever
  else it holds: the response has the destination and the budget of the request, the
  tips, and two empty lists.  Markdown in the layout that the prompt asks for has no
  backslash (the witness is that layout), so the extractor returns an empty list for a
  completion that follows its own prompt.
\<close>

theorem parse_without_backslash:
  "92 \<notin> set t \<Longrightarrow>
     parse_restaurants_from_ai t d (Some b) =
       Inr \<lparr>RestaurantResponse.destination = d, restaurants = [], local_specialties = [],
            tips = tips_of t, budget_category = b\<rparr>"
  by (simp add: parse_restaurants_from_ai_def restaurants_of_no_backslash
      local_specialties_of_no_backslash)

theorem parse_without_backslash_witness:
  "92 \<notin> set template_block \<and>
   parse_restaurants_from_ai template_block (str ''Goa'') (Some (str ''mid-range'')) =
     Inr \<lparr>RestaurantResponse.destination = str ''Goa'', restaurants = [],
          local_specialties = [], tips = [], budget_category = str ''mid-range''\<rparr>"
proof -
  have no: "92 \<notin> set template_block"
    by (simp add: template_block_def rupee_def)
  have "tips_of template_block = []"
    by (simp add: tips_of_def template_block_def rupee_def py_eval)
  with parse_without_backslash [OF no, of "str ''Goa''" "str ''mid-range''"] no
  show ?thesis by simp
qed

lemma restaurants_of_bound: "length (restaurants_of t) \<le> count_list t 92"
  by (simp add: restaurants_of_def findall_tuples_def
      needs_findall_loop_length [OF restaurant_pattern_needs])


section \<open>The dishes\<close>

lemma dish_run:
  assumes f: "\<not> ignorecase f" "\<not> dotall f"
  shows "run f [R dish_pattern] Map.empty s [] =
     (case s of
        c # x # s' \<Rightarrow>
          if c = 92 \<and> x \<noteq> 10
          then Some ([1 \<mapsto> (x # s', s')], dropWhile (\<lambda>y. y = 92) s') else None
      | _ \<Rightarrow> None)"
proof -
  have star: "atom_ok f (Lit 92) = (\<lambda>y. y = 92)"
    using f by (intro ext) simp
  show ?thesis
  proof (cases s)
    case Nil
    then show ?thesis by (simp add: dish_pattern_def run_steps_sym)
  next
    case outer: (Cons c t)
    show ?thesis
    proof (cases t)
      case Nil
      with outer f show ?thesis
        by (cases "c = 92") (simp_all add: dish_pattern_def run_steps_sym)
    next
      case (Cons x s')
      with outer f show ?thesis
        by (cases "c = 92"; cases "x = 10")
          (simp_all add: dish_pattern_def run_steps_sym run_star_end star)
    qed
  qed
qed

lemma dish_match_at:
  "match_at no_flags dish_pattern False s =
     (case s of
        c # x # s' \<Rightarrow>
          if c = 92 \<and> x \<noteq> 10
          then Some ([1 \<mapsto> (x # s', s')], dropWhile (\<lambda>y. y = 92) s') else None
      | _ \<Rightarrow> None)"
  unfolding match_at_run by (rule dish_run) (simp_all add: no_flags_def)

text \<open>
  C6.  Every dish that the dish pattern finds is one character long.  The pattern is a
  backslash, a lazy group, and any number of backslashes; a lazy group followed by
  something that can be empty stops after its first character, so \<^verbatim>\<open>re.findall\<close> returns
  the character behind each backslash and not the name of a dish.
\<close>

theorem dish_single_char:
  "d \<in> set (findall_strings no_flags dish_pattern s) \<Longrightarrow> length d = 1"
proof -
  assume "d \<in> set (findall_strings no_flags dish_pattern s)"
  then obtain cs where d: "d = group cs 1"
    and "cs \<in> set (findall_loop no_flags dish_pattern False s)"
    by (auto simp: findall_strings_def)
  then obtain adv start s' where "match_at no_flags dish_pattern adv start = Some (cs, s')"
    by (blast dest: findall_loop_matches)
  with match_at_adv [OF dish_pattern_needs, of adv start]
  have "match_at no_flags dish_pattern False start = Some (cs, s')"
    by simp
  then have "\<exists>x t. cs 1 = Some (x # t, t)"
    unfolding dish_match_at by (simp split: list.splits if_splits) fastforce
  with d show ?thesis
    by (auto simp: group_def consumed_def)
qed

theorem dish_single_char_witness:
  "str ''P'' \<in> set (findall_strings no_flags dish_pattern (92 # str ''Prawn curry'')) \<and>
   length (str ''P'') = 1"
  using dish_single_char [of "str ''P''" "92 # str ''Prawn curry''"]
  by (simp add: extractor_defs re_eval py_eval)

lemma signature_dishes_of_nonempty: "signature_dishes_of t \<noteq> []"
  by (simp add: signature_dishes_of_def Let_def)

lemma signature_dishes_of_sublist: "d \<in> set (signature_dishes_of t) \<Longrightarrow> sublist d t"
proof -
  assume d: "d \<in> set (signature_dishes_of t)"
  let ?found = "findall_strings no_flags dish_pattern t"
  show ?thesis
  proof (cases "?found = []")
    case True
    with d obtain p where "p \<in> set (split 44 t)" "d = strip p"
      by (auto simp: signature_dishes_of_def)
    then show ?thesis
      using strip_sublist split_sublist by (blast intro: sublist_order.order.trans)
  next
    case False
    with d obtain g where "g \<in> set ?found" "d = strip_chars [32, 34] g"
      by (auto simp: signature_dishes_of_def Let_def)
    then show ?thesis
      using strip_chars_sublist findall_strings_sublist
      by (blast intro: sublist_order.order.trans)
  qed
qed

text \<open>
  C25.  A dishes text without a backslash takes the fall-back of the source: it is split
  at its commas and every piece is stripped.  The list has one more element than the
  text has commas, so it is never empty.
\<close>

theorem signature_dishes_fallback:
  "92 \<notin> set t \<Longrightarrow> signature_dishes_of t = map strip (split 44 t)"
  by (simp add: signature_dishes_of_def needs_findall_strings [OF dish_pattern_needs])

theorem signature_dishes_fallback_witness:
  "92 \<notin> set (str ''fish, rice, dal, naan'') \<and>
   signature_dishes_of (str ''fish, rice, dal, naan'') =
     [str ''fish'', str ''rice'', str ''dal'', str ''naan'']"
  using signature_dishes_fallback [of "str ''fish, rice, dal, naan''"]
  by (simp add: py_eval)


section \<open>Every restaurant\<close>

lemma round1_tenths: "round1 (4 + of_nat n / 10) = 4 + of_nat n / 10"
proof -
  have "(4 + of_nat n / 10) * 10 = (of_int (40 + int n) :: rat)"
    by simp
  then have "round ((4 + of_nat n / 10) * 10 :: rat) = 40 + int n"
    by (simp only: round_of_int)
  then show ?thesis
    by (simp add: round1_def)
qed

lemma rating_of_eq: "rating_of ds = 4 + of_nat (length ds) / 10"
  by (simp add: rating_of_def round1_tenths)

lemma restaurants_of_member:
  "r \<in> set (restaurants_of t) \<Longrightarrow>
     \<exists>m \<in> set (findall_tuples DOTALL restaurant_pattern t).
       length m = 5 \<and> r = restaurant_of_match m"
proof -
  assume "r \<in> set (restaurants_of t)"
  then obtain m where m: "m \<in> set (findall_tuples DOTALL restaurant_pattern t)"
    and r: "r = restaurant_of_match m"
    by (auto simp: restaurants_of_def)
  from findall_tuples_length [OF m] have "length m = 5" by simp
  with m r show ?thesis by blast
qed

lemma field_sublist:
  "m \<in> set (findall_tuples f r t) \<Longrightarrow> i < length m \<Longrightarrow> sublist (strip (m ! i)) t"
  by (meson findall_tuples_sublist nth_mem strip_sublist sublist_order.order.trans)

text \<open>
  C5.  The rating of an extracted restaurant is \<open>4 + n / 10\<close> for the number \<open>n\<close> of
  dishes found in its dishes text, which is at least one and is counted before the list
  is cut to three: the rating is never 4.0, and it is above 4.3 when the text names more
  than three dishes.
\<close>

theorem restaurant_rating:
  "r \<in> set (restaurants_of t) \<Longrightarrow>
     \<exists>n. 1 \<le> n \<and> Restaurant.rating r = Some (4 + of_nat n / 10) \<and>
         length (signature_dishes r) = min 3 n"
proof -
  assume "r \<in> set (restaurants_of t)"
  then obtain m where r: "r = restaurant_of_match m"
    by (blast dest: restaurants_of_member)
  let ?ds = "signature_dishes_of (strip (m ! 2))"
  have "1 \<le> length ?ds"
    using signature_dishes_of_nonempty [of "strip (m ! 2)"] by (cases ?ds) simp_all
  moreover have "Restaurant.rating r = Some (4 + of_nat (length ?ds) / 10)"
    by (simp add: r restaurant_of_match_def Let_def rating_of_eq)
  moreover have "length (signature_dishes r) = min 3 (length ?ds)"
    by (simp add: r restaurant_of_match_def Let_def min.commute)
  ultimately show ?thesis by blast
qed

theorem restaurant_rating_witness:
  "sample_restaurant \<in> set (restaurants_of sample_block) \<and>
   (\<exists>n. 1 \<le> n \<and> Restaurant.rating sample_restaurant = Some (4 + of_nat n / 10) \<and>
        length (signature_dishes sample_restaurant) = min 3 n)"
proof -
  have mem: "sample_restaurant \<in> set (restaurants_of sample_block)"
    by (simp add: restaurants_of_sample_block)
  from restaurant_rating [OF mem] mem show ?thesis by (rule conjI [rotated])
qed

text \<open>
  C7.  Every text field of an extracted restaurant is copied from the completion: its
  name, location, price range and atmosphere and each of its dishes occur in the text
  as they are in the entity.  The extractor invents the category and the rating and
  nothing else.
\<close>

theorem restaurant_fields_from_text:
  "r \<in> set (restaurants_of t) \<Longrightarrow>
     sublist (Restaurant.name r) t \<and> sublist (Restaurant.location r) t \<and>
     sublist (Restaurant.price_range r) t \<and> sublist (atmosphere r) t \<and>
     list_all (\<lambda>d. sublist d t) (signature_dishes r)"
proof -
  assume "r \<in> set (restaurants_of t)"
  then obtain m where m: "m \<in> set (findall_tuples DOTALL restaurant_pattern t)"
    and len: "length m = 5" and r: "r = restaurant_of_match m"
    by (blast dest: restaurants_of_member)
  have fld: "sublist (strip (m ! i)) t" if "i < 5" for i
    using m that len by (simp add: field_sublist)
  have "sublist d t" if "d \<in> set (signature_dishes r)" for d
  proof -
    from that have "d \<in> set (signature_dishes_of (strip (m ! 2)))"
      by (auto simp: r restaurant_of_match_def Let_def dest: in_set_takeD)
    then have "sublist d (strip (m ! 2))" by (rule signature_dishes_of_sublist)
    then show ?thesis
      using fld [of 2] by (simp add: sublist_order.order.trans)
  qed
  then have "list_all (\<lambda>d. sublist d t) (signature_dishes r)"
    by (simp add: list_all_iff)
  then show ?thesis
    by (simp add: r restaurant_of_match_def Let_def fld)
qed

theorem restaurant_fields_from_text_witness:
  "sample_restaurant \<in> set (restaurants_of sample_block) \<and>
   sublist (Restaurant.name sample_restaurant) sample_block \<and>
   sublist (Restaurant.location sample_restaurant) sample_block \<and>
   sublist (Restaurant.price_range sample_restaurant) sample_block \<and>
   sublist (atmosphere sample_restaurant) sample_block \<and>
   list_all (\<lambda>d. sublist d sample_block) (signature_dishes sample_restaurant)"
proof -
  have mem: "sample_restaurant \<in> set (restaurants_of sample_block)"
    by (simp add: restaurants_of_sample_block)
  from restaurant_fields_from_text [OF mem] mem show ?thesis by (rule conjI [rotated])
qed

lemma category_of_label: "category_of n p a \<in> set category_labels"
  by (simp add: category_of_def category_labels_def)

lemma restaurants_of_wf: "list_all wf_Restaurant (restaurants_of t)"
  by (simp add: list_all_iff restaurants_of_def restaurant_of_match_def Let_def
      wf_Restaurant_def category_of_label)

text \<open>
  The text fields of a restaurant and of a specialty are results of \<^verbatim>\<open>strip\<close>: they have no
  white space at their ends.
\<close>

lemma restaurants_of_stripped:
  "list_all (\<lambda>r. stripped (Restaurant.name r) \<and> stripped (Restaurant.location r) \<and>
       stripped (Restaurant.price_range r) \<and> stripped (atmosphere r)) (restaurants_of t)"
  by (simp add: list_all_iff restaurants_of_def restaurant_of_match_def Let_def)

lemma local_specialties_of_stripped:
  "list_all (\<lambda>s. stripped (LocalSpecialty.name s) \<and> stripped (description s))
     (local_specialties_of t)"
  by (auto simp: list_all_iff local_specialties_of_def specialty_of_match_def
      split: option.splits)

text \<open>
  C27.  The first test of the category wins: a restaurant whose atmosphere holds the word
  luxury, in any mix of upper and lower case, is labelled luxury whatever its name and
  price range say.  The witness is a dhaba with a price of 400 rupees, which the last
  test alone would label traditional.
\<close>

theorem category_luxury_first:
  "sublist w atmosphere' \<Longrightarrow> lower w = str ''luxury'' \<Longrightarrow>
     category_of name' price_range' atmosphere' = str ''luxury''"
  using sublist_lower [of w atmosphere'] by (simp add: category_of_def)

theorem category_luxury_first_witness:
  "sublist (str ''LUXURY'') (str ''A LUXURY rooftop'') \<and>
   lower (str ''LUXURY'') = str ''luxury'' \<and>
   category_of (str ''Taj Dhaba'') (rupee # str ''400'') (str ''A LUXURY rooftop'')
     = str ''luxury''"
  using category_luxury_first
    [of "str ''LUXURY''" "str ''A LUXURY rooftop''" "str ''Taj Dhaba''" "rupee # str ''400''"]
  by (simp add: py_eval)


section \<open>Specialties and tips: facts\<close>

text \<open>
  C29.  The name and the description of every extracted specialty occur in the
  completion: both are stripped groups of a match inside the section that
  \<open>specialty_section_pattern\<close> finds.
\<close>

theorem specialty_fields_from_text:
  "x \<in> set (local_specialties_of t) \<Longrightarrow>
     sublist (LocalSpecialty.name x) t \<and> sublist (LocalSpecialty.description x) t"
proof (cases "search IGNORECASE_DOTALL specialty_section_pattern t")
  case None
  moreover assume "x \<in> set (local_specialties_of t)"
  ultimately show ?thesis by (simp add: local_specialties_of_def)
next
  case (Some cs)
  assume "x \<in> set (local_specialties_of t)"
  with Some obtain m where m: "m \<in> set (findall_tuples no_flags specialty_pattern (group cs 1))"
    and x: "x = specialty_of_match m"
    by (auto simp: local_specialties_of_def)
  from findall_tuples_length [OF m] have len: "length m = 2" by simp
  from Some have sec: "sublist (group cs 1) t"
    by (intro group_sublist search_spans)
  have "sublist (strip (m ! i)) t" if "i < 2" for i
    using field_sublist [OF m, of i] that len sec by (auto intro: sublist_order.order.trans)
  then show ?thesis
    by (simp add: x specialty_of_match_def)
qed

theorem specialty_fields_from_text_witness:
  "sample_specialty \<in> set (local_specialties_of sample_specialties) \<and>
   sublist (LocalSpecialty.name sample_specialty) sample_specialties \<and>
   sublist (LocalSpecialty.description sample_specialty) sample_specialties"
proof -
  have mem: "sample_specialty \<in> set (local_specialties_of sample_specialties)"
    by (simp add: local_specialties_of_sample)
  from specialty_fields_from_text [OF mem] mem show ?thesis by (rule conjI [rotated])
qed

text \<open>
  C28.  The tips do not depend on what the completion says about tips: when the three
  letters t, i, p occur in it in this order, in any case and inside any word, the
  response carries the four fixed tips.  The witness has no tip in it, only the word
  Multiple.
\<close>

theorem tips_of_keyword:
  "sublist w t \<Longrightarrow> lower w = str ''tip'' \<Longrightarrow> tips_of t = canned_tips"
  using sublist_lower [of w t] by (simp add: tips_of_def)

theorem tips_of_keyword_witness:
  "sublist (str ''tip'') (str ''Multiple cuisines'') \<and> lower (str ''tip'') = str ''tip'' \<and>
   tips_of (str ''Multiple cuisines'') = canned_tips"
  using tips_of_keyword [of "str ''tip''" "str ''Multiple cuisines''"]
  by (simp add: py_eval)

lemma tips_of_cases: "tips_of t = [] \<or> tips_of t = canned_tips"
  by (simp add: tips_of_def)


section \<open>When the extractor raises\<close>

text \<open>
  C26.  With no budget the extractor raises: \<^verbatim>\<open>budget_category\<close> is a required string of
  \<open>RestaurantResponse\<close>, and the request field it comes from is optional, so a request
  that sends \<^verbatim>\<open>null\<close> for the budget ends in a validation error after the completion has
  been parsed, whatever the completion is.
\<close>

theorem parse_budget_missing: "parse_restaurants_from_ai t d None = Inl ValidationError"
  by (simp add: parse_restaurants_from_ai_def)

end
