(* ===== verification/Layout.thy ===== *)
theory Layout
  imports Extractor FirstMatch
begin

text \<open>
  What the extractor returns on every completion of a layout, where theory \<open>Extractor\<close>
  says what holds of every completion.

  \<^item> \<open>block k m\<close> is a restaurant block in the layout that \<open>restaurant_pattern\<close> accepts:
    a numbered heading with the name and four lines, each a backslash, the letter s, a
    label, a backslash, a blank and the field.  \<open>document pre bs\<close> is a text of such
    blocks with other text before, between and behind them.  \<open>restaurant_of_fields\<close> is
    the restaurant that a block stands for; on a document \<open>restaurants_of\<close> returns
    these restaurants, one for each block, in the order of the text.
  \<^item> \<open>listing fin es\<close> is a list of specialties in the layout that \<open>specialty_pattern\<close>
    accepts, each entry on a line of its own behind an empty line.  Behind the heading
    \<^verbatim>\<open>Local Specialties:\<close> \<open>local_specialties_of\<close> returns the entries of the listing.
  \<^item> Behind the heading that the prompt asks for, \<open>specialties_heading\<close> of theory
    \<open>Prompts\<close>, it returns nothing.

  The proofs follow the engine through a pattern with the rules of theory \<open>FirstMatch\<close>:
  one lemma for each line of a block, one for a block, and an induction over the blocks
  for \<^verbatim>\<open>findall\<close>.
\<close>

section \<open>Restaurant blocks\<close>

text \<open>
  A field is a text of at least one character without a line break; the five fields of
  a block are its name, location, dishes, price range and atmosphere, and the name does
  not begin with white space.
\<close>

definition field_ok :: "pystr \<Rightarrow> bool" where
  "field_ok v \<longleftrightarrow> v \<noteq> [] \<and> 10 \<notin> set v"

definition accepted :: "pystr list \<Rightarrow> bool" where
  "accepted m \<longleftrightarrow> length m = 5 \<and> list_all field_ok m \<and> \<not> is_space (hd (m ! 0))"

definition block_heading :: "nat \<Rightarrow> pystr \<Rightarrow> pystr" where
  "block_heading k n = str ''### '' @ str_nat k @ str ''. '' @ n @ [10]"

definition block :: "nat \<Rightarrow> pystr list \<Rightarrow> pystr" where
  "block k m =
     block_heading k (m ! 0) @
     labelled [92, 115] ''Location:'' (m ! 1) @
     labelled [92, 115] ''Signature Dishes:'' (m ! 2) @
     labelled [92, 115] ''Price Range:'' (m ! 3) @
     labelled [92, 115] ''Atmosphere:'' (m ! 4)"

text \<open>
  The pattern of the source in the pieces that the lines of a block answer to: the
  heading, a labelled field, and a line with its line start.
\<close>

definition block_heading_items :: "regex list" where
  "block_heading_items =
     [lits (str ''###''), star Space, star Digit, opt (Lit 46), star Space,
      Group 1 (lazy_plus AnyChar), Atom (Lit 10)]"

definition field_items :: "string \<Rightarrow> nat \<Rightarrow> regex list" where
  "field_items l i =
     [star (Lit 92), lits (str l), Atom (Lit 92), Atom Space, Group i (lazy_plus AnyChar),
      Atom (Lit 10)]"

definition line_items :: "string \<Rightarrow> nat \<Rightarrow> regex list" where
  "line_items l i = [opt AnyChar, Atom (Lit 92), star (Lit 115)] @ field_items l i"

text \<open>
  A document: the text \<open>pre\<close>, then the blocks, each with its number, its five fields and
  the text behind it.  No text between the blocks has the sign \<^verbatim>\<open>#\<close>.
\<close>

definition document :: "pystr \<Rightarrow> (nat \<times> pystr list \<times> pystr) list \<Rightarrow> pystr" where
  "document pre bs = pre @ concat (map (\<lambda>(k, m, gap). block k m @ gap) bs)"

lemma document_simps [simp]:
  "document pre [] = pre"
  "document pre ((k, m, gap) # bs) = pre @ block k m @ document gap bs"
  by (simp_all add: document_def)

abbreviation blocks_ok :: "(nat \<times> pystr list \<times> pystr) list \<Rightarrow> bool" where
  "blocks_ok bs \<equiv> list_all (\<lambda>(k, m, gap). accepted m \<and> 35 \<notin> set gap) bs"

text \<open>The restaurant that the block with the fields \<open>m\<close> stands for.\<close>

definition restaurant_of_fields :: "pystr list \<Rightarrow> Restaurant" where
  "restaurant_of_fields m =
     \<lparr>Restaurant.name = strip (m ! 0), location = strip (m ! 1),
      signature_dishes = take 3 (signature_dishes_of (strip (m ! 2))),
      price_range = strip (m ! 3), atmosphere = strip (m ! 4),
      category = category_of (strip (m ! 0)) (strip (m ! 3)) (strip (m ! 4)),
      rating = Some (4 + of_nat (length (signature_dishes_of (strip (m ! 2)))) / 10),
      cuisine_type = None\<rparr>"

subsection \<open>The pattern, line by line\<close>

lemma restaurant_pattern_items:
  "restaurant_pattern = seqs
     (block_heading_items @ [Atom (Lit 92), Atom (Lit 115)] @ field_items ''Location:'' 2 @
      line_items ''Signature Dishes:'' 3 @ line_items ''Price Range:'' 4 @
      line_items ''Atmosphere:'' 5)"
  by (simp add: restaurant_pattern_def block_heading_items_def field_items_def line_items_def)

lemma field_ok_all:
  "field_ok v \<Longrightarrow> list_all (\<lambda>c. atom_ok DOTALL AnyChar c \<and> \<not> atom_ok DOTALL (Lit 10) c) v"
  by (auto simp: field_ok_def list_all_iff)

lemma wins_group:
  assumes "field_ok v" and "wins DOTALL its (cs(i \<mapsto> (v @ 10 # rest, 10 # rest)), rest) x"
  shows "wins DOTALL (R (Group i (lazy_plus AnyChar)) # R (Atom (Lit 10)) # its)
     (cs, v @ 10 # rest) x"
  using assms by (intro wins_group_until) (auto simp: field_ok_def list_all_iff intro!: blocked_Atom)

lemma wins_field:
  assumes "field_ok v" and "l \<noteq> []" and "hd (str l) \<noteq> 92"
    and "wins DOTALL its (cs(i \<mapsto> (v @ 10 # rest, 10 # rest)), rest) x"
  shows "wins DOTALL (map R (field_items l i) @ its) (cs, str l @ 92 # 32 # v @ 10 # rest) x"
proof -
  from assms(2) obtain c l' where l: "str l = c # l'" by (cases l) auto
  from assms(1,4) have "wins DOTALL (R (lits (str l)) # R (Atom (Lit 92)) # R (Atom Space) #
      R (Group i (lazy_plus AnyChar)) # R (Atom (Lit 10)) # its)
     (cs, str l @ 92 # 32 # v @ 10 # rest) x"
    by (simp add: wins_lits wins_group del: wins_Group)
  with assms(3) show ?thesis
    unfolding field_items_def l by (simp del: wins_Group)
qed

lemma wins_line:
  assumes "field_ok v" and "l \<noteq> []" and "hd (str l) \<noteq> 92" and "hd (str l) \<noteq> 115"
    and "wins DOTALL its (cs(i \<mapsto> (v @ 10 # rest, 10 # rest)), rest) x"
  shows "wins DOTALL (map R (line_items l i) @ its) (cs, labelled [92, 115] l v @ rest) x"
proof -
  let ?its = "map R (field_items l i) @ its" and ?s = "str l @ 92 # 32 # v @ 10 # rest"
  from assms(2) obtain c l' where l: "str l = c # l'" by (cases l) auto
  from assms(1,2,3,5) have "wins DOTALL ?its (cs, ?s) x"
    by (rule wins_field)
  with assms(4) have "wins DOTALL (R (star (Lit 115)) # ?its) (cs, 115 # ?s) x"
    by (intro wins_star_step) (simp_all add: l)
  then have "wins DOTALL (R (opt AnyChar) # R (Atom (Lit 92)) # R (star (Lit 115)) # ?its)
      (cs, 92 # 115 # ?s) x"
    by (intro wins_opt_skip) simp_all
  then show ?thesis
    by (simp add: line_items_def labelled_def)
qed

lemma wins_location:
  assumes "field_ok v" and "wins DOTALL its (cs(2 \<mapsto> (v @ 10 # rest, 10 # rest)), rest) x"
  shows "wins DOTALL
     (map R [Atom (Lit 92), Atom (Lit 115)] @ map R (field_items ''Location:'' 2) @ its)
     (cs, labelled [92, 115] ''Location:'' v @ rest) x"
  using wins_field [OF assms(1) _ _ assms(2), of "''Location:''"]
  by (simp add: labelled_def)

lemma str_nat_run: "list_all (atom_ok f Digit) (str_nat k)"
  by (simp add: list_all_iff str_nat_decimal)

lemma str_nat_hd: "\<exists>d ds. str_nat k = d # ds \<and> is_decimal d"
  using str_nat_nonempty [of k] str_nat_decimal [of _ k] by (cases "str_nat k") auto

lemma not_decimal_dot: "\<not> is_decimal 46"
  by (simp add: ascii_digit_iff)

lemma wins_heading:
  assumes "field_ok n" and "\<not> is_space (hd n)"
    and "wins DOTALL its (cs(1 \<mapsto> (n @ 10 # rest, 10 # rest)), rest) x"
  shows "wins DOTALL (map R block_heading_items @ its) (cs, block_heading k n @ rest) x"
proof -
  let ?g = "R (Group 1 (lazy_plus AnyChar)) # R (Atom (Lit 10)) # its"
  from assms(1) obtain c n' where n: "n = c # n'" by (cases n) (auto simp: field_ok_def)
  obtain d ds where d: "str_nat k = d # ds" "is_decimal d" using str_nat_hd by blast
  from assms(1,3) have "wins DOTALL ?g (cs, n @ 10 # rest) x"
    by (rule wins_group)
  with assms(2) have "wins DOTALL (R (star Space) # ?g) (cs, 32 # n @ 10 # rest) x"
    by (intro wins_star_step) (simp_all add: n del: wins_Group)
  then have "wins DOTALL (R (opt (Lit 46)) # R (star Space) # ?g) (cs, 46 # 32 # n @ 10 # rest) x"
    by (intro wins_opt_take) simp_all
  then have "wins DOTALL (R (star Digit) # R (opt (Lit 46)) # R (star Space) # ?g)
      (cs, str_nat k @ 46 # 32 # n @ 10 # rest) x"
    by (intro wins_star_run str_nat_run) (simp add: not_decimal_dot)
  moreover from d(2) have "\<not> is_space d"
    using space_not_decimal by blast
  ultimately have "wins DOTALL
      (R (star Space) # R (star Digit) # R (opt (Lit 46)) # R (star Space) # ?g)
      (cs, 32 # str_nat k @ 46 # 32 # n @ 10 # rest) x"
    by (intro wins_star_step) (simp_all add: d(1))
  then show ?thesis
    by (simp add: block_heading_items_def block_heading_def lits_def del: wins_Group)
qed

lemma groups_5: "groups 5 cs = [group cs 1, group cs 2, group cs 3, group cs 4, group cs 5]"
  by (simp add: groups_def upt_rec eval_nat_numeral)

lemma list5: "length m = 5 \<Longrightarrow> [m ! 0, m ! Suc 0, m ! 2, m ! 3, m ! 4] = m"
  by (auto simp: list_eq_iff_nth_eq less_Suc_eq numeral_eq_Suc)

lemma restaurant_pattern_block:
  assumes "accepted m"
  shows "\<exists>cs. wins DOTALL [R restaurant_pattern] (Map.empty, block k m @ rest) (cs, rest) \<and>
           groups 5 cs = m"
proof -
  from assms have ok: "field_ok (m ! 0)" "field_ok (m ! 1)" "field_ok (m ! 2)" "field_ok (m ! 3)"
    "field_ok (m ! 4)" and len: "length m = 5" and name: "\<not> is_space (hd (m ! 0))"
    by (simp_all add: accepted_def list_all_length)
  show ?thesis
    unfolding restaurant_pattern_items wins_seqs block_def
    apply (simp only: map_append append_assoc)
    apply (intro exI conjI)
     apply (rule wins_heading [OF ok(1) name])
     apply (rule wins_location [OF ok(2)])
     apply (rule wins_line [OF ok(3)], simp, simp, simp)
     apply (rule wins_line [OF ok(4)], simp, simp, simp)
     apply (rule wins_line [OF ok(5)], simp, simp, simp)
     apply (simp only: wins_Nil)
    apply (simp add: groups_5 group_def consumed_append list5 [OF len])
    done
qed


subsection \<open>Every block of a document\<close>

lemma restaurant_pattern_begins: "begins DOTALL 35 restaurant_pattern"
  by (simp add: restaurant_pattern_def lits_def)

lemma block_nonempty [simp]: "block k m \<noteq> []"
  by (simp add: block_def block_heading_def)

lemma findall_document_text:
  "35 \<notin> set pre \<Longrightarrow> blocks_ok bs \<Longrightarrow>
   35 \<notin> set post \<Longrightarrow>
     map (groups 5) (findall_loop DOTALL restaurant_pattern adv (document pre bs @ post)) =
       map (\<lambda>(k, m, gap). m) bs"
proof (induction bs arbitrary: pre adv)
  case Nil
  then show ?case
    by (simp add: needs_findall_loop [OF begins_needs [OF restaurant_pattern_begins]])
next
  case (Cons b bs)
  obtain k m gap where b: "b = (k, m, gap)" by (cases b)
  with Cons.prems have m: "accepted m" and gap: "35 \<notin> set gap"
    and bs: "blocks_ok bs"
    by simp_all
  from restaurant_pattern_block [OF m] obtain cs
    where "wins DOTALL [R restaurant_pattern] (Map.empty, block k m @ document gap bs @ post)
             (cs, document gap bs @ post)" and "groups 5 cs = m"
    by blast
  with Cons.prems(1) Cons.IH [OF gap bs Cons.prems(3)] show ?case
    by (simp add: b findall_loop_next [OF restaurant_pattern_begins])
qed

lemma restaurants_of_document_text:
  assumes "35 \<notin> set pre" and "blocks_ok bs" and "35 \<notin> set post"
  shows "restaurants_of (document pre bs @ post) =
     map (\<lambda>(k, m, gap). restaurant_of_match m) bs"
  using findall_document_text [OF assms, of False]
  by (simp add: restaurants_of_def findall_tuples_def case_prod_unfold comp_def)

text \<open>
  C2.  On a document of accepted blocks \<^verbatim>\<open>parse_restaurants_from_ai\<close> finds every block and
  nothing else: \<open>restaurants_of\<close> returns the restaurant of each block, in the order of the
  text, whatever stands before the first block and between the blocks, as long as that
  text has no \<^verbatim>\<open>#\<close>.  The numbers of the headings are not read.
\<close>

theorem restaurants_of_document:
  "35 \<notin> set pre \<Longrightarrow> blocks_ok bs \<Longrightarrow>
     restaurants_of (document pre bs) = map (\<lambda>(k, m, gap). restaurant_of_fields m) bs"
  using restaurants_of_document_text [of pre bs "[]"]
  by (simp add: restaurant_of_match_def restaurant_of_fields_def Let_def rating_of_eq)

definition sample_fields :: "pystr list" where
  "sample_fields =
     [str ''Fisherman's Wharf'', str ''Cavelossim, Goa'', str ''Prawn Curry, Fish Thali'',
      rupee # str ''1200 for two'', str ''Riverside, relaxed'']"

lemma sample_fields_accepted: "accepted sample_fields"
  by (simp add: sample_fields_def accepted_def field_ok_def rupee_def py_eval)

theorem restaurants_of_document_witness:
  "restaurants_of (document (str ''Top picks:'' @ [10])
       [(1, sample_fields, [10]), (7, sample_fields, [])]) =
     [restaurant_of_fields sample_fields, restaurant_of_fields sample_fields]"
  using restaurants_of_document
    [of "str ''Top picks:'' @ [10]" "[(1, sample_fields, [10]), (7, sample_fields, [])]"]
  by (simp add: sample_fields_accepted)


section \<open>A listing of specialties\<close>

text \<open>
  An entry is a backslash, the letter s, a backslash, the name, a colon, a backslash, a
  blank and the description.  In a listing every entry stands between two line breaks,
  so that two entries are an empty line apart; \<open>fin\<close> is what stands behind the last
  entry, a line break or nothing.  A name has no colon and a description no backslash,
  neither has a line break or the sign \<^verbatim>\<open>#\<close>, and a description does not begin with white
  space.
\<close>
definition entry :: "pystr \<Rightarrow> pystr \<Rightarrow> pystr" where
  "entry n d = [92, 115, 92] @ n @ [58, 92, 32] @ d"

fun listing :: "pystr \<Rightarrow> (pystr \<times> pystr) list \<Rightarrow> pystr" where
  "listing fin [] = []"
| "listing fin [(n, d)] = 10 # entry n d @ fin"
| "listing fin ((n, d) # e # es) = 10 # entry n d @ 10 # listing fin (e # es)"

definition name_ok :: "pystr \<Rightarrow> bool" where
  "name_ok n \<longleftrightarrow> n \<noteq> [] \<and> 10 \<notin> set n \<and> 58 \<notin> set n \<and> 35 \<notin> set n"

definition desc_ok :: "pystr \<Rightarrow> bool" where
  "desc_ok d \<longleftrightarrow> d \<noteq> [] \<and> 10 \<notin> set d \<and> 92 \<notin> set d \<and> 35 \<notin> set d \<and> \<not> is_space (hd d)"

abbreviation entries_ok :: "(pystr \<times> pystr) list \<Rightarrow> bool" where
  "entries_ok es \<equiv> list_all (\<lambda>(n, d). name_ok n \<and> desc_ok d) es"

subsection \<open>One entry\<close>

definition entry_end :: regex where
  "entry_end = Lookahead (Alt (seqs [Atom (Lit 92), Atom (Lit 115), Atom (Lit 92)])
                           (Alt (seqs [Atom (Lit 10), Atom (Lit 10)]) Eos))"

lemma specialty_pattern_items:
  "specialty_pattern = seqs
     [Atom (Lit 92), Atom (Lit 115), Atom (Lit 92), Group 1 (lazy_plus AnyChar),
      Atom (Lit 58), Atom (Lit 92), star Space, Group 2 (lazy_plus AnyChar), entry_end]"
  by (simp add: specialty_pattern_def entry_end_def)

lemma blocked_entry_end: "c \<noteq> 92 \<Longrightarrow> c \<noteq> 10 \<Longrightarrow> blocked no_flags [R entry_end] c"
  unfolding entry_end_def by (rule blocked_Lookahead) simp

lemma wins_entry_end:
  "rest = [] \<or> rest = [10] \<or> (\<exists>t. rest = 10 # 10 # t) \<Longrightarrow>
     wins no_flags [R entry_end] (cs, rest) (cs, rest)"
  unfolding entry_end_def wins_Lookahead by auto

lemma groups_2: "groups 2 cs = [group cs 1, group cs 2]"
  by (simp add: groups_def upt_rec eval_nat_numeral)

lemma specialty_pattern_entry:
  assumes "name_ok n" and "desc_ok d"
    and "rest = [] \<or> rest = [10] \<or> (\<exists>t. rest = 10 # 10 # t)"
  shows "\<exists>cs. wins no_flags [R specialty_pattern] (Map.empty, entry n d @ rest) (cs, rest) \<and>
           groups 2 cs = [n, d]"
proof -
  let ?d = "R (Group 2 (lazy_plus AnyChar)) # [R entry_end]"
  let ?n = "R (Group 1 (lazy_plus AnyChar)) # R (Atom (Lit 58)) # R (Atom (Lit 92)) #
    R (star Space) # ?d"
  define cs :: caps
    where "cs = [1 \<mapsto> (n @ 58 # 92 # 32 # d @ rest, 58 # 92 # 32 # d @ rest), 2 \<mapsto> (d @ rest, rest)]"
  from assms(2) obtain c d' where d: "d = c # d'" "\<not> is_space c"
    by (cases d) (auto simp: desc_ok_def)
  have "wins no_flags [R entry_end] (cs, rest) (cs, rest)"
    using assms(3) by (rule wins_entry_end)
  with assms(2) have "wins no_flags ?d (cs(2 := None), d @ rest) (cs, rest)"
    by (intro wins_group_until) (auto simp: desc_ok_def list_all_iff cs_def intro!: blocked_entry_end)
  with d have "wins no_flags (R (star Space) # ?d) (cs(2 := None), 32 # d @ rest) (cs, rest)"
    by (intro wins_star_step) (simp_all del: wins_Group)
  with assms(1) have "wins no_flags ?n (Map.empty, n @ 58 # 92 # 32 # d @ rest) (cs, rest)"
    by (intro wins_group_until)
      (auto simp: name_ok_def list_all_iff cs_def simp del: wins_Group intro!: blocked_Atom)
  then have "wins no_flags [R specialty_pattern] (Map.empty, entry n d @ rest) (cs, rest)"
    unfolding specialty_pattern_items wins_seqs entry_def by (simp del: wins_Group)
  moreover have "groups 2 cs = [n, d]"
    by (simp add: groups_2 group_def cs_def consumed_append
        consumed_append [of n "58 # 92 # 32 # d @ rest", simplified])
  ultimately show ?thesis by blast
qed


subsection \<open>Every entry of a listing\<close>

lemma specialty_pattern_begins: "begins no_flags 92 specialty_pattern"
  by (simp add: specialty_pattern_def)

lemma listing_Cons: "\<exists>t. listing fin (e # es) = 10 # t"
  by (cases e; cases es) auto

lemma findall_listing:
  "fin = [] \<or> fin = [10] \<Longrightarrow> entries_ok es \<Longrightarrow>
     map (groups 2) (findall_loop no_flags specialty_pattern adv (listing fin es)) =
       map (\<lambda>(n, d). [n, d]) es"
proof (induction fin es arbitrary: adv rule: listing.induct)
  case (1 fin)
  show ?case
    by (simp add: needs_findall_loop [OF specialty_pattern_needs])
next
  case (2 fin n d)
  then obtain cs
    where "wins no_flags [R specialty_pattern] (Map.empty, entry n d @ fin) (cs, fin)"
      and "groups 2 cs = [n, d]"
    using specialty_pattern_entry [of n d fin] by auto
  moreover from "2.prems"(1) have "findall_loop no_flags specialty_pattern False fin = []"
    by (auto simp: needs_findall_loop [OF specialty_pattern_needs])
  ultimately show ?case
    using findall_loop_next [OF specialty_pattern_begins, of "[10]" "entry n d" fin cs adv]
    by (simp add: entry_def)
next
  case (3 fin n d e es)
  let ?rest = "listing fin (e # es)"
  obtain t where t: "?rest = 10 # t" using listing_Cons by blast
  with "3.prems" obtain cs
    where "wins no_flags [R specialty_pattern] (Map.empty, entry n d @ 10 # ?rest) (cs, 10 # ?rest)"
      and "groups 2 cs = [n, d]"
    using specialty_pattern_entry [of n d "10 # ?rest"] by auto
  moreover have "findall_loop no_flags specialty_pattern False (10 # ?rest) =
      findall_loop no_flags specialty_pattern False ?rest"
    using findall_loop_skip [OF specialty_pattern_begins, of "[10]" False ?rest] by simp
  ultimately show ?case
    using findall_loop_next [OF specialty_pattern_begins, of "[10]" "entry n d" "10 # ?rest" cs adv]
      "3.IH" [of False] "3.prems"
    by (simp add: entry_def)
qed

lemma listing_snoc: "es \<noteq> [] \<Longrightarrow> listing (fin @ t) es = listing fin es @ t"
  by (induction fin es rule: listing.induct) simp_all

lemma listing_no_hash: "entries_ok es \<Longrightarrow> 35 \<notin> set fin \<Longrightarrow> 35 \<notin> set (listing fin es)"
  by (induction fin es rule: listing.induct) (simp_all add: entry_def name_ok_def desc_ok_def)

lemma listing_last: "entries_ok es \<Longrightarrow> es \<noteq> [] \<Longrightarrow> last (listing [] es) \<noteq> 10"
proof (induction "[] :: pystr" es rule: listing.induct)
  case (2 n d)
  then have "d \<noteq> []" "10 \<notin> set d" by (simp_all add: desc_ok_def)
  then have "last d \<noteq> 10" by (metis last_in_set)
  with \<open>d \<noteq> []\<close> show ?case by (simp add: entry_def)
next
  case (3 n d e es)
  obtain t where "listing [] (e # es) = 10 # t" using listing_Cons by blast
  with 3 show ?case by (simp add: entry_def)
qed simp

subsection \<open>The section\<close>

definition section_end :: regex where
  "section_end = Lookahead (Alt (lits (str ''###'')) Eos)"

lemma specialty_section_pattern_items:
  "specialty_section_pattern = seqs
     [lits (str ''local''), opt AnyChar, lits (str ''specialtie''), opt (Lit 115),
      opt AnyChar, Atom (Lit 58), Group 1 (lazy_star AnyChar), section_end]"
  by (simp add: specialty_section_pattern_def section_end_def)

lemma wins_section_end:
  "tail = [] \<or> tail = [10] \<or> prefix (str ''###'') tail \<Longrightarrow>
     wins IGNORECASE_DOTALL [R section_end] (cs, tail) (cs, tail)"
  unfolding section_end_def wins_Lookahead
  by (auto simp: lits_def ci_variants_def prefix_def py_eval)

lemma section_end_fails:
  "c \<noteq> 35 \<Longrightarrow> c # s \<noteq> [10] \<Longrightarrow> conts IGNORECASE_DOTALL [R section_end] (cs, c # s) = []"
  by (simp add: section_end_def lits_def ci_variants_def py_eval)

lemma wins_section_group:
  assumes "35 \<notin> set G" and "tail = [] \<or> tail = [10] \<or> prefix (str ''###'') tail"
    and "tail = [] \<Longrightarrow> G = [] \<or> last G \<noteq> 10"
  shows "wins IGNORECASE_DOTALL [R (Group 1 (lazy_star AnyChar)), R section_end]
     (Map.empty, G @ tail) ([1 \<mapsto> (G @ tail, tail)], tail)"
proof -
  let ?its = "[Close 1 (G @ tail), R section_end]"
  have "wins IGNORECASE_DOTALL ?its (Map.empty, tail) ([1 \<mapsto> (G @ tail, tail)], tail)"
    using assms(2) by (simp add: wins_section_end)
  moreover have "atom_ok IGNORECASE_DOTALL AnyChar (hd v) \<and>
      conts IGNORECASE_DOTALL ?its (Map.empty, v @ tail) = []"
    if "G = u @ v" "v \<noteq> []" for u v
  proof -
    from that obtain c v' where v: "v = c # v'" by (cases v) auto
    with that assms(1) have "c \<noteq> 35" by auto
    moreover have "v @ tail \<noteq> [10]"
      using that assms(3) by (cases "tail = []") (auto simp: append_eq_Cons_conv)
    ultimately show ?thesis
      by (simp add: v conts_Close section_end_fails del: conts.simps)
  qed
  ultimately show ?thesis
    by (simp add: wins_lazy_star_through del: wins_Close)
qed


lemma wins_section_heading:
  assumes "s = [] \<or> hd s \<noteq> 58"
    and "wins IGNORECASE_DOTALL [R (Group 1 (lazy_star AnyChar)), R section_end] (Map.empty, s) x"
  shows "wins IGNORECASE_DOTALL [R specialty_section_pattern]
     (Map.empty, str ''Local Specialties:'' @ s) x"
proof -
  let ?g = "[R (Group 1 (lazy_star AnyChar)), R section_end]"
  let ?colon = "R (opt AnyChar) # R (Atom (Lit 58)) # ?g"
  from assms(1) have "conts IGNORECASE_DOTALL (R (Atom (Lit 58)) # ?g) (Map.empty, s) = []"
    by (cases s) (auto simp: ci_variants_def py_eval)
  moreover from assms(2) have "wins IGNORECASE_DOTALL (R (Atom (Lit 58)) # ?g) (Map.empty, 58 # s) x"
    by (simp add: ci_variants_def py_eval del: wins_Group)
  ultimately have "wins IGNORECASE_DOTALL ?colon (Map.empty, 58 # s) x"
    by (rule wins_opt_skip)
  then have "wins IGNORECASE_DOTALL (R (opt (Lit 115)) # ?colon) (Map.empty, 115 # 58 # s) x"
    by (rule wins_opt_take [rotated]) (simp add: ci_variants_def py_eval)
  then have "wins IGNORECASE_DOTALL
      (R (lits (str ''specialtie'')) # R (opt (Lit 115)) # ?colon)
      (Map.empty, str ''Specialties:'' @ s) x"
    by (simp add: lits_def ci_variants_def py_eval del: wins_Group)
  then have "wins IGNORECASE_DOTALL
      (R (opt AnyChar) # R (lits (str ''specialtie'')) # R (opt (Lit 115)) # ?colon)
      (Map.empty, 32 # str ''Specialties:'' @ s) x"
    by (rule wins_opt_take [rotated]) simp
  then show ?thesis
    unfolding specialty_section_pattern_items wins_seqs
    by (simp add: lits_def ci_variants_def py_eval del: wins_Group)
qed


lemma lower_pointwise: "list_all2 (\<lambda>a c. lower_cp c = [a]) w u \<Longrightarrow> lower u = w"
  by (induction rule: list_all2_induct) (simp_all add: lower_Cons)

lemma ci_local:
  "atom_ok IGNORECASE_DOTALL (Lit a) c \<Longrightarrow> a \<in> set (str ''local'') \<Longrightarrow> lower_cp c = [a]"
  by (auto simp: ci_variants_def py_eval)

lemma section_starts_local:
  assumes "ms IGNORECASE_DOTALL specialty_section_pattern (cs, t) \<noteq> []"
  shows "\<exists>w t'. t = w @ t' \<and> lower w = str ''local''"
proof -
  from assms obtain cs' s' where "(cs', s') \<in> set (ms IGNORECASE_DOTALL (lits (str ''local'')) (cs, t))"
    unfolding specialty_section_pattern_def
    by (cases "ms IGNORECASE_DOTALL (lits (str ''local'')) (cs, t)") auto
  then obtain u where u: "t = u @ s'"
    and ci: "list_all2 (\<lambda>a c. atom_ok IGNORECASE_DOTALL (Lit a) c) (str ''local'') u"
    by (blast dest: ms_lits)
  from ci have "list_all2 (\<lambda>a c. lower_cp c = [a]) (str ''local'') u"
    by (rule list.rel_mono_strong) (rule ci_local)
  then have "lower u = str ''local''" by (rule lower_pointwise)
  with u show ?thesis by blast
qed

lemma lower_no_newline: "lower w = str ''local'' \<Longrightarrow> 10 \<notin> set w"
proof
  assume eq: "lower w = str ''local''"
  have "10 \<in> set (lower_cp 10)"
    by (simp add: lower_cp_def is_ascii_upper_def)
  moreover assume "10 \<in> set w"
  ultimately have "10 \<in> set (lower w)"
    by (auto simp: lower_def)
  with eq show False by simp
qed

lemma section_not_before:
  assumes "\<not> sublist (str ''local'') (lower pre)" and "pre = [] \<or> last pre = 10"
    and "pre = u @ v" and "v \<noteq> []"
  shows "ms IGNORECASE_DOTALL specialty_section_pattern (cs, v @ s) = []"
proof (rule ccontr)
  assume "ms IGNORECASE_DOTALL specialty_section_pattern (cs, v @ s) \<noteq> []"
  then obtain w t' where w: "v @ s = w @ t'" "lower w = str ''local''"
    using section_starts_local by blast
  from assms(2,3,4) have "last v = 10" by auto
  from w(1) consider (inside) "prefix w v" | (across) "prefix v w"
    by (auto simp: append_eq_append_conv2 prefix_def)
  then show False
  proof cases
    case inside
    then obtain z where "v = w @ z" by (auto simp: prefix_def)
    with assms(3) have "sublist w pre"
      unfolding sublist_def by blast
    then have "sublist (lower w) (lower pre)" by (rule sublist_lower)
    with w(2) assms(1) show False by simp
  next
    case across
    with \<open>last v = 10\<close> assms(4) have "10 \<in> set w"
      by (metis last_in_set set_mono_prefix subsetD)
    with lower_no_newline [OF w(2)] show False by simp
  qed
qed

lemma lower_local_letters:
  assumes "lower w = str ''local''" and "c \<in> set w"
  shows "c \<in> {108, 76, 111, 79, 99, 67, 97, 65}"
proof -
  from assms(2) have "set (lower_cp c) \<subseteq> set (lower w)"
    by (auto simp: lower_def)
  with assms(1) have "set (lower_cp c) \<subseteq> {108, 111, 99, 97}"
    by auto
  then show ?thesis
    by (auto simp: lower_cp_def is_ascii_upper_def split: if_splits)
qed

lemma section_not_at:
  assumes "\<not> sublist (str ''local'') (lower pre)" and "pre = u @ v" and "v \<noteq> []"
    and edge: "last pre = 10 \<or> (s \<noteq> [] \<and> hd s = 35)"
  shows "ms IGNORECASE_DOTALL specialty_section_pattern (cs, v @ s) = []"
proof (rule ccontr)
  assume "ms IGNORECASE_DOTALL specialty_section_pattern (cs, v @ s) \<noteq> []"
  then obtain w t' where w: "v @ s = w @ t'" "lower w = str ''local''"
    using section_starts_local by blast
  from w(1) consider (inside) "prefix w v" | (across) z where "z \<noteq> []" "w = v @ z" "prefix z s"
    by (auto simp: append_eq_append_conv2 prefix_def) (metis append_Nil2)
  then show False
  proof cases
    case inside
    then obtain z where "v = w @ z" by (auto simp: prefix_def)
    with assms(2) have "sublist w pre"
      unfolding sublist_def by blast
    then have "sublist (lower w) (lower pre)" by (rule sublist_lower)
    with w(2) assms(1) show False by simp
  next
    case across
    from assms(2,3) have "last pre = last v" by simp
    moreover from assms(3) have "last v \<in> set v" by simp
    moreover from across have "hd s \<in> set z" by (cases z) (auto simp: prefix_def)
    ultimately have "10 \<in> set w \<or> 35 \<in> set w"
      using across(2) edge by auto
    with lower_local_letters [OF w(2), of 10] lower_local_letters [OF w(2), of 35]
    show False by auto
  qed
qed

lemma section_nowhere:
  assumes "\<not> sublist (str ''local'') (lower s)"
  shows "search_from IGNORECASE_DOTALL specialty_section_pattern False s = None"
proof (rule search_from_nowhere, rule ccontr)
  fix u v assume s: "s = u @ v"
    and "ms IGNORECASE_DOTALL specialty_section_pattern (Map.empty, v) \<noteq> []"
  then obtain w t' where "v = w @ t'" "lower w = str ''local''"
    using section_starts_local by blast
  with s have "sublist (lower w) (lower s)"
    by (intro sublist_lower) (auto simp: sublist_def)
  with \<open>lower w = str ''local''\<close> assms show False by simp
qed

lemma search_section:
  assumes pre: "\<not> sublist (str ''local'') (lower pre)" "pre = [] \<or> last pre = 10"
    and G: "35 \<notin> set G" "G @ tail = [] \<or> hd (G @ tail) \<noteq> 58"
    and tail: "tail = [] \<or> tail = [10] \<or> prefix (str ''###'') tail"
      "tail = [] \<Longrightarrow> G = [] \<or> last G \<noteq> 10"
  shows "search IGNORECASE_DOTALL specialty_section_pattern
      (pre @ str ''Local Specialties:'' @ G @ tail) = Some [1 \<mapsto> (G @ tail, tail)]"
proof -
  let ?s = "str ''Local Specialties:'' @ G @ tail"
  have "wins IGNORECASE_DOTALL [R specialty_section_pattern] (Map.empty, ?s)
      ([1 \<mapsto> (G @ tail, tail)], tail)"
    using G(2) by (intro wins_section_heading wins_section_group G(1) tail)
  then have "search_from IGNORECASE_DOTALL specialty_section_pattern False ?s =
      Some (?s, [1 \<mapsto> (G @ tail, tail)], tail)"
    by (intro search_from_here wins_match_at)
  moreover have "search_from IGNORECASE_DOTALL specialty_section_pattern False (pre @ ?s) =
      search_from IGNORECASE_DOTALL specialty_section_pattern False ?s"
    using pre by (intro search_from_past section_not_before)
  ultimately show ?thesis
    by (simp add: search_def)
qed

lemma local_specialties_of_at:
  assumes "\<not> sublist (str ''local'') (lower pre)" and "pre = [] \<or> last pre = 10"
    and es: "entries_ok es" and fin: "fin = [] \<or> fin = [10]"
    and tail: "tail = [] \<or> tail = [10] \<or> prefix (str ''###'') tail" "tail = [] \<Longrightarrow> fin = []"
  shows "local_specialties_of (pre @ str ''Local Specialties:'' @ listing fin es @ tail) =
     map (\<lambda>(n, d). specialty_of_match [n, d]) es"
proof -
  let ?G = "listing fin es"
  from es fin have "35 \<notin> set ?G" using listing_no_hash [of es fin] by auto
  moreover have "?G @ tail = [] \<or> hd (?G @ tail) \<noteq> 58"
  proof (cases es)
    case Nil
    with tail(1) show ?thesis by (auto simp: prefix_def)
  next
    case (Cons e es')
    then obtain t where "?G = 10 # t" using listing_Cons by blast
    then show ?thesis by simp
  qed
  moreover have "?G = [] \<or> last ?G \<noteq> 10" if "tail = []"
    using that tail(2) es listing_last [of es] by (cases es) auto
  ultimately have "search IGNORECASE_DOTALL specialty_section_pattern
      (pre @ str ''Local Specialties:'' @ ?G @ tail) = Some [1 \<mapsto> (?G @ tail, tail)]"
    using assms(1,2) tail(1) by (intro search_section)
  moreover have "findall_tuples no_flags specialty_pattern ?G = map (\<lambda>(n, d). [n, d]) es"
    using findall_listing [OF fin es, of False] by (simp add: findall_tuples_def)
  ultimately show ?thesis
    by (simp add: local_specialties_of_def group_def consumed_append case_prod_unfold comp_def)
qed

lemma local_specialties_of_end:
  assumes "\<not> sublist (str ''local'') (lower pre)" and "pre = [] \<or> last pre = 10"
    and "entries_ok es"
  shows "local_specialties_of (pre @ str ''Local Specialties:'' @ listing [10] es) =
     map (\<lambda>(n, d). specialty_of_match [n, d]) es"
proof (cases "es = []")
  case True
  have "local_specialties_of (pre @ str ''Local Specialties:'' @ listing [] es @ []) =
      map (\<lambda>(n, d). specialty_of_match [n, d]) es"
    by (intro local_specialties_of_at assms) simp_all
  with True show ?thesis by simp
next
  case False
  have "local_specialties_of (pre @ str ''Local Specialties:'' @ listing [] es @ [10]) =
      map (\<lambda>(n, d). specialty_of_match [n, d]) es"
    by (intro local_specialties_of_at assms) simp_all
  with False show ?thesis
    using listing_snoc [of es "[]" "[10]"] by simp
qed

lemma heading_listing_no_hash:
  "entries_ok es \<Longrightarrow> 35 \<notin> set (str ''Local Specialties:'' @ listing [10] es)"
  using listing_no_hash [of es "[10]"] by simp

subsection \<open>The specialties of a text\<close>

text \<open>
  C3.  A listing behind the heading \<^verbatim>\<open>Local Specialties:\<close> is read entry by entry:
  \<open>local_specialties_of\<close> returns the name and the description of every entry, stripped, in
  the order of the text, and no place to find it.  The heading is the first place of the
  text with the word \<^verbatim>\<open>local\<close> and stands at the start of a line; the listing runs to the
  end of the text or to the next \<^verbatim>\<open>###\<close>.
\<close>

theorem local_specialties_of_listing:
  "\<not> sublist (str ''local'') (lower pre) \<Longrightarrow> pre = [] \<or> last pre = 10 \<Longrightarrow>
   entries_ok es \<Longrightarrow> post = [] \<or> prefix (str ''###'') post \<Longrightarrow>
     local_specialties_of (pre @ str ''Local Specialties:'' @ listing [10] es @ post) =
       map (\<lambda>(n, d). \<lparr>LocalSpecialty.name = strip n, description = strip d,
                      where_to_find = None\<rparr>) es"
proof -
  assume pre: "\<not> sublist (str ''local'') (lower pre)" "pre = [] \<or> last pre = 10"
    and es: "entries_ok es" and post: "post = [] \<or> prefix (str ''###'') post"
  show ?thesis
  proof (cases "post = []")
    case True
    with local_specialties_of_end [OF pre es] show ?thesis
      by (simp add: specialty_of_match_def)
  next
    case False
    with post
    have "local_specialties_of (pre @ str ''Local Specialties:'' @ listing [10] es @ post) =
        map (\<lambda>(n, d). specialty_of_match [n, d]) es"
      by (intro local_specialties_of_at pre es) simp_all
    then show ?thesis
      by (simp add: specialty_of_match_def)
  qed
qed

definition sample_entries :: "(pystr \<times> pystr) list" where
  "sample_entries =
     [(str ''Bebinca'', str ''layered coconut pudding''), (str ''Feni'', str ''cashew spirit'')]"

lemma sample_entries_ok: "entries_ok sample_entries"
  by (simp add: sample_entries_def name_ok_def desc_ok_def py_eval)

lemma no_local_in_intro: "\<not> sublist (str ''local'') (lower (str ''Enjoy Goa!'' @ [10]))"
  by (simp add: py_eval)

theorem local_specialties_of_listing_witness:
  "local_specialties_of
       (str ''Enjoy Goa!'' @ [10] @ str ''Local Specialties:'' @ listing [10] sample_entries @
        str ''### Tips'') =
     [\<lparr>LocalSpecialty.name = str ''Bebinca'', description = str ''layered coconut pudding'',
       where_to_find = None\<rparr>,
      \<lparr>LocalSpecialty.name = str ''Feni'', description = str ''cashew spirit'',
       where_to_find = None\<rparr>]"
proof -
  have "prefix (str ''###'') (str ''### Tips'')"
    by (simp add: py_eval)
  then have "str ''### Tips'' = [] \<or> prefix (str ''###'') (str ''### Tips'')" ..
  with local_specialties_of_listing [OF no_local_in_intro _ sample_entries_ok,
      of "str ''### Tips''"]
  show ?thesis
    by (simp add: sample_entries_def py_eval)
qed


section \<open>The heading that the prompt asks for\<close>

text \<open>
  The system prompt asks the model to head the section
  \<^verbatim>\<open>### Local Specialties You Must Try:\<close>.  The pattern of the section wants the colon
  right behind the word \<^verbatim>\<open>Specialties\<close>, so no match starts in this heading.
\<close>

lemma section_not_in_heading:
  "search_from IGNORECASE_DOTALL specialty_section_pattern False (specialties_heading @ post) =
     search_from IGNORECASE_DOTALL specialty_section_pattern False post"
  by (simp add: specialties_heading_def specialty_section_pattern_def re_eval py_eval)

text \<open>
  C14.  A completion that heads the specialties the way the prompt asks for, and has the
  word \<^verbatim>\<open>local\<close> nowhere else, yields no specialty at all, whatever is listed behind the
  heading: \<open>local_specialties_of\<close> returns the empty list.
\<close>

theorem specialties_heading_not_accepted:
  "\<not> sublist (str ''local'') (lower pre) \<Longrightarrow> \<not> sublist (str ''local'') (lower post) \<Longrightarrow>
     local_specialties_of (pre @ specialties_heading @ post) = []"
proof -
  assume pre: "\<not> sublist (str ''local'') (lower pre)"
    and post: "\<not> sublist (str ''local'') (lower post)"
  have "search_from IGNORECASE_DOTALL specialty_section_pattern False
        (pre @ specialties_heading @ post) =
      search_from IGNORECASE_DOTALL specialty_section_pattern False (specialties_heading @ post)"
    using pre by (intro search_from_past section_not_at) (simp_all add: specialties_heading_def)
  with post
  have "search IGNORECASE_DOTALL specialty_section_pattern (pre @ specialties_heading @ post) = None"
    by (simp add: search_def section_not_in_heading section_nowhere)
  then show ?thesis
    by (simp add: local_specialties_of_def)
qed

lemma no_local_in_listing: "\<not> sublist (str ''local'') (lower (listing [10] sample_entries))"
  by (simp add: sample_entries_def entry_def py_eval)

theorem specialties_heading_not_accepted_witness:
  "local_specialties_of
     (str ''Enjoy Goa!'' @ [10] @ specialties_heading @ listing [10] sample_entries) = []"
  using specialties_heading_not_accepted [OF no_local_in_intro no_local_in_listing]
  by simp

end
