(* ===== verification/Client.thy ===== *)
theory Client
  imports Json
begin

text \<open>
  The completion client, \<^verbatim>\<open>call_ai_api\<close> of \<^verbatim>\<open>src/backend/main.py\<close> (lines 211 to 248),
  with the three constants it reads (lines 32 to 34).

  The client builds one HTTP request from the two prompts, sends it, and turns whatever
  happens into a value it returns: it has no \<^verbatim>\<open>raise\<close> and its \<^verbatim>\<open>except\<close> clauses catch
  every exception of the block.  What the service does is not part of the program, so
  the network is a parameter: a function from the request to an \<open>exchange\<close>, which is a
  timeout, another exception with its text, or a response with a status, the text that
  \<^verbatim>\<open>raise_for_status\<close> would raise with, and a body.  \<^verbatim>\<open>raise_for_status\<close> is that of
  current httpx, which raises for every status outside 200 to 299.

  \<open>try_body\<close> is the block under \<^verbatim>\<open>try\<close> with its exceptions as values, and
  \<open>call_ai_api\<close> the function with its two handlers.  The result is a Python value: a
  string on every path but the last, where it is the \<^verbatim>\<open>content\<close> of the reply, whatever
  JSON value that is.
\<close>

section \<open>Configuration\<close>

definition OPENROUTER_URL :: pystr where
  "OPENROUTER_URL = str ''https://openrouter.ai/api/v1/chat/completions''"

definition MODEL :: pystr where
  "MODEL = str ''deepseek/deepseek-chat-v3.1:free''"

text \<open>
  \<^verbatim>\<open>API_KEY\<close> is what \<^verbatim>\<open>os.getenv\<close> returned, \<^verbatim>\<open>None\<close> or a string; \<open>configured\<close> is its
  truth value, false for \<^verbatim>\<open>None\<close> and for the empty string.
\<close>

definition configured :: "pystr option \<Rightarrow> bool" where
  "configured API_KEY = (case API_KEY of None \<Rightarrow> False | Some k \<Rightarrow> k \<noteq> [])"

section \<open>The request\<close>

record http_request =
  url :: pystr
  headers :: "(pystr \<times> pystr) list"
  body :: json
  timeout :: rat

definition headers_of :: "pystr \<Rightarrow> (pystr \<times> pystr) list" where
  "headers_of k =
     [(str ''Authorization'', str ''Bearer '' @ k),
      (str ''Content-Type'', str ''application/json'')]"

definition payload_of :: "pystr \<Rightarrow> pystr \<Rightarrow> json" where
  "payload_of system_prompt user_prompt =
     JObj [(str ''model'', JStr MODEL),
           (str ''messages'',
            JArr [JObj [(str ''role'', JStr (str ''system'')),
                        (str ''content'', JStr system_prompt)],
                  JObj [(str ''role'', JStr (str ''user'')),
                        (str ''content'', JStr user_prompt)]]),
           (str ''temperature'', JFloat (7 / 10)),
           (str ''max_tokens'', JInt 2000)]"

definition completion_request :: "pystr \<Rightarrow> pystr \<Rightarrow> pystr \<Rightarrow> http_request" where
  "completion_request k system_prompt user_prompt =
     \<lparr>url = OPENROUTER_URL, headers = headers_of k,
      body = payload_of system_prompt user_prompt, timeout = 60\<rparr>"

section \<open>The network\<close>

datatype reply_body = Parsed json | Unparsable pystr

datatype exchange =
    TimedOut
  | Raised pystr
  | Responded nat pystr reply_body

type_synonym network = "http_request \<Rightarrow> exchange"

definition post :: "network \<Rightarrow> http_request \<Rightarrow> (nat \<times> pystr \<times> reply_body) attempt" where
  "post net req =
     (case net req of
        TimedOut \<Rightarrow> Inl (TimeoutException, [])
      | Raised msg \<Rightarrow> Inl (OtherError, msg)
      | Responded status msg b \<Rightarrow> Inr (status, msg, b))"

definition is_success :: "nat \<Rightarrow> bool" where
  "is_success status \<longleftrightarrow> 200 \<le> status \<and> status < 300"

definition raise_for_status :: "nat \<Rightarrow> pystr \<Rightarrow> unit attempt" where
  "raise_for_status status msg = (if is_success status then Inr () else Inl (HTTPStatusError, msg))"

definition response_json :: "reply_body \<Rightarrow> json attempt" where
  "response_json b = (case b of Parsed data \<Rightarrow> Inr data | Unparsable msg \<Rightarrow> Inl (OtherError, msg))"

section \<open>The texts the client returns\<close>

definition no_key_text :: pystr where
  "no_key_text =
     [10060] @ str '' API key not configured. Please add OPENROUTER_API_KEY to your .env file''"

definition payment_text :: pystr where
  "payment_text = [9888] @ str '' Payment required: You need credits on OpenRouter''"

definition invalid_format_text :: pystr where
  "invalid_format_text = [10060] @ str '' Invalid API response format''"

definition timeout_text :: pystr where
  "timeout_text =
     [9201] @ str '' Request timeout - free models can be slow, please try again''"

definition error_text :: "pystr \<Rightarrow> pystr" where
  "error_text msg = [10060] @ str '' Error: '' @ msg"

section \<open>The client\<close>

definition extract_content :: "json \<Rightarrow> json attempt" where
  "extract_content data =
     rbind (py_get data (str ''choices'')) (\<lambda>choices.
       if \<not> truthy choices then Inr (JStr invalid_format_text)
       else
         rbind (py_item data (str ''choices'')) (\<lambda>c.
         rbind (py_index0 c) (\<lambda>choice.
         rbind (py_get choice (str ''message'')) (\<lambda>message.
           if \<not> truthy message then Inr (JStr invalid_format_text)
           else
             rbind (py_item data (str ''choices'')) (\<lambda>c.
             rbind (py_index0 c) (\<lambda>choice.
             rbind (py_item choice (str ''message'')) (\<lambda>message.
               py_item message (str ''content''))))))))"

definition try_body :: "pystr \<Rightarrow> network \<Rightarrow> pystr \<Rightarrow> pystr \<Rightarrow> json attempt" where
  "try_body k net system_prompt user_prompt =
     rbind (post net (completion_request k system_prompt user_prompt)) (\<lambda>(status, msg, b).
       if status = 402 then Inr (JStr payment_text)
       else
         rbind (raise_for_status status msg) (\<lambda>_.
         rbind (response_json b) extract_content))"

definition call_ai_api :: "pystr option \<Rightarrow> network \<Rightarrow> pystr \<Rightarrow> pystr \<Rightarrow> json" where
  "call_ai_api API_KEY net system_prompt user_prompt =
     (case API_KEY of
        None \<Rightarrow> JStr no_key_text
      | Some k \<Rightarrow>
          if k = [] then JStr no_key_text
          else
            try_return (try_body k net system_prompt user_prompt)
              (\<lambda>(cls, msg).
                 if cls = TimeoutException then JStr timeout_text else JStr (error_text msg)))"

lemmas client_defs =
  OPENROUTER_URL_def MODEL_def configured_def headers_of_def payload_of_def
  completion_request_def post_def is_success_def raise_for_status_def response_json_def
  no_key_text_def payment_text_def invalid_format_text_def timeout_text_def error_text_def
  extract_content_def try_body_def call_ai_api_def

section \<open>The envelope of a reply\<close>

text \<open>
  The source reads \<^verbatim>\<open>data["choices"][0]\<close> three times and the message twice.
  \<open>content_of\<close> reads each once; the two agree on every JSON value.
\<close>

definition content_of :: "json \<Rightarrow> json attempt" where
  "content_of data =
     (case data of
        JObj kvs \<Rightarrow>
          (case map_of kvs (str ''choices'') of
             None \<Rightarrow> Inr (JStr invalid_format_text)
           | Some c \<Rightarrow>
               if \<not> truthy c then Inr (JStr invalid_format_text)
               else
                 rbind (py_index0 c) (\<lambda>choice.
                 rbind (py_get choice (str ''message'')) (\<lambda>message.
                   if \<not> truthy message then Inr (JStr invalid_format_text)
                   else py_item message (str ''content''))))
      | _ \<Rightarrow> Inl (no_attribute data (str ''get'')))"

lemma extract_content_JObj:
  "extract_content (JObj kvs) = content_of (JObj kvs)"
proof (cases "map_of kvs (str ''choices'')")
  case None
  then show ?thesis by (simp add: extract_content_def content_of_def)
next
  case (Some c)
  show ?thesis
  proof (cases "py_index0 c")
    case (Inl e)
    with Some show ?thesis by (simp add: extract_content_def content_of_def)
  next
    case (Inr choice)
    show ?thesis
    proof (cases "py_get choice (str ''message'')")
      case (Inl e)
      with Some Inr show ?thesis by (simp add: extract_content_def content_of_def)
    next
      case got: (Inr message)
      then obtain m where "choice = JObj m"
        using py_get_Inr_iff [of choice "str ''message''"] by auto
      with Some Inr got show ?thesis
        by (auto simp: extract_content_def content_of_def split: option.splits)
    qed
  qed
qed

lemma extract_content_once: "extract_content data = content_of data"
  by (cases data) (simp_all add: extract_content_JObj, simp_all add: extract_content_def content_of_def py_get_def)

lemma content_of_message:
  "map_of kvs (str ''choices'') = Some (JArr (JObj ch # rest)) \<Longrightarrow>
   map_of ch (str ''message'') = Some (JObj msg) \<Longrightarrow> msg \<noteq> [] \<Longrightarrow>
   content_of (JObj kvs) = py_item (JObj msg) (str ''content'')"
  by (simp add: content_of_def)

lemma content_of_class:
  "content_of data = Inl (cls, m) \<Longrightarrow> cls \<in> {AttributeError, TypeError, KeyError, IndexError}"
  by (auto simp: content_of_def json_defs rbind_Inl_iff
      split: json.splits option.splits list.splits if_splits)

section \<open>The paths of the client\<close>

lemma call_ai_api_table:
  "call_ai_api (Some k) net s u =
     (if k = [] then JStr no_key_text
      else case net (completion_request k s u) of
        TimedOut \<Rightarrow> JStr timeout_text
      | Raised msg \<Rightarrow> JStr (error_text msg)
      | Responded status msg b \<Rightarrow>
          if status = 402 then JStr payment_text
          else if \<not> is_success status then JStr (error_text msg)
          else (case b of
                  Unparsable m \<Rightarrow> JStr (error_text m)
                | Parsed data \<Rightarrow>
                    (case content_of data of Inl (cls, m) \<Rightarrow> JStr (error_text m) | Inr v \<Rightarrow> v)))"
  by (auto simp: call_ai_api_def try_body_def post_def raise_for_status_def response_json_def
      extract_content_once dest: content_of_class
      split: exchange.splits reply_body.splits sum.splits)

lemma call_ai_api_None [simp]: "call_ai_api None net s u = JStr no_key_text"
  by (simp add: call_ai_api_def)

text \<open>
  C17.  Without a credential the client returns the fixed advisory text, whatever the
  network would do: the result does not depend on \<open>net\<close>, so no request is sent.  An
  empty \<^verbatim>\<open>OPENROUTER_API_KEY\<close> counts as no credential.
\<close>

theorem call_ai_api_no_key:
  "\<not> configured API_KEY \<Longrightarrow> call_ai_api API_KEY net s u = JStr no_key_text"
  by (cases API_KEY) (simp_all add: configured_def call_ai_api_table)

theorem call_ai_api_no_key_witness:
  "\<not> configured (Some []) \<and>
   call_ai_api (Some []) (\<lambda>req. Responded 200 [] (Parsed JNull)) (str ''s'') (str ''u'')
     = JStr no_key_text"
  using call_ai_api_no_key [of "Some []" "\<lambda>req. Responded 200 [] (Parsed JNull)" "str ''s''" "str ''u''"]
  by (simp add: configured_def)

text \<open>
  C18.  Status 402 gives the payment advisory, before \<^verbatim>\<open>raise_for_status\<close> and before the
  body is read: the text of the status error and the body do not matter.
\<close>

theorem call_ai_api_payment:
  "configured (Some k) \<Longrightarrow> net (completion_request k s u) = Responded 402 msg b \<Longrightarrow>
     call_ai_api (Some k) net s u = JStr payment_text"
  by (simp add: configured_def call_ai_api_table)

theorem call_ai_api_payment_witness:
  "configured (Some (str ''key'')) \<and>
   (\<lambda>req. Responded 402 (str ''Client error'') (Unparsable []))
      (completion_request (str ''key'') (str ''s'') (str ''u''))
     = Responded 402 (str ''Client error'') (Unparsable []) \<and>
   call_ai_api (Some (str ''key'')) (\<lambda>req. Responded 402 (str ''Client error'') (Unparsable []))
      (str ''s'') (str ''u'') = JStr payment_text"
  using call_ai_api_payment [of "str ''key''"
      "\<lambda>req. Responded 402 (str ''Client error'') (Unparsable [])" "str ''s''" "str ''u''"
      "str ''Client error''" "Unparsable []"]
  by (simp add: configured_def)

text \<open>
  C19.  A timeout of the request gives the timeout advisory, a text of its own.
\<close>

theorem call_ai_api_timeout:
  "configured (Some k) \<Longrightarrow> net (completion_request k s u) = TimedOut \<Longrightarrow>
     call_ai_api (Some k) net s u = JStr timeout_text"
  by (simp add: configured_def call_ai_api_table)

theorem call_ai_api_timeout_witness:
  "configured (Some (str ''key'')) \<and>
   (\<lambda>req. TimedOut) (completion_request (str ''key'') (str ''s'') (str ''u'')) = TimedOut \<and>
   call_ai_api (Some (str ''key'')) (\<lambda>req. TimedOut) (str ''s'') (str ''u'') = JStr timeout_text"
  using call_ai_api_timeout [of "str ''key''" "\<lambda>req. TimedOut" "str ''s''" "str ''u''"]
  by (simp add: configured_def)

text \<open>
  C16.  A successful response whose \<^verbatim>\<open>choices\<close> are missing, \<^verbatim>\<open>null\<close> or empty gives the
  invalid-format advisory and not an index error.
\<close>

theorem call_ai_api_no_choices:
  "configured (Some k) \<Longrightarrow> is_success status \<Longrightarrow>
   net (completion_request k s u) = Responded status msg (Parsed (JObj kvs)) \<Longrightarrow>
   (case map_of kvs (str ''choices'') of None \<Rightarrow> True | Some c \<Rightarrow> \<not> truthy c) \<Longrightarrow>
     call_ai_api (Some k) net s u = JStr invalid_format_text"
  by (auto simp: configured_def call_ai_api_table content_of_def is_success_def
      split: option.splits)

theorem call_ai_api_no_choices_witness:
  "configured (Some (str ''key'')) \<and> is_success 200 \<and>
   (\<lambda>req. Responded 200 [] (Parsed (JObj [(str ''choices'', JArr [])])))
      (completion_request (str ''key'') (str ''s'') (str ''u''))
     = Responded 200 [] (Parsed (JObj [(str ''choices'', JArr [])])) \<and>
   (case map_of [(str ''choices'', JArr [])] (str ''choices'') of
      None \<Rightarrow> True | Some c \<Rightarrow> \<not> truthy c) \<and>
   call_ai_api (Some (str ''key''))
      (\<lambda>req. Responded 200 [] (Parsed (JObj [(str ''choices'', JArr [])])))
      (str ''s'') (str ''u'') = JStr invalid_format_text"
  using call_ai_api_no_choices [of "str ''key''" 200
      "\<lambda>req. Responded 200 [] (Parsed (JObj [(str ''choices'', JArr [])]))"
      "str ''s''" "str ''u''" "[]" "[(str ''choices'', JArr [])]"]
  by (simp add: configured_def is_success_def)

text \<open>
  C15.  A successful response with the envelope of the service gives the content of the
  first choice, as it is: the client does not look at it.
\<close>

theorem call_ai_api_content:
  "configured (Some k) \<Longrightarrow> is_success status \<Longrightarrow>
   net (completion_request k s u) = Responded status msg (Parsed (JObj kvs)) \<Longrightarrow>
   map_of kvs (str ''choices'') = Some (JArr (JObj ch # rest)) \<Longrightarrow>
   map_of ch (str ''message'') = Some (JObj m) \<Longrightarrow>
   map_of m (str ''content'') = Some v \<Longrightarrow>
     call_ai_api (Some k) net s u = v"
proof -
  assume k: "configured (Some k)" and ok: "is_success status"
    and net: "net (completion_request k s u) = Responded status msg (Parsed (JObj kvs))"
    and ch: "map_of kvs (str ''choices'') = Some (JArr (JObj ch # rest))"
    and m: "map_of ch (str ''message'') = Some (JObj m)"
    and v: "map_of m (str ''content'') = Some v"
  from v have "m \<noteq> []" by auto
  with ch m v have "content_of (JObj kvs) = Inr v"
    by (simp add: content_of_message)
  with k ok net show ?thesis
    by (auto simp: configured_def call_ai_api_table is_success_def)
qed

definition reply_with :: "json \<Rightarrow> json" where
  "reply_with v =
     JObj [(str ''choices'', JArr [JObj [(str ''message'', JObj [(str ''content'', v)])]])]"

lemma call_ai_api_reply_with:
  "k \<noteq> [] \<Longrightarrow> call_ai_api (Some k) (\<lambda>req. Responded 200 msg (Parsed (reply_with v))) s u = v"
  by (simp add: call_ai_api_table content_of_def reply_with_def is_success_def)

theorem call_ai_api_content_witness:
  "configured (Some (str ''key'')) \<and> is_success 200 \<and>
   (\<lambda>req. Responded 200 [] (Parsed (JObj [(str ''choices'',
        JArr [JObj [(str ''message'', JObj [(str ''content'', JStr (str ''Goa''))])]])])))
      (completion_request (str ''key'') (str ''s'') (str ''u''))
     = Responded 200 [] (Parsed (JObj [(str ''choices'',
        JArr [JObj [(str ''message'', JObj [(str ''content'', JStr (str ''Goa''))])]])])) \<and>
   map_of [(str ''choices'',
        JArr [JObj [(str ''message'', JObj [(str ''content'', JStr (str ''Goa''))])]])]
      (str ''choices'')
     = Some (JArr (JObj [(str ''message'', JObj [(str ''content'', JStr (str ''Goa''))])] # [])) \<and>
   map_of [(str ''message'', JObj [(str ''content'', JStr (str ''Goa''))])] (str ''message'')
     = Some (JObj [(str ''content'', JStr (str ''Goa''))]) \<and>
   map_of [(str ''content'', JStr (str ''Goa''))] (str ''content'') = Some (JStr (str ''Goa'')) \<and>
   call_ai_api (Some (str ''key''))
      (\<lambda>req. Responded 200 [] (Parsed (JObj [(str ''choices'',
        JArr [JObj [(str ''message'', JObj [(str ''content'', JStr (str ''Goa''))])]])])))
      (str ''s'') (str ''u'') = JStr (str ''Goa'')"
  using call_ai_api_content [of "str ''key''" 200
      "\<lambda>req. Responded 200 [] (Parsed (JObj [(str ''choices'',
        JArr [JObj [(str ''message'', JObj [(str ''content'', JStr (str ''Goa''))])]])]))"
      "str ''s''" "str ''u''" "[]"
      "[(str ''choices'',
        JArr [JObj [(str ''message'', JObj [(str ''content'', JStr (str ''Goa''))])]])]"
      "[(str ''message'', JObj [(str ''content'', JStr (str ''Goa''))])]" "[]"
      "[(str ''content'', JStr (str ''Goa''))]" "JStr (str ''Goa'')"]
  by (simp add: configured_def is_success_def)

text \<open>
  C12.  The client returns a string on every path but one: a value that is not a string
  is the content of a successful reply.  The annotation of the function promises a
  string; a reply whose content is a number, a list or \<^verbatim>\<open>null\<close> breaks it, and the value
  reaches the handlers.
\<close>

theorem call_ai_api_str:
  "is_str (call_ai_api API_KEY net s u) \<or>
   (\<exists>k status msg data.
      API_KEY = Some k \<and> is_success status \<and>
      net (completion_request k s u) = Responded status msg (Parsed data) \<and>
      content_of data = Inr (call_ai_api API_KEY net s u))"
proof (cases API_KEY)
  case None
  then show ?thesis by simp
next
  case (Some k)
  show ?thesis
    unfolding Some call_ai_api_table
    by (auto split: exchange.splits reply_body.splits sum.splits)
qed

end
