(* ===== verification/Handlers.thy ===== *)
theory Handlers
  imports Client Prompts Extractor
begin

text \<open>
  The request handlers of \<^verbatim>\<open>src/backend/main.py\<close> (lines 250 to 432).  A handler is a
  function of the credential, the network and the request, which FastAPI has validated.
  Each of the four handlers that call the completion service is the block under \<^verbatim>\<open>try\<close>
  with the fall-back of its \<^verbatim>\<open>except\<close> clause; a handler whose fall-back can raise again
  returns a result, and an \<open>Inl\<close> is an exception that leaves the handler.

  \<^item> \<open>travel_guide\<close> puts the value of the client into a \<open>TravelResponse\<close>.
  \<^item> \<open>recommend_restaurants\<close> passes it to the extractor; \<open>parse_reply\<close> is the call of
    \<^verbatim>\<open>parse_restaurants_from_ai\<close> on a value that need not be a string.
  \<^item> \<open>recommend_hotels\<close> and \<open>create_itinerary\<close> call the client and do not use what it
    returns.
  \<^item> \<open>root\<close>, \<open>health\<close> and \<open>popular_destinations\<close> return JSON documents; the time of
    \<open>health\<close> is a parameter.
\<close>

section \<open>General questions\<close>

definition sorry_text :: pystr where
  "sorry_text = str ''Sorry, I had trouble processing your question. Please try again.''"

definition travel_guide ::
  "(json \<Rightarrow> pystr) \<Rightarrow> pystr option \<Rightarrow> network \<Rightarrow> TravelQuery \<Rightarrow> TravelResponse" where
  "travel_guide validation_text API_KEY net query =
     try_return
       (let answer' = call_ai_api API_KEY net travel_system_prompt (question query)
        in mk_TravelResponse validation_text answer')
       (\<lambda>(cls, msg). \<lparr>answer = sorry_text, error = Some msg\<rparr>)"

section \<open>Restaurants\<close>

definition parse_reply :: "json \<Rightarrow> pystr \<Rightarrow> pystr option \<Rightarrow> RestaurantResponse result" where
  "parse_reply ai_response destination' budget' =
     (case ai_response of
        JStr t \<Rightarrow> parse_restaurants_from_ai t destination' budget'
      | _ \<Rightarrow> Inl TypeError)"

definition restaurants_fallback :: "RestaurantRequest \<Rightarrow> RestaurantResponse result" where
  "restaurants_fallback request =
     mk_RestaurantResponse (RestaurantRequest.destination request) [] []
       [str ''Error getting recommendations''] (RestaurantRequest.budget request)"

definition recommend_restaurants ::
  "pystr option \<Rightarrow> network \<Rightarrow> RestaurantRequest \<Rightarrow> RestaurantResponse result" where
  "recommend_restaurants API_KEY net request =
     try_except
       (let ai_response =
              call_ai_api API_KEY net restaurant_system_prompt (restaurant_user_prompt request)
        in parse_reply ai_response (RestaurantRequest.destination request)
             (RestaurantRequest.budget request))
       (\<lambda>e. restaurants_fallback request)"

section \<open>Hotels\<close>

definition recommend_hotels ::
  "pystr option \<Rightarrow> network \<Rightarrow> HotelRequest \<Rightarrow> HotelResponse result" where
  "recommend_hotels API_KEY net request =
     try_except
       (let ai_response = call_ai_api API_KEY net hotel_system_prompt (hotel_user_prompt request)
        in mk_HotelResponse (HotelRequest.destination request) []
             [str ''Book in advance'', str ''Check cancellation policy'']
             [str ''City Center'', str ''Business District'']
             (HotelRequest.budget request))
       (\<lambda>e. mk_HotelResponse (HotelRequest.destination request) []
               [str ''Error getting recommendations''] [] (HotelRequest.budget request))"

section \<open>Itineraries\<close>

definition create_itinerary ::
  "pystr option \<Rightarrow> network \<Rightarrow> ItineraryRequest \<Rightarrow> ItineraryResponse" where
  "create_itinerary API_KEY net request =
     try_return
       (let ai_response =
              call_ai_api API_KEY net itinerary_system_prompt (itinerary_user_prompt request);
            made :: ItineraryResponse attempt =
              Inr \<lparr>ItineraryResponse.destination = ItineraryRequest.destination request,
                   duration = ItineraryRequest.duration request,
                   itinerary = [],
                   budget_breakdown =
                     [(str ''accommodation'', str ''40%''), (str ''food'', str ''30%''),
                      (str ''activities'', str ''30%'')],
                   travel_tips = [str ''Pack light'', str ''Keep copies of documents''],
                   packing_suggestions =
                     [str ''Comfortable shoes'', str ''Weather appropriate clothes'']\<rparr>
        in made)
       (\<lambda>e. \<lparr>ItineraryResponse.destination = ItineraryRequest.destination request,
               duration = ItineraryRequest.duration request,
               itinerary = [], budget_breakdown = [],
               travel_tips = [str ''Error creating itinerary''],
               packing_suggestions = []\<rparr>)"

section \<open>Documents without a request body\<close>

definition root :: "pystr option \<Rightarrow> json" where
  "root API_KEY =
     JObj [(str ''message'', JStr ([127757] @ str '' Travel Guide API is running!'')),
           (str ''version'', JStr (str ''1.0.0'')),
           (str ''model'', JStr MODEL),
           (str ''status'',
            JStr (if configured API_KEY then [9989] @ str '' Ready''
                  else [10060] @ str '' No API Key'')),
           (str ''endpoints'',
            JArr [JStr (str ''/api/restaurants - Get structured restaurant recommendations''),
                  JStr (str ''/api/hotels - Get structured hotel recommendations''),
                  JStr (str ''/api/itinerary - Get structured day-by-day itinerary''),
                  JStr (str ''/api/travel-guide - Get general travel advice'')])]"

definition health :: "pystr option \<Rightarrow> pystr \<Rightarrow> json" where
  "health API_KEY now =
     JObj [(str ''status'', JStr (str ''healthy'')),
           (str ''timestamp'', JStr now),
           (str ''api_configured'', JBool (configured API_KEY))]"

definition popular_destinations :: json where
  "popular_destinations =
     JObj [(str ''international'',
            JArr (map JStr
              [str ''Paris, France'', str ''Tokyo, Japan'', str ''Rome, Italy'', str ''London, UK'',
               str ''Barcelona, Spain'', str ''Amsterdam, Netherlands'', str ''Singapore'',
               str ''Bangkok, Thailand'', str ''New York, USA'', str ''Dubai, UAE''])),
           (str ''india'',
            JArr (map JStr
              [str ''Goa'', str ''Kerala'', str ''Rajasthan'', str ''Himachal Pradesh'',
               str ''Karnataka'', str ''Tamil Nadu'', str ''Uttarakhand'', str ''Maharashtra''])),
           (str ''trending'',
            JArr (map JStr
              [str ''Iceland'', str ''Portugal'', str ''Vietnam'', str ''Georgia'',
               str ''Sri Lanka'', str ''Morocco'', str ''Peru'', str ''Jordan'']))]"

lemmas handler_defs =
  sorry_text_def travel_guide_def parse_reply_def restaurants_fallback_def
  recommend_restaurants_def recommend_hotels_def create_itinerary_def root_def health_def
  popular_destinations_def

section \<open>Sample requests\<close>

definition goa_restaurants :: RestaurantRequest where
  "goa_restaurants =
     \<lparr>RestaurantRequest.destination = str ''Goa'', cuisine_type = None,
      budget = Some (str ''mid-range'')\<rparr>"

definition goa_hotels :: HotelRequest where
  "goa_hotels =
     \<lparr>HotelRequest.destination = str ''Goa'', budget = Some (str ''mid-range''),
      preferences = None\<rparr>"

definition a_key :: "pystr option" where
  "a_key = Some (str ''key'')"

definition replies :: "json \<Rightarrow> network" where
  "replies v = (\<lambda>req. Responded 200 [] (Parsed (reply_with v)))"

lemmas sample_request_defs = goa_restaurants_def goa_hotels_def a_key_def replies_def

lemma call_ai_api_replies [simp]: "call_ai_api a_key (replies v) s u = v"
  by (simp add: a_key_def replies_def call_ai_api_reply_with)

section \<open>The restaurant handler\<close>

lemma parse_reply_JStr [simp]: "parse_reply (JStr t) d b = parse_restaurants_from_ai t d b"
  by (simp add: parse_reply_def)

lemma parse_reply_other: "\<not> is_str v \<Longrightarrow> parse_reply v d b = Inl TypeError"
  by (cases v) (simp_all add: parse_reply_def)

lemma parse_reply_None [simp]: "parse_reply v d None = Inl (if is_str v then ValidationError else TypeError)"
  by (cases v) (simp_all add: parse_reply_def parse_restaurants_from_ai_def)

lemma recommend_restaurants_Some:
  "RestaurantRequest.budget r = Some b \<Longrightarrow>
   recommend_restaurants API_KEY net r =
     (case call_ai_api API_KEY net restaurant_system_prompt (restaurant_user_prompt r) of
        JStr t \<Rightarrow> parse_restaurants_from_ai t (RestaurantRequest.destination r) (Some b)
      | _ \<Rightarrow> restaurants_fallback r)"
  by (simp add: recommend_restaurants_def parse_reply_def parse_restaurants_from_ai_def
      split: json.splits)

text \<open>
  C9.  A request that sends \<^verbatim>\<open>null\<close> for the budget makes the restaurant handler raise,
  whatever the credential and the service: the extractor raises when it builds the
  response, the \<^verbatim>\<open>except\<close> clause builds its fall-back with the same budget, and that
  raises again outside any \<^verbatim>\<open>try\<close>.
\<close>

theorem recommend_restaurants_no_budget:
  "RestaurantRequest.budget r = None \<Longrightarrow> recommend_restaurants API_KEY net r = Inl ValidationError"
  by (simp add: recommend_restaurants_def restaurants_fallback_def)

theorem recommend_restaurants_no_budget_witness:
  "RestaurantRequest.budget (goa_restaurants\<lparr>RestaurantRequest.budget := None\<rparr>) = None \<and>
   recommend_restaurants a_key (replies (JStr (str ''Hello'')))
     (goa_restaurants\<lparr>RestaurantRequest.budget := None\<rparr>) = Inl ValidationError"
  using recommend_restaurants_no_budget
    [of "goa_restaurants\<lparr>RestaurantRequest.budget := None\<rparr>" a_key
      "replies (JStr (str ''Hello''))"]
  by simp

text \<open>
  C10.  With a budget the restaurant handler answers every request, whatever the service
  does: it returns a response that carries the destination and the budget of the
  request and whose restaurants are well formed.
\<close>

theorem recommend_restaurants_total:
  "RestaurantRequest.budget r = Some b \<Longrightarrow>
     \<exists>resp. recommend_restaurants API_KEY net r = Inr resp \<and>
       RestaurantResponse.destination resp = RestaurantRequest.destination r \<and>
       RestaurantResponse.budget_category resp = b \<and>
       list_all wf_Restaurant (restaurants resp)"
  by (simp add: recommend_restaurants_Some restaurants_fallback_def
      parse_restaurants_from_ai_def restaurants_of_wf split: json.splits)

theorem recommend_restaurants_total_witness:
  "RestaurantRequest.budget goa_restaurants = Some (str ''mid-range'') \<and>
   (\<exists>resp. recommend_restaurants a_key (\<lambda>req. TimedOut) goa_restaurants = Inr resp \<and>
      RestaurantResponse.destination resp = RestaurantRequest.destination goa_restaurants \<and>
      RestaurantResponse.budget_category resp = str ''mid-range'' \<and>
      list_all wf_Restaurant (restaurants resp))"
  using recommend_restaurants_total [of goa_restaurants "str ''mid-range''" a_key "\<lambda>req. TimedOut"]
  by (simp add: goa_restaurants_def)

text \<open>
  C20.  On a reply that is a string the restaurant handler is the extractor: it returns
  what \<^verbatim>\<open>parse_restaurants_from_ai\<close> returns for that text, the destination and the
  budget of the request, exception included.
\<close>

theorem recommend_restaurants_parses:
  "call_ai_api API_KEY net restaurant_system_prompt (restaurant_user_prompt r) = JStr t \<Longrightarrow>
     recommend_restaurants API_KEY net r =
       parse_restaurants_from_ai t (RestaurantRequest.destination r) (RestaurantRequest.budget r)"
  by (cases "RestaurantRequest.budget r")
    (simp_all add: recommend_restaurants_def restaurants_fallback_def
      parse_restaurants_from_ai_def)

theorem recommend_restaurants_parses_witness:
  "call_ai_api a_key (replies (JStr (str ''No tip''))) restaurant_system_prompt
     (restaurant_user_prompt goa_restaurants) = JStr (str ''No tip'') \<and>
   recommend_restaurants a_key (replies (JStr (str ''No tip''))) goa_restaurants =
     parse_restaurants_from_ai (str ''No tip'') (RestaurantRequest.destination goa_restaurants)
       (RestaurantRequest.budget goa_restaurants)"
  using recommend_restaurants_parses
    [of a_key "replies (JStr (str ''No tip''))" goa_restaurants "str ''No tip''"]
  by simp

text \<open>
  C13.  The fall-back of the restaurant handler, with its tip
  \<^verbatim>\<open>Error getting recommendations\<close>, is returned exactly when the reply of the service
  holds a content that is not a string.  No failure of the exchange leads to it, because
  the client turns every failure into a string.
\<close>

theorem recommend_restaurants_fallback_iff:
  "RestaurantRequest.budget r = Some b \<Longrightarrow>
     recommend_restaurants API_KEY net r = restaurants_fallback r \<longleftrightarrow>
       \<not> is_str (call_ai_api API_KEY net restaurant_system_prompt (restaurant_user_prompt r))"
proof -
  assume b: "RestaurantRequest.budget r = Some b"
  have "parse_restaurants_from_ai t (RestaurantRequest.destination r) (Some b)
      \<noteq> restaurants_fallback r" for t
    using tips_of_cases [of t]
    by (auto simp: parse_restaurants_from_ai_def restaurants_fallback_def b canned_tips_def)
  with b show ?thesis
    by (auto simp: recommend_restaurants_Some split: json.splits)
qed

theorem recommend_restaurants_fallback_iff_witness:
  "RestaurantRequest.budget goa_restaurants = Some (str ''mid-range'') \<and>
   (recommend_restaurants a_key (replies (JInt 7)) goa_restaurants
      = restaurants_fallback goa_restaurants \<longleftrightarrow>
    \<not> is_str (call_ai_api a_key (replies (JInt 7)) restaurant_system_prompt
         (restaurant_user_prompt goa_restaurants)))"
  using recommend_restaurants_fallback_iff
    [of goa_restaurants "str ''mid-range''" a_key "replies (JInt 7)"]
  by (simp add: goa_restaurants_def)

lemma advisory_texts_plain:
  "92 \<notin> set no_key_text \<and> tips_of no_key_text = []"
  "92 \<notin> set payment_text \<and> tips_of payment_text = []"
  "92 \<notin> set timeout_text \<and> tips_of timeout_text = []"
  "92 \<notin> set invalid_format_text \<and> tips_of invalid_format_text = []"
  by (simp_all add: no_key_text_def payment_text_def timeout_text_def invalid_format_text_def
      tips_of_def py_eval)

lemma recommend_restaurants_plain:
  "RestaurantRequest.budget r = Some b \<Longrightarrow>
   call_ai_api API_KEY net restaurant_system_prompt (restaurant_user_prompt r) = JStr t \<Longrightarrow>
   92 \<notin> set t \<Longrightarrow>
     recommend_restaurants API_KEY net r =
       Inr \<lparr>RestaurantResponse.destination = RestaurantRequest.destination r, restaurants = [],
            local_specialties = [], tips = tips_of t, budget_category = b\<rparr>"
  by (simp add: recommend_restaurants_Some parse_restaurants_from_ai_def
      restaurants_of_no_backslash local_specialties_of_no_backslash)

text \<open>
  C11.  When the client has no credential, the request times out or the service asks for
  payment, the restaurant handler returns a response with no restaurant, no specialty
  and no tip: the advisory text of the client is parsed like a completion, nothing is
  found in it, and the response does not say that anything failed.
\<close>

theorem recommend_restaurants_upstream_failure:
  "RestaurantRequest.budget r = Some b \<Longrightarrow>
   call_ai_api API_KEY net restaurant_system_prompt (restaurant_user_prompt r)
     \<in> JStr ` {no_key_text, payment_text, timeout_text, invalid_format_text} \<Longrightarrow>
     recommend_restaurants API_KEY net r =
       Inr \<lparr>RestaurantResponse.destination = RestaurantRequest.destination r, restaurants = [],
            local_specialties = [], tips = [], budget_category = b\<rparr>"
  using advisory_texts_plain by (auto simp: recommend_restaurants_plain)

theorem recommend_restaurants_upstream_failure_witness:
  "RestaurantRequest.budget goa_restaurants = Some (str ''mid-range'') \<and>
   call_ai_api a_key (\<lambda>req. TimedOut) restaurant_system_prompt
       (restaurant_user_prompt goa_restaurants)
     \<in> JStr ` {no_key_text, payment_text, timeout_text, invalid_format_text} \<and>
   recommend_restaurants a_key (\<lambda>req. TimedOut) goa_restaurants =
     Inr \<lparr>RestaurantResponse.destination = str ''Goa'', restaurants = [],
          local_specialties = [], tips = [], budget_category = str ''mid-range''\<rparr>"
proof -
  have call: "call_ai_api a_key (\<lambda>req. TimedOut) restaurant_system_prompt
      (restaurant_user_prompt goa_restaurants) = JStr timeout_text"
    by (simp add: a_key_def call_ai_api_table)
  then have "call_ai_api a_key (\<lambda>req. TimedOut) restaurant_system_prompt
       (restaurant_user_prompt goa_restaurants)
     \<in> JStr ` {no_key_text, payment_text, timeout_text, invalid_format_text}"
    by simp
  with recommend_restaurants_upstream_failure
    [of goa_restaurants "str ''mid-range''" a_key "\<lambda>req. TimedOut"]
  show ?thesis by (simp add: goa_restaurants_def)
qed

section \<open>The handlers that do not read the reply\<close>

text \<open>
  C21.  With a budget the hotel handler returns the same response for every credential
  and every behaviour of the service: no hotel, the two fixed booking tips and the two
  fixed areas, with the destination and the budget of the request.
\<close>

theorem recommend_hotels_stub:
  "HotelRequest.budget h = Some b \<Longrightarrow>
     recommend_hotels API_KEY net h =
       Inr \<lparr>HotelResponse.destination = HotelRequest.destination h, hotels = [],
            booking_tips = [str ''Book in advance'', str ''Check cancellation policy''],
            best_areas = [str ''City Center'', str ''Business District''],
            budget_category = b\<rparr>"
  by (simp add: recommend_hotels_def)

theorem recommend_hotels_stub_witness:
  "HotelRequest.budget goa_hotels = Some (str ''mid-range'') \<and>
   recommend_hotels None (\<lambda>req. Raised (str ''no route'')) goa_hotels =
     Inr \<lparr>HotelResponse.destination = HotelRequest.destination goa_hotels, hotels = [],
          booking_tips = [str ''Book in advance'', str ''Check cancellation policy''],
          best_areas = [str ''City Center'', str ''Business District''],
          budget_category = str ''mid-range''\<rparr>"
  using recommend_hotels_stub
    [of goa_hotels "str ''mid-range''" None "\<lambda>req. Raised (str ''no route'')"]
  by (simp add: goa_hotels_def)

text \<open>
  C22.  Without a budget the hotel handler raises, as the restaurant handler does: both
  the response and the fall-back need the budget as a string.
\<close>

theorem recommend_hotels_no_budget:
  "HotelRequest.budget h = None \<Longrightarrow> recommend_hotels API_KEY net h = Inl ValidationError"
  by (simp add: recommend_hotels_def)

theorem recommend_hotels_no_budget_witness:
  "HotelRequest.budget (goa_hotels\<lparr>HotelRequest.budget := None\<rparr>) = None \<and>
   recommend_hotels a_key (\<lambda>req. TimedOut) (goa_hotels\<lparr>HotelRequest.budget := None\<rparr>)
     = Inl ValidationError"
  using recommend_hotels_no_budget
    [of "goa_hotels\<lparr>HotelRequest.budget := None\<rparr>" a_key "\<lambda>req. TimedOut"]
  by simp

text \<open>
  C23.  The itinerary handler answers every request with the same plan: no day, the fixed
  budget breakdown, travel tips and packing suggestions, and the destination and the
  duration of the request.  It never returns its fall-back and never raises.
\<close>

theorem create_itinerary_stub:
  "create_itinerary API_KEY net i =
     \<lparr>ItineraryResponse.destination = ItineraryRequest.destination i,
      duration = ItineraryRequest.duration i, itinerary = [],
      budget_breakdown =
        [(str ''accommodation'', str ''40%''), (str ''food'', str ''30%''),
         (str ''activities'', str ''30%'')],
      travel_tips = [str ''Pack light'', str ''Keep copies of documents''],
      packing_suggestions = [str ''Comfortable shoes'', str ''Weather appropriate clothes'']\<rparr>"
  by (simp add: create_itinerary_def)

section \<open>The general handler\<close>

text \<open>
  C24.  The general handler returns the content of the reply verbatim when it is a
  string, and otherwise its apology with the text of the validation error: it has an
  answer for every value the client can return.
\<close>

theorem travel_guide_answer:
  "travel_guide vt API_KEY net q =
     (let v = call_ai_api API_KEY net travel_system_prompt (question q)
      in case v of
           JStr t \<Rightarrow> \<lparr>answer = t, error = None\<rparr>
         | _ \<Rightarrow> \<lparr>answer = sorry_text, error = Some (vt v)\<rparr>)"
  by (simp add: travel_guide_def mk_TravelResponse_def Let_def split: json.splits)

end
