(* ===== verification/Spec2Isabelle.thy ===== *)
theory Spec2Isabelle
  imports Prelude PyString Regex FirstMatch Json Models Prompts Extractor Layout Client Handlers
begin

text \<open>
  \<^bold>\<open>The travel guide backend, \<^verbatim>\<open>src/backend/main.py\<close>.\<close>

  The program is one FastAPI module.  A request names a destination; a handler builds a
  system prompt and a user prompt, sends them to a chat completion service
  (\<^verbatim>\<open>call_ai_api\<close>), and turns what it gets back into a typed response.  For restaurants
  the text is parsed by \<^verbatim>\<open>parse_restaurants_from_ai\<close>, a scanner built from four regular
  expressions and a few string tests; the handlers for hotels and itineraries call the
  service and return fixed lists.

  \<^bold>\<open>Theories, in the order of their imports.\<close>

  \<^item> \<open>Prelude\<close>: text as a list of Unicode code points (\<open>pystr\<close>), the exceptions of the
    modelled code (\<open>pyexn\<close>) and the result type \<open>pyexn + 'a\<close>, sequencing and
    \<^verbatim>\<open>try\<close>/\<^verbatim>\<open>except\<close> on results (\<open>rbind\<close>, \<open>try_except\<close>, \<open>try_return\<close>), the collections
    \<open>py_eval\<close> and \<open>re_eval\<close>, and the list facts the other theories share.
  \<^item> \<open>PyString\<close>: the methods of \<^verbatim>\<open>str\<close> that the source calls (\<^verbatim>\<open>strip\<close>, \<^verbatim>\<open>lower\<close>,
    \<^verbatim>\<open>split\<close>, \<^verbatim>\<open>replace\<close>, \<^verbatim>\<open>join\<close>, \<^verbatim>\<open>in\<close>), the character classes of CPython 3.11
    (Unicode 14.0) and \<^verbatim>\<open>str\<close> of an integer.  These definitions describe the
    library at the places where the program calls it.  Its lemmas: what \<^verbatim>\<open>strip\<close>
    removes and keeps (\<open>stripped\<close>), that every result of \<^verbatim>\<open>strip\<close> and \<^verbatim>\<open>split\<close> is a
    substring of its argument, and that an integer can be read back from its digits.
  \<^item> \<open>Regex\<close>: the part of the \<^verbatim>\<open>re\<close> module that the four patterns use.  \<open>regex\<close> is
    the syntax as \<^verbatim>\<open>re\<close> parses it; \<open>ms\<close> is a backtracking matcher that lists the
    successes in the order of Python's engine; \<open>search\<close> and \<open>findall_loop\<close> are
    \<^verbatim>\<open>re.search\<close> and the scanning loop of \<^verbatim>\<open>re.findall\<close>; \<open>findall_tuples\<close> and
    \<open>findall_strings\<close> are its two result shapes.  They describe the library, not lines
    of the program: the program's part is the four patterns and the calls.  \<open>matches\<close>
    is the declarative reading of a pattern; \<open>run\<close> is a backtracking machine that
    computes the head of \<open>ms\<close> and only serves to evaluate the matcher on a given text.
    Its lemmas: \<open>ms\<close> lists the ends that \<open>matches\<close> allows; the matcher only moves
    forward, so the loop of \<^verbatim>\<open>findall\<close> terminates (\<open>findall_loop\<close> is a total
    function); every group is a substring of the text; a pattern that needs a character
    (\<open>needs\<close>) finds nothing in a text without it.
  \<^item> \<open>FirstMatch\<close>: rules that follow the matcher through a pattern on a text of which
    only the layout is known.  \<open>wins\<close> says what the first success of a list of pattern
    items is; there is one rule for each construct of \<open>regex\<close>, and rules that say where
    \<^verbatim>\<open>re.search\<close> and \<^verbatim>\<open>re.findall\<close> find their next match (\<open>begins\<close>, \<open>blocked\<close>).
  \<^item> \<open>Json\<close>: the values of \<^verbatim>\<open>response.json()\<close> and the operations the client applies
    to them (\<open>truthy\<close>, \<open>py_get\<close>, \<open>py_index0\<close>, \<open>py_item\<close>), each with the exception
    and the message that CPython 3.11 raises.
  \<^item> \<open>Models\<close>: the pydantic classes of lines 46 to 133 as records with the field names
    of the source, the constraints of the request classes (\<open>valid_*\<close>), and the
    construction of the responses that can fail validation (\<open>mk_RestaurantResponse\<close>,
    \<open>mk_HotelResponse\<close>, \<open>mk_TravelResponse\<close>).
  \<^item> \<open>Prompts\<close>: the four system prompts and the three f-strings of the handlers
    (\<open>restaurant_user_prompt\<close>, \<open>hotel_user_prompt\<close>, \<open>itinerary_user_prompt\<close>), with
    \<open>template_block\<close>, the block layout that the restaurant prompt asks for, and
    \<open>specialties_heading\<close>, the heading it asks for in front of the specialties.
  \<^item> \<open>Extractor\<close>: \<^verbatim>\<open>parse_restaurants_from_ai\<close> (lines 137 to 207).  The patterns are
    \<open>restaurant_pattern\<close>, \<open>dish_pattern\<close>, \<open>specialty_section_pattern\<close> and
    \<open>specialty_pattern\<close>; the loop body is \<open>restaurant_of_match\<close> with
    \<open>signature_dishes_of\<close>, \<open>category_of\<close> and \<open>rating_of\<close>; the blocks behind the loop
    are \<open>local_specialties_of\<close> and \<open>tips_of\<close>.
  \<^item> \<open>Layout\<close>: the layouts that the patterns accept, as functions that write a text
    from its fields: \<open>block\<close> and \<open>document\<close> for restaurants, \<open>entry\<close> and \<open>listing\<close> for
    specialties, with \<open>restaurant_of_fields\<close>, the restaurant a block stands for.
  \<^item> \<open>Client\<close>: \<^verbatim>\<open>call_ai_api\<close> (lines 211 to 248) and the constants of lines 32 to 34.
    \<open>completion_request\<close> is the request it posts, \<open>try_body\<close> the block under \<^verbatim>\<open>try\<close>,
    \<open>extract_content\<close> the reading of the reply, \<open>call_ai_api\<close> the function with its
    handlers.  The network is a parameter, a function from the request to what happens
    (\<open>exchange\<close>).
  \<^item> \<open>Handlers\<close>: \<open>travel_guide\<close>, \<open>recommend_restaurants\<close>, \<open>recommend_hotels\<close>,
    \<open>create_itinerary\<close> (lines 273 to 413) and the documents \<open>root\<close>, \<open>health\<close> and
    \<open>popular_destinations\<close> (lines 250 to 271 and 415 to 432).
  \<^item> This theory: what every response promises, the response for every completion in
    the accepted layout, and one completion evaluated in full.

  \<^bold>\<open>How the model corresponds to the code.\<close>

  A Python \<^verbatim>\<open>str\<close> is a list of code points, a \<^verbatim>\<open>List\<close> a list, an \<^verbatim>\<open>Optional\<close> an option, a
  value of unknown type (what the service sent) a \<open>json\<close>.  A block that can raise
  returns a sum with the exception on the left; \<^verbatim>\<open>try\<close> with \<^verbatim>\<open>except Exception\<close> is
  \<open>try_except\<close> or \<open>try_return\<close> around the block, so an exception that leaves a handler
  is a value \<open>Inl\<close> of the handler.  Calling a pydantic class validates its fields (pydantic
  2: a \<^verbatim>\<open>str\<close> field takes a string and nothing else); the text of a validation error is
  the library's and is a parameter where the program prints it.  The rating is the one
  float the program computes; it is \<^verbatim>\<open>round(4.0 + n * 0.1, 1)\<close> for a list length \<open>n\<close>, and
  the model holds the rational number with one decimal that this float prints as.
  \<open>lower\<close> is exact on ASCII and on the two other characters whose lower case has an
  ASCII letter (U+0130 and U+212A), and leaves every other character as it is; the
  program only asks whether an ASCII word occurs in a lowered text, and for that
  question the two agree on every text.  \<open>raise_for_status\<close> is that of current httpx,
  which raises for every status outside 200 to 299.

  The patterns are the ones Python compiles, not the ones their author may have meant:
  in a raw string \<^verbatim>\<open>\\s\<close> is an escaped backslash followed by the letter s.  The model
  of \<^verbatim>\<open>re\<close> was compared with CPython on generated patterns and texts before it was
  used; the comparison is not part of the theories.

  The program keeps no state between requests and the handlers do not share any, so a
  handler is a function of the credential, the network and the request; \<^verbatim>\<open>async\<close> and
  \<^verbatim>\<open>await\<close> do not change what it returns.  The clock of \<^verbatim>\<open>health\<close> is a parameter.

  No definition uses fuel.  \<open>findall_loop\<close> is the only loop that is not structural, and
  its termination is proved from the fact that a match never ends before it starts and
  that an empty match is not reported twice at one position.

  \<^bold>\<open>What the lemmas show.\<close>

  \<^item> Extractor, on every completion.  \<open>Extractor.parse_without_backslash\<close>: a
    completion without a backslash gives no restaurant and no specialty, and the layout
    that the prompt asks for has none.  \<open>Extractor.restaurant_rating\<close>,
    \<open>Extractor.dish_single_char\<close>, \<open>Extractor.signature_dishes_fallback\<close>: what the
    dishes and the rating can be.  \<open>Extractor.restaurant_fields_from_text\<close>,
    \<open>Extractor.specialty_fields_from_text\<close>: the text fields are copied from the
    completion.  \<open>Extractor.category_luxury_first\<close>, \<open>Extractor.tips_of_keyword\<close>: the keyword
    tests.  \<open>Extractor.parse_budget_missing\<close> and \<open>parse_total\<close>: when the extractor
    raises and what each response promises.
  \<^item> Extractor, on the accepted layout.  \<open>Layout.restaurants_of_document\<close>: every block
    of a document gives its restaurant, in the order of the text.
    \<open>Layout.local_specialties_of_listing\<close>: a listing behind the heading
    \<^verbatim>\<open>Local Specialties:\<close> gives its entries.  \<open>parse_document\<close>: the whole response for
    a document with a listing.  \<open>Layout.specialties_heading_not_accepted\<close>: behind the
    heading that the prompt asks for nothing is found.
  \<^item> Client.  \<open>Client.call_ai_api_no_key\<close>, \<open>Client.call_ai_api_payment\<close>,
    \<open>Client.call_ai_api_timeout\<close>, \<open>Client.call_ai_api_no_choices\<close>,
    \<open>Client.call_ai_api_content\<close>: the paths of the client.  \<open>Client.call_ai_api_str\<close>:
    the result is a string except for a reply whose content is not one.
  \<^item> Handlers.  \<open>Handlers.recommend_restaurants_total\<close>,
    \<open>Handlers.recommend_restaurants_no_budget\<close>, \<open>Handlers.recommend_hotels_no_budget\<close>:
    a handler answers every request that has a budget and raises for one that has none.
    \<open>Handlers.recommend_restaurants_parses\<close>,
    \<open>Handlers.recommend_restaurants_fallback_iff\<close>,
    \<open>Handlers.recommend_restaurants_upstream_failure\<close>: what the restaurant handler
    returns for each kind of reply.
    \<open>Handlers.recommend_hotels_stub\<close>, \<open>Handlers.create_itinerary_stub\<close>,
    \<open>Handlers.travel_guide_answer\<close>: the other handlers.
  \<^item> Prompts.  \<open>Prompts.user_prompts_name_destination\<close>,
    \<open>Prompts.restaurant_prompt_budget_none\<close>: what a user prompt carries.

  \<^bold>\<open>What is not modelled.\<close>

  \<^item> The HTTP exchange itself: httpx, the completion service and the JSON parser are
    behind the parameter \<open>net\<close>.  The client is modelled for every exchange and the
    handlers for every value the client can return, so nothing the lemmas say depends
    on the service.  An exception on leaving the \<^verbatim>\<open>async with\<close> block of the client and
    the cancellation of a request are not modelled.
  \<^item> FastAPI: routing, the validation of a request body against its class (the
    predicates \<open>valid_*\<close> say what it admits) and the serialisation of a response.
  \<^item> The application object, the CORS middleware, the reading of the environment, the
    start-up messages and the entry point (lines 1 to 30, 36 to 42 and 435 to 438):
    configuration of libraries and output.
  \<^item> The text behind the entry point (lines 440 to 461), which is not Python.
\<close>

section \<open>Every response\<close>

text \<open>
  C8.  With a budget the extractor returns a response for every completion, and the
  response is well formed: it carries the destination and the budget it was given,
  every restaurant has a label of the source's list, at most three dishes and a rating,
  there are at most as many restaurants as the text has backslashes, and the tips are
  the fixed four or none.
\<close>

theorem parse_total:
  "\<exists>resp. parse_restaurants_from_ai t d (Some b) = Inr resp \<and>
     RestaurantResponse.destination resp = d \<and>
     RestaurantResponse.budget_category resp = b \<and>
     list_all wf_Restaurant (restaurants resp) \<and>
     length (restaurants resp) \<le> count_list t 92 \<and>
     (tips resp = [] \<or> tips resp = canned_tips)"
  using tips_of_cases [of t]
  by (simp add: parse_restaurants_from_ai_def restaurants_of_wf restaurants_of_bound)


section \<open>A completion in the accepted layout\<close>

text \<open>
  C4.  The response for a completion in the layout that the patterns accept: a document
  of restaurant blocks, then the heading \<^verbatim>\<open>Local Specialties:\<close> at the start of a line and a
  listing to the end of the text.  When the word \<^verbatim>\<open>local\<close> is not in the document, the
  response has the restaurant of every block and the specialty of every entry, in the
  order of the text, with the destination and the budget of the request.
\<close>

theorem parse_document:
  assumes "35 \<notin> set pre" and "blocks_ok bs" and "entries_ok es"
    and "\<not> sublist (str ''local'') (lower (document pre bs))"
    and "document pre bs = [] \<or> last (document pre bs) = 10"
  shows "parse_restaurants_from_ai
       (document pre bs @ str ''Local Specialties:'' @ listing [10] es) d (Some b) =
     Inr \<lparr>RestaurantResponse.destination = d,
          restaurants = map (\<lambda>(k, m, gap). restaurant_of_fields m) bs,
          local_specialties =
            map (\<lambda>(n, d). \<lparr>LocalSpecialty.name = strip n, description = strip d,
                           where_to_find = None\<rparr>) es,
          tips = tips_of (document pre bs @ str ''Local Specialties:'' @ listing [10] es),
          budget_category = b\<rparr>"
proof -
  let ?t = "document pre bs @ str ''Local Specialties:'' @ listing [10] es"
  have "restaurants_of ?t = map (\<lambda>(k, m, gap). restaurant_of_match m) bs"
    using assms(1,2) heading_listing_no_hash [OF assms(3)] by (rule restaurants_of_document_text)
  moreover have "local_specialties_of ?t = map (\<lambda>(n, d). specialty_of_match [n, d]) es"
    using local_specialties_of_end [OF assms(4,5,3)] by simp
  ultimately show ?thesis
    by (simp add: parse_restaurants_from_ai_def restaurant_of_match_def restaurant_of_fields_def
        specialty_of_match_def Let_def rating_of_eq)
qed

lemma sample_document_no_local:
  "\<not> sublist (str ''local'')
       (lower (document (str ''Top picks:'' @ [10]) [(1, sample_fields, [10])]))"
  by (simp add: sample_fields_def block_def block_heading_def labelled_def rupee_def py_eval)

lemma sample_document_last:
  "last (document (str ''Top picks:'' @ [10]) [(1, sample_fields, [10])]) = 10"
  by simp

theorem parse_document_witness:
  "parse_restaurants_from_ai
       (document (str ''Top picks:'' @ [10]) [(1, sample_fields, [10])] @
        str ''Local Specialties:'' @ listing [10] sample_entries)
       (str ''Goa'') (Some (str ''mid-range'')) =
     Inr \<lparr>RestaurantResponse.destination = str ''Goa'',
          restaurants = [restaurant_of_fields sample_fields],
          local_specialties =
            map (\<lambda>(n, d). \<lparr>LocalSpecialty.name = strip n, description = strip d,
                           where_to_find = None\<rparr>) sample_entries,
          tips = tips_of
            (document (str ''Top picks:'' @ [10]) [(1, sample_fields, [10])] @
             str ''Local Specialties:'' @ listing [10] sample_entries),
          budget_category = str ''mid-range''\<rparr>"
proof -
  have pre: "35 \<notin> set (str ''Top picks:'' @ [10])"
    by simp
  have bs: "blocks_ok [(1, sample_fields, [10])]"
    by (simp add: sample_fields_accepted)
  have last: "document (str ''Top picks:'' @ [10]) [(1, sample_fields, [10])] = [] \<or>
      last (document (str ''Top picks:'' @ [10]) [(1, sample_fields, [10])]) = 10"
    using sample_document_last ..
  from parse_document [OF pre bs sample_entries_ok sample_document_no_local last]
  show ?thesis
    by simp
qed


section \<open>One completion in full\<close>

text \<open>
  Two restaurant blocks, a specialties section and a closing line with a tip, evaluated
  by the matcher.  The first restaurant is a dhaba with a low price and a luxury
  atmosphere and names four dishes; the second block writes its lines with one
  backslash and no letter s, which the pattern accepts as well, and its dishes with
  backslashes.
\<close>

definition sample_response :: pystr where
  "sample_response =
     str ''### 1. Taj Dhaba'' @ [10] @
     labelled [92, 115] ''Location:'' (str ''Goa'') @
     labelled [92, 115] ''Signature Dishes:'' (str ''fish, rice, dal, naan'') @
     labelled [92, 115] ''Price Range:'' (rupee # str ''400'') @
     labelled [92, 115] ''Atmosphere:'' (str ''Luxury rooftop'') @
     [10] @
     str ''### 2. Sea'' @ [10] @
     labelled [92, 115] ''Location:'' (str ''Panjim'') @
     labelled [92] ''Signature Dishes:'' ([92] @ str ''P'' @ [92, 92] @ str ''R'') @
     labelled [92] ''Price Range:'' (rupee # str ''800'') @
     labelled [92] ''Atmosphere:'' (str ''calm'') @
     str ''### Local Specialties:'' @ [10] @
     [92, 115, 92] @ str ''Bebinca:'' @ [92, 32] @ str ''layered cake'' @
     [92, 115, 92] @ str ''Feni:'' @ [92] @ str ''cashew drink'' @ [10, 10] @
     str ''Tip: book early''"

lemma parse_sample:
  "parse_restaurants_from_ai sample_response (str ''Goa'') (Some (str ''mid-range'')) =
     Inr \<lparr>RestaurantResponse.destination = str ''Goa'',
          restaurants =
            [\<lparr>Restaurant.name = str ''Taj Dhaba'', location = str ''Goa'',
              signature_dishes = [str ''fish'', str ''rice'', str ''dal''],
              price_range = rupee # str ''400'', atmosphere = str ''Luxury rooftop'',
              category = str ''luxury'', rating = Some (44 / 10), cuisine_type = None\<rparr>,
             \<lparr>Restaurant.name = str ''Sea'', location = str ''Panjim'',
              signature_dishes = [str ''P''],
              price_range = rupee # str ''800'', atmosphere = str ''calm'',
              category = str ''fine-dining'', rating = Some (41 / 10), cuisine_type = None\<rparr>],
          local_specialties =
            [\<lparr>LocalSpecialty.name = str ''Bebinca'', description = str ''layered cake'',
              where_to_find = None\<rparr>,
             \<lparr>LocalSpecialty.name = str ''Feni'', description = str ''cashew drink'',
              where_to_find = None\<rparr>],
          tips = canned_tips, budget_category = str ''mid-range''\<rparr>"
  by (simp add: sample_response_def labelled_def extractor_defs re_eval py_eval)

end
